theory Spec2Isabelle
  imports Main "HOL-Library.Word" "HOL-Library.AList"
begin

unbundle bit_operations_syntax

section \<open>Shared vocabulary: errors, handles and emitted commands\<close>

text \<open>
  Go errors are values: a message and, when \<open>log.Errf(ctx, cause, msg)\<close> wraps one, the
  cause. \<open>log.Errf(ctx, nil, msg)\<close> builds an error from the message alone. Format
  arguments of the messages are left out; the fixed part of the text is kept.
\<close>

datatype err = Err string "err option"

definition Errf :: "err option \<Rightarrow> string \<Rightarrow> err" where
  "Errf cause msg = Err msg cause"

fun errMessage :: "err \<Rightarrow> string" where
  "errMessage (Err msg cause) = msg"

fun errCause :: "err \<Rightarrow> err option" where
  "errCause (Err msg cause) = cause"

text \<open>Vulkan handles (\<open>VkImage\<close>, \<open>VkQueue\<close>, ...) are 64-bit identifiers; only their identity matters.\<close>

type_synonym handle = nat

datatype VkImageType = VK_IMAGE_TYPE_1D | VK_IMAGE_TYPE_2D | VK_IMAGE_TYPE_3D

datatype VkPipelineBindPoint = VK_PIPELINE_BIND_POINT_GRAPHICS | VK_PIPELINE_BIND_POINT_COMPUTE

record VkExtent3D =
  extWidth :: "32 word"
  extHeight :: "32 word"
  extDepth :: "32 word"

record VkOffset3D =
  offX :: "32 word"
  offY :: "32 word"
  offZ :: "32 word"

text \<open>
  The commands the primer hands to the state builder's \<open>write\<close> sink, with the arguments
  the properties below read. Everything else of a call (structure types, \<open>pNext\<close>, access
  masks) is constant in the source and left out. \<open>WriteDescriptorSet\<close> is the descriptor
  update that the helper \<open>writeDescriptorSet\<close> writes for a list of image views.
\<close>

datatype command =
    VkCreateImage handle
  | VkGetImageMemoryRequirements handle
  | VkAllocateMemory "64 word" "32 word" handle
  | VkBindImageMemory handle handle "64 word"
  | VkCreateDescriptorPool handle handle
  | VkCreateDescriptorSetLayout handle handle
  | VkAllocateDescriptorSets handle handle
  | VkCreatePipelineLayout handle handle "32 word"
  | VkCreateShaderModule handle handle
  | VkCreateComputePipelines handle handle
  | VkUpdateDescriptorSets handle "32 word" handle
  | VkCmdBindPipeline VkPipelineBindPoint handle
  | VkCmdBindDescriptorSets VkPipelineBindPoint handle handle
  | VkCmdPushConstants handle "32 word" "32 word list"
  | VkCmdDispatch "32 word" "32 word" "32 word"
  | VkCmdPipelineBarrier nat
  | WriteDescriptorSet handle "32 word" "handle list"
  | VkCmdBeginRenderPass handle handle "32 word" "32 word"
  | VkCmdClearAttachments "32 word" "32 word" "32 word"
  | VkCmdSetViewport "32 word" "32 word"
  | VkCmdSetScissor "32 word" "32 word"
  | VkCmdSetStencilWriteMask "32 word"
  | VkCmdSetStencilReference "32 word"
  | VkCmdDraw "32 word" "32 word" "32 word" "32 word"
  | VkCmdEndRenderPass

text \<open>
  The Vulkan enumerations come from the generated API layer. The constants used in this
  file are given the values the Vulkan headers fix for them.
\<close>

type_synonym VkFormat = nat
type_synonym VkImageLayout = nat

definition VK_IMAGE_ASPECT_COLOR_BIT :: "32 word" where
  "VK_IMAGE_ASPECT_COLOR_BIT = 1"

definition VK_IMAGE_ASPECT_DEPTH_BIT :: "32 word" where
  "VK_IMAGE_ASPECT_DEPTH_BIT = 2"

definition VK_IMAGE_ASPECT_STENCIL_BIT :: "32 word" where
  "VK_IMAGE_ASPECT_STENCIL_BIT = 4"

definition VK_FORMAT_R32_UINT :: VkFormat where
  "VK_FORMAT_R32_UINT = 98"

definition VK_FORMAT_R32G32B32_SFLOAT :: VkFormat where
  "VK_FORMAT_R32G32B32_SFLOAT = 106"

definition VK_FORMAT_R32G32B32A32_UINT :: VkFormat where
  "VK_FORMAT_R32G32B32A32_UINT = 107"

definition VK_FORMAT_E5B9G9R9_UFLOAT_PACK32 :: VkFormat where
  "VK_FORMAT_E5B9G9R9_UFLOAT_PACK32 = 123"

definition VK_FORMAT_X8_D24_UNORM_PACK32 :: VkFormat where
  "VK_FORMAT_X8_D24_UNORM_PACK32 = 125"

definition VK_FORMAT_S8_UINT :: VkFormat where
  "VK_FORMAT_S8_UINT = 127"

definition VK_FORMAT_D16_UNORM_S8_UINT :: VkFormat where
  "VK_FORMAT_D16_UNORM_S8_UINT = 128"

definition VK_FORMAT_D24_UNORM_S8_UINT :: VkFormat where
  "VK_FORMAT_D24_UNORM_S8_UINT = 129"

definition VK_FORMAT_D32_SFLOAT_S8_UINT :: VkFormat where
  "VK_FORMAT_D32_SFLOAT_S8_UINT = 130"

definition VK_IMAGE_LAYOUT_UNDEFINED :: VkImageLayout where
  "VK_IMAGE_LAYOUT_UNDEFINED = 0"

definition VK_IMAGE_LAYOUT_GENERAL :: VkImageLayout where
  "VK_IMAGE_LAYOUT_GENERAL = 1"

definition VK_IMAGE_LAYOUT_COLOR_ATTACHMENT_OPTIMAL :: VkImageLayout where
  "VK_IMAGE_LAYOUT_COLOR_ATTACHMENT_OPTIMAL = 2"

definition VK_IMAGE_LAYOUT_DEPTH_STENCIL_ATTACHMENT_OPTIMAL :: VkImageLayout where
  "VK_IMAGE_LAYOUT_DEPTH_STENCIL_ATTACHMENT_OPTIMAL = 3"

definition VK_IMAGE_LAYOUT_SHADER_READ_ONLY_OPTIMAL :: VkImageLayout where
  "VK_IMAGE_LAYOUT_SHADER_READ_ONLY_OPTIMAL = 5"

definition VK_IMAGE_LAYOUT_TRANSFER_DST_OPTIMAL :: VkImageLayout where
  "VK_IMAGE_LAYOUT_TRANSFER_DST_OPTIMAL = 7"

definition VK_IMAGE_LAYOUT_PREINITIALIZED :: VkImageLayout where
  "VK_IMAGE_LAYOUT_PREINITIALIZED = 8"

definition stagingColorImageBufferFormat :: VkFormat where
  "stagingColorImageBufferFormat = VK_FORMAT_R32G32B32A32_UINT"

definition stagingDepthStencilImageBufferFormat :: VkFormat where
  "stagingDepthStencilImageBufferFormat = VK_FORMAT_R32_UINT"

section \<open>Staging image allocation (\<open>imagePrimer.createImageAndBindMemory\<close>)\<close>

text \<open>
  \<open>subInferImageSize\<close> belongs to the generated API layer; its result (an error or a
  \<open>VkDeviceSize\<close>, an unsigned 64-bit integer) is an argument. The handles come from
  \<open>newUnusedID\<close>. The function writes its commands as it goes, so the commands written
  before a failure stay written: the result is the command list and the returned value.
\<close>

definition createImageAndBindMemory ::
  "handle \<Rightarrow> (err + 64 word) \<Rightarrow> 32 word \<Rightarrow> handle \<Rightarrow> handle
     \<Rightarrow> command list \<times> (err + handle \<times> handle)" where
  "createImageAndBindMemory dev inferImageSize memTypeIndex imgHandle memHandle =
     (let created = [VkCreateImage imgHandle, VkGetImageMemoryRequirements imgHandle] in
      case inferImageSize of
        Inl e \<Rightarrow> (created, Inl (Errf (Some e) ''[Getting image size]''))
      | Inr imgSize \<Rightarrow>
          (let allocSize = imgSize * 2;
               allocSize = (if allocSize < 256 * 1024 then 256 * 1024 else allocSize)
           in (created @ [VkAllocateMemory allocSize memTypeIndex memHandle,
                          VkBindImageMemory imgHandle memHandle 0],
               Inr (imgHandle, memHandle))))"

text \<open>The sizes of the device-memory allocations in a command list, in order.\<close>

fun allocationSizes :: "command list \<Rightarrow> 64 word list" where
  "allocationSizes [] = []"
| "allocationSizes (VkAllocateMemory sz ix h # cs) = sz # allocationSizes cs"
| "allocationSizes (c # cs) = allocationSizes cs"

section \<open>The image-store handler (\<open>ipImageStoreHandler.store\<close>)\<close>

record ImageViewObject =
  viewHandle :: handle
  viewDevice :: handle
  viewImage :: handle
  viewImageType :: VkImageType
  viewFmt :: nat
  viewAspectMask :: "32 word"

text \<open>
  The job's fields \<open>input\<close>, \<open>inputIndex\<close>, \<open>output\<close>, \<open>offset\<close> and \<open>extent\<close>, prefixed because
  \<open>input\<close> and \<open>output\<close> are reserved words here. \<open>inputIndex\<close> is a Go \<open>int\<close>;
  \<open>offset\<close> holds \<open>int32\<close> coordinates, kept as their bit patterns.
\<close>

record ipImageStoreJob =
  jobInput :: ImageViewObject
  jobInputIndex :: int
  jobOutput :: ImageViewObject
  jobOffset :: VkOffset3D
  jobExtent :: VkExtent3D

record ipImageStoreShaderInfo =
  infoDev :: handle
  inputFormat :: nat
  inputAspect :: "32 word"
  outputFormat :: nat
  outputAspect :: "32 word"
  imgType :: VkImageType

text \<open>The handler's caches: Go maps, here partial functions.\<close>

record ipImageStoreHandler =
  descSetLayouts :: "handle \<rightharpoonup> handle"
  descPools :: "handle \<rightharpoonup> handle"
  descSets :: "handle \<rightharpoonup> handle"
  pipelineLayouts :: "handle \<rightharpoonup> handle"
  pipelines :: "ipImageStoreShaderInfo \<rightharpoonup> handle"
  shaders :: "ipImageStoreShaderInfo \<rightharpoonup> handle"

definition ipImageStoreOutputImageBinding :: "32 word" where
  "ipImageStoreOutputImageBinding = 0"

definition ipImageStoreInputImageBinding :: "32 word" where
  "ipImageStoreInputImageBinding = 1"

definition specMaxComputeGroupCountX :: "32 word" where
  "specMaxComputeGroupCountX = 65536"

definition specMaxComputeGroupCountY :: "32 word" where
  "specMaxComputeGroupCountY = 65536"

definition specMaxComputeGroupCountZ :: "32 word" where
  "specMaxComputeGroupCountZ = 65536"

text \<open>
  A scratch task as the handler sees it: the queue, the writes of its \<open>doOnCommitted\<close>
  callbacks and the commands recorded with \<open>recordCmdBufCommand\<close>, both in order.
\<close>

record scratchTask =
  taskQueue :: handle
  onCommitted :: "command list"
  recorded :: "command list"

text \<open>
  What \<open>store\<close> takes from outside this file: the handles \<open>newUnusedID\<close> picks, the SPIR-V
  generator \<open>ipComputeShaderSpirv\<close>, and the outcome of \<open>tsk.commit()\<close> (\<open>None\<close> is Go's
  \<open>nil\<close> error).
\<close>

record storeEnv =
  freshDescPool :: handle
  freshDescSetLayout :: handle
  freshDescSet :: handle
  freshPipelineLayout :: handle
  freshShaderModule :: handle
  freshPipeline :: handle
  ipComputeShaderSpirv :: "ipImageStoreShaderInfo \<Rightarrow> err + 32 word list"
  commitResult :: "err option"

definition getOrCreateShaderModule ::
  "storeEnv \<Rightarrow> ipImageStoreHandler \<Rightarrow> ipImageStoreShaderInfo
     \<Rightarrow> ipImageStoreHandler \<times> command list \<times> (err + handle)" where
  "getOrCreateShaderModule env h info =
     (case shaders h info of
        Some m \<Rightarrow> (h, [], Inr m)
      | None \<Rightarrow>
          (case ipComputeShaderSpirv env info of
             Inl e \<Rightarrow> (h, [], Inl (Errf (Some e) ''[Generating SPIR-V for: %v]''))
           | Inr code \<Rightarrow>
               if length code = 0
               then (h, [], Inl (Errf None ''no SPIR-V code generated''))
               else (h\<lparr>shaders := (shaders h)(info \<mapsto> freshShaderModule env)\<rparr>,
                     [VkCreateShaderModule (infoDev info) (freshShaderModule env)],
                     Inr (freshShaderModule env))))"

definition getOrCreateComputePipeline ::
  "storeEnv \<Rightarrow> ipImageStoreHandler \<Rightarrow> ipImageStoreShaderInfo
     \<Rightarrow> ipImageStoreHandler \<times> command list \<times> (err + handle)" where
  "getOrCreateComputePipeline env h info =
     (case pipelines h info of
        Some p \<Rightarrow> (h, [], Inr p)
      | None \<Rightarrow>
          (case getOrCreateShaderModule env h info of
             (h', w, Inl e) \<Rightarrow> (h', w, Inl (Errf (Some e) ''[Getting compute shader module]''))
           | (h', w, Inr compShader) \<Rightarrow>
               (case pipelineLayouts h' (infoDev info) of
                  None \<Rightarrow> (h', w, Inl (Errf None ''pipeline layout not found''))
                | Some layout \<Rightarrow>
                    (h'\<lparr>pipelines := (pipelines h')(info \<mapsto> freshPipeline env)\<rparr>,
                     w @ [VkCreateComputePipelines (infoDev info) (freshPipeline env)],
                     Inr (freshPipeline env)))))"

text \<open>
  The outcome of one \<open>store\<close> call: the returned error (\<open>None\<close> for \<open>nil\<close>), the handler
  with its caches, the object-creation commands written, the scratch task if one was built,
  the messages given to \<open>log.E\<close>, and whether the queue family's scratch resources were
  flushed.
\<close>

record storeResult =
  returned :: "err option"
  handlerAfter :: ipImageStoreHandler
  written :: "command list"
  task :: "scratchTask option"
  logged :: "string list"
  flushed :: bool

definition storeFailed :: "err \<Rightarrow> ipImageStoreHandler \<Rightarrow> command list \<Rightarrow> storeResult" where
  "storeFailed e h w =
     \<lparr>returned = Some e, handlerAfter = h, written = w, task = None, logged = [], flushed = False\<rparr>"

definition compShaderInfoOf :: "ipImageStoreJob \<Rightarrow> ipImageStoreShaderInfo" where
  "compShaderInfoOf job =
     \<lparr>infoDev = viewDevice (jobOutput job),
      inputFormat = viewFmt (jobInput job),
      inputAspect = viewAspectMask (jobInput job),
      outputFormat = viewFmt (jobOutput job),
      outputAspect = viewAspectMask (jobOutput job),
      imgType = viewImageType (jobInput job)\<rparr>"

text \<open>
  The first part of \<open>store\<close>: the descriptor pool, descriptor-set layout, descriptor set and
  pipeline layout of the device, each created on first use and cached. It yields the
  handler, the commands written, the descriptor set, the pipeline layout, the push-constant
  words (\<open>metaData\<close>) and their size in bytes (\<open>len(db.Bytes())\<close>).
\<close>

definition storeSetup ::
  "storeEnv \<Rightarrow> ipImageStoreHandler \<Rightarrow> ipImageStoreJob
     \<Rightarrow> ipImageStoreHandler \<times> command list \<times> handle \<times> handle \<times> 32 word list \<times> 32 word" where
  "storeSetup env h job =
     (let dev = viewDevice (jobOutput job);
          (h1, w1, descPool) =
            (case descPools h dev of
               Some p \<Rightarrow> (h, [], p)
             | None \<Rightarrow> (h\<lparr>descPools := (descPools h)(dev \<mapsto> freshDescPool env)\<rparr>,
                         [VkCreateDescriptorPool dev (freshDescPool env)], freshDescPool env));
          (h2, w2, descSetLayout) =
            (case descSetLayouts h1 dev of
               Some l \<Rightarrow> (h1, [], l)
             | None \<Rightarrow> (h1\<lparr>descSetLayouts := (descSetLayouts h1)(dev \<mapsto> freshDescSetLayout env)\<rparr>,
                         [VkCreateDescriptorSetLayout dev (freshDescSetLayout env)],
                         freshDescSetLayout env));
          (h3, w3, descSet) =
            (case descSets h2 dev of
               Some s \<Rightarrow> (h2, [], s)
             | None \<Rightarrow> (h2\<lparr>descSets := (descSets h2)(dev \<mapsto> freshDescSet env)\<rparr>,
                         [VkAllocateDescriptorSets dev (freshDescSet env)], freshDescSet env));
          metaData = [offX (jobOffset job), offY (jobOffset job), offZ (jobOffset job),
                      word_of_int (jobInputIndex job)];
          dbLen = 4 * word_of_nat (length metaData);
          (h4, w4, pipelineLayoutHandle) =
            (case pipelineLayouts h3 dev of
               Some l \<Rightarrow> (h3, [], l)
             | None \<Rightarrow> (h3\<lparr>pipelineLayouts := (pipelineLayouts h3)(dev \<mapsto> freshPipelineLayout env)\<rparr>,
                         [VkCreatePipelineLayout dev (freshPipelineLayout env) dbLen],
                         freshPipelineLayout env))
      in (h4, w1 @ w2 @ w3 @ w4, descSet, pipelineLayoutHandle, metaData, dbLen))"

definition store :: "storeEnv \<Rightarrow> ipImageStoreHandler \<Rightarrow> ipImageStoreJob \<Rightarrow> handle \<Rightarrow> storeResult" where
  "store env h job queue =
     (case storeSetup env h job of
        (h4, w, descSet, pipelineLayoutHandle, metaData, dbLen) \<Rightarrow>
         if viewImageType (jobInput job) \<noteq> viewImageType (jobOutput job)
         then storeFailed
                (Errf (Some (Err ''input image type: %v != output image type: %v'' None))
                   ''[Checking compute pipeline shader info]'') h4 w
         else
           (case getOrCreateComputePipeline env h4 (compShaderInfoOf job) of
              (h5, w5, Inl e) \<Rightarrow>
                storeFailed (Errf (Some e) ''[Getting compute pipeline]'') h5 (w @ w5)
            | (h5, w5, Inr pipeline) \<Rightarrow>
                if specMaxComputeGroupCountX < extWidth (jobExtent job)
                then storeFailed
                       (Errf (Some (Err ''Extent.Width: %v too large'' None))
                          ''[Checking imageStore extent dimension]'') h5 (w @ w5)
                else if specMaxComputeGroupCountY < extHeight (jobExtent job)
                then storeFailed
                       (Errf (Some (Err ''Extent.Height: %v too large'' None))
                          ''[Checking imageStore extent dimension]'') h5 (w @ w5)
                else if specMaxComputeGroupCountZ < extDepth (jobExtent job)
                then storeFailed
                       (Errf (Some (Err ''Extent.z: %v too large'' None))
                          ''[Checking imageStore extent dimension]'') h5 (w @ w5)
                else
                  (let tsk =
                         \<lparr>taskQueue = queue,
                          onCommitted =
                            [VkUpdateDescriptorSets descSet ipImageStoreOutputImageBinding
                               (viewHandle (jobOutput job)),
                             VkUpdateDescriptorSets descSet ipImageStoreInputImageBinding
                               (viewHandle (jobInput job))],
                          recorded =
                            [VkCmdBindPipeline VK_PIPELINE_BIND_POINT_COMPUTE pipeline,
                             VkCmdBindDescriptorSets VK_PIPELINE_BIND_POINT_COMPUTE
                               pipelineLayoutHandle descSet,
                             VkCmdPushConstants pipelineLayoutHandle dbLen metaData,
                             VkCmdDispatch (extWidth (jobExtent job)) (extHeight (jobExtent job))
                               (extDepth (jobExtent job))]\<rparr>
                   in \<lparr>returned = None,
                       handlerAfter = h5,
                       written = w @ w5,
                       task = Some tsk,
                       logged =
                         (case commitResult env of
                            None \<Rightarrow> []
                          | Some e \<Rightarrow>
                              [''[Committing scratch task for priming storage image: %v by imageStore, image view subresource: %v ] %v'']),
                       flushed = True\<rparr>)))"

text \<open>The group counts of the dispatches in a command list, in order.\<close>

fun dispatches :: "command list \<Rightarrow> (32 word \<times> 32 word \<times> 32 word) list" where
  "dispatches [] = []"
| "dispatches (VkCmdDispatch gx gy gz # cs) = (gx, gy, gz) # dispatches cs"
| "dispatches (c # cs) = dispatches cs"

definition emptyStoreHandler :: ipImageStoreHandler where
  "emptyStoreHandler =
     \<lparr>descSetLayouts = Map.empty, descPools = Map.empty, descSets = Map.empty,
      pipelineLayouts = Map.empty, pipelines = Map.empty, shaders = Map.empty\<rparr>"

text \<open>Concrete inputs for evaluating \<open>store\<close>: a first call on a device, with a 2-D job.\<close>

definition job0 :: ipImageStoreJob where
  "job0 =
     \<lparr>jobInput = \<lparr>viewHandle = 11, viewDevice = 1, viewImage = 21,
                  viewImageType = VK_IMAGE_TYPE_2D, viewFmt = 107, viewAspectMask = 1\<rparr>,
      jobInputIndex = 0,
      jobOutput = \<lparr>viewHandle = 12, viewDevice = 1, viewImage = 22,
                   viewImageType = VK_IMAGE_TYPE_2D, viewFmt = 37, viewAspectMask = 1\<rparr>,
      jobOffset = \<lparr>offX = 0, offY = 0, offZ = 0\<rparr>,
      jobExtent = \<lparr>extWidth = 65536, extHeight = 4, extDepth = 1\<rparr>\<rparr>"

definition jobTooWide :: ipImageStoreJob where
  "jobTooWide = job0\<lparr>jobExtent := \<lparr>extWidth = 65537, extHeight = 4, extDepth = 1\<rparr>\<rparr>"

definition env0 :: "err option \<Rightarrow> storeEnv" where
  "env0 c =
     \<lparr>freshDescPool = 101, freshDescSetLayout = 102, freshDescSet = 103,
      freshPipelineLayout = 104, freshShaderModule = 105, freshPipeline = 106,
      ipComputeShaderSpirv = (\<lambda>i. Inr [119734787]), commitResult = c\<rparr>"

section \<open>Deferred cleanup (\<open>deferUntilAllCommittedExecuted\<close>, \<open>free\<close>)\<close>

text \<open>
  The scratch tasks of the state builder, as far as cleanup goes: each committed task with
  its queue and its \<open>deferUntilExecuted\<close> callbacks, in commit order. A queue executes its
  tasks in that order, and a task's callbacks run when it has executed. The callbacks are
  closures; their type \<open>'cb\<close> is left open. \<open>deferUntilAllCommittedExecuted\<close> puts one
  closure on a new task, which calls the given functions in order, and drops the result of
  \<open>commit\<close>; a task whose commit failed is never executed, so it is not kept.
\<close>

record 'cb committedTask =
  ctQueue :: handle
  ctDeferred :: "'cb list"

definition deferUntilAllCommittedExecuted ::
  "err option \<Rightarrow> 'cb committedTask list \<Rightarrow> handle \<Rightarrow> 'cb list \<Rightarrow> 'cb committedTask list" where
  "deferUntilAllCommittedExecuted commitErr sb queue f =
     (let tsk = \<lparr>ctQueue = queue, ctDeferred = f\<rparr>
      in case commitErr of None \<Rightarrow> sb @ [tsk] | Some e \<Rightarrow> sb)"

text \<open>The callbacks that run, in order, once every committed task has executed.\<close>

definition runDeferred :: "'cb committedTask list \<Rightarrow> 'cb list" where
  "runDeferred sb = concat (map ctDeferred sb)"

record 'cb ipPrimeableByRendering =
  prImg :: handle
  prStagingImages :: "(32 word \<times> handle list) list"
  prFreeCallbacks :: "'cb list"
  prQueue :: handle

record 'cb ipPrimeableByImageStore =
  psImg :: handle
  psQueue :: handle
  psStoreJobs :: "ipImageStoreJob list"
  psFreeCallbacks :: "'cb list"

text \<open>
  \<open>ipPrimeableByRendering.free\<close> and \<open>ipPrimeableByImageStore.free\<close>: the state builder's
  tasks and the receiver, before and after. Go's \<open>nil\<close> slice is the empty list.
\<close>

definition freeByRendering ::
  "err option \<Rightarrow> 'cb committedTask list \<Rightarrow> 'cb ipPrimeableByRendering
     \<Rightarrow> 'cb committedTask list \<times> 'cb ipPrimeableByRendering" where
  "freeByRendering commitErr sb pi =
     (deferUntilAllCommittedExecuted commitErr sb (prQueue pi) (prFreeCallbacks pi),
      pi\<lparr>prFreeCallbacks := []\<rparr>)"

definition freeByImageStore ::
  "err option \<Rightarrow> 'cb committedTask list \<Rightarrow> 'cb ipPrimeableByImageStore
     \<Rightarrow> 'cb committedTask list \<times> 'cb ipPrimeableByImageStore" where
  "freeByImageStore commitErr sb pi =
     (deferUntilAllCommittedExecuted commitErr sb (psQueue pi) (psFreeCallbacks pi),
      pi\<lparr>psFreeCallbacks := []\<rparr>)"

text \<open>Calling \<open>free\<close> twice, the commits of the two calls ending as \<open>c1\<close> and \<open>c2\<close>.\<close>

definition freeTwiceByRendering ::
  "err option \<Rightarrow> err option \<Rightarrow> 'cb committedTask list \<Rightarrow> 'cb ipPrimeableByRendering
     \<Rightarrow> 'cb committedTask list \<times> 'cb ipPrimeableByRendering" where
  "freeTwiceByRendering c1 c2 sb pi =
     (case freeByRendering c1 sb pi of (sb1, pi1) \<Rightarrow> freeByRendering c2 sb1 pi1)"

definition freeTwiceByImageStore ::
  "err option \<Rightarrow> err option \<Rightarrow> 'cb committedTask list \<Rightarrow> 'cb ipPrimeableByImageStore
     \<Rightarrow> 'cb committedTask list \<times> 'cb ipPrimeableByImageStore" where
  "freeTwiceByImageStore c1 c2 sb pi =
     (case freeByImageStore c1 sb pi of (sb1, pi1) \<Rightarrow> freeByImageStore c2 sb1 pi1)"

section \<open>The format normalizer (\<open>unpackData\<close>, \<open>unpackDataForPriming\<close>)\<close>

text \<open>
  The stream package's format description, as \<open>unpackData\<close> reads and rewrites it: a format
  is a list of components, a component has a data type, a sampling and a channel. The
  protobuf getters are nil-safe, so an absent data type is \<open>None\<close> and answers every kind
  query with "no". An \<open>image.Format\<close> is uncompressed, carrying a stream format, or it is
  not.
\<close>

datatype Channel =
    Channel_Undefined | Channel_Red | Channel_Green | Channel_Blue | Channel_Alpha
  | Channel_Luminance | Channel_Depth | Channel_Stencil | Channel_Other nat

datatype Kind = Integer nat | Float nat nat | Fixed nat nat | KindUnset

record DataType =
  dtSigned :: bool
  dtKind :: Kind

datatype Curve = Curve_Linear | Curve_sRGB

record Sampling =
  smpPremultiplied :: bool
  smpNormalized :: bool
  smpCurve :: Curve

record Component =
  cDataType :: "DataType option"
  cSampling :: "Sampling option"
  cChannel :: Channel

datatype imageFormat = Uncompressed "Component list" | NotUncompressed string

text \<open>
  Modelled from the spec: the stream package's predeclared data types and sampling, which
  are not in the sources at hand: the unsigned and the signed 32-bit integer, the 32-bit
  float, and linear sampling (not normalized).
\<close>

definition U32 :: DataType where
  "U32 = \<lparr>dtSigned = False, dtKind = Integer 32\<rparr>"

definition S32 :: DataType where
  "S32 = \<lparr>dtSigned = True, dtKind = Integer 31\<rparr>"

definition F32 :: DataType where
  "F32 = \<lparr>dtSigned = True, dtKind = Float 8 23\<rparr>"

definition Linear :: Sampling where
  "Linear = \<lparr>smpPremultiplied = False, smpNormalized = False, smpCurve = Curve_Linear\<rparr>"

fun GetInteger :: "DataType option \<Rightarrow> nat option" where
  "GetInteger (Some dt) = (case dtKind dt of Integer n \<Rightarrow> Some n | _ \<Rightarrow> None)"
| "GetInteger None = None"

fun GetFloat :: "DataType option \<Rightarrow> (nat \<times> nat) option" where
  "GetFloat (Some dt) = (case dtKind dt of Float e m \<Rightarrow> Some (e, m) | _ \<Rightarrow> None)"
| "GetFloat None = None"

fun GetSigned :: "DataType option \<Rightarrow> bool" where
  "GetSigned (Some dt) = dtSigned dt"
| "GetSigned None = False"

text \<open>
  \<open>Format.Component(channel)\<close>: the component of the format with that channel, here the
  index of the first one, so that writing through the returned pointer is an update at that
  index.
\<close>

fun formatComponent :: "Component list \<Rightarrow> Channel \<Rightarrow> nat option" where
  "formatComponent [] c = None"
| "formatComponent (t # ts) c =
     (if cChannel t = c then Some 0 else map_option Suc (formatComponent ts c))"

text \<open>
  One round of the loop of \<open>unpackData\<close> over the source components: it rewrites the source
  component \<open>sc\<close> and the destination component \<open>dc\<close> in place, or returns an error.
\<close>

definition unpackComponent :: "Component \<Rightarrow> Component list \<Rightarrow> err + Component \<times> Component list" where
  "unpackComponent sc df =
     (let sc1 = (if cChannel sc = Channel_Depth \<or> cChannel sc = Channel_Stencil
                 then sc\<lparr>cChannel := Channel_Red\<rparr> else sc)
      in case formatComponent df (cChannel sc1) of
           None \<Rightarrow>
             Inl (Errf None ''[Building src format: %v] unsuppored channel in source data format: %v'')
         | Some i \<Rightarrow>
             (let sc2 = sc1\<lparr>cSampling := Some Linear\<rparr>
              in if GetInteger (cDataType sc2) \<noteq> None
                 then (let dc = (df ! i)\<lparr>cDataType := Some U32, cSampling := Some Linear\<rparr>;
                           dc = (if GetSigned (cDataType sc2) then dc\<lparr>cDataType := Some S32\<rparr> else dc)
                       in Inr (sc2, df[i := dc]))
                 else if GetFloat (cDataType sc2) \<noteq> None
                 then (let dc = (df ! i)\<lparr>cDataType := Some F32, cSampling := Some Linear\<rparr>
                       in Inr (sc2, df[i := dc]))
                 else Inl (Errf None
                   ''[Building dst format for: %v] DataType other than stream.Integer and stream.Float are not handled.'')))"

text \<open>The loop: the rewritten source format and destination format, or the first error.\<close>

fun unpackFormats :: "Component list \<Rightarrow> Component list \<Rightarrow> err + Component list \<times> Component list" where
  "unpackFormats [] df = Inr ([], df)"
| "unpackFormats (sc # rest) df =
     (case unpackComponent sc df of
        Inl e \<Rightarrow> Inl e
      | Inr (sc', df1) \<Rightarrow>
          (case unpackFormats rest df1 of
             Inl e \<Rightarrow> Inl e
           | Inr (sf', df') \<Rightarrow> Inr (sc' # sf', df')))"

text \<open>
  \<open>stream.Convert\<close> is an argument: \<open>unpackData\<close> decides the two formats and hands the
  bytes over.
\<close>

definition unpackData ::
  "(Component list \<Rightarrow> Component list \<Rightarrow> 8 word list \<Rightarrow> err + 8 word list)
     \<Rightarrow> 8 word list \<Rightarrow> imageFormat \<Rightarrow> imageFormat \<Rightarrow> err + 8 word list" where
  "unpackData streamConvert dat srcFmt dstFmt =
     (case srcFmt of
        NotUncompressed n \<Rightarrow> Inl (Errf None ''compressed format: %v is not supported'')
      | Uncompressed sf \<Rightarrow>
          (case dstFmt of
             NotUncompressed n \<Rightarrow> Inl (Errf None ''compressed format: %v is not supported'')
           | Uncompressed df \<Rightarrow>
               (case unpackFormats sf df of
                  Inl e \<Rightarrow> Inl e
                | Inr (sf', df') \<Rightarrow>
                    (case streamConvert df' sf' dat of
                       Inl e \<Rightarrow> Inl (Errf (Some e) ''[Converting data from %v to %v]'')
                     | Inr converted \<Rightarrow> Inr converted))))"

text \<open>
  The format tables (\<open>getImageFormatFromVulkanFormat\<close>, \<open>getDepthImageFormatFromVulkanFormat\<close>)
  and the two converters live in other files; they are the fields of \<open>formatEnv\<close>.
\<close>

record formatEnv =
  getImageFormatFromVulkanFormat :: "VkFormat \<Rightarrow> err + imageFormat"
  getDepthImageFormatFromVulkanFormat :: "VkFormat \<Rightarrow> err + imageFormat"
  streamConvert :: "Component list \<Rightarrow> Component list \<Rightarrow> 8 word list \<Rightarrow> err + 8 word list"
  imageConvert :: "8 word list \<Rightarrow> VkExtent3D \<Rightarrow> imageFormat \<Rightarrow> imageFormat \<Rightarrow> err + 8 word list"

definition unpackDataForPriming ::
  "formatEnv \<Rightarrow> 8 word list \<Rightarrow> VkFormat \<Rightarrow> 32 word \<Rightarrow> err + 8 word list \<times> VkFormat" where
  "unpackDataForPriming fenv dat srcFmt aspect =
     (let chosen =
            (if aspect = VK_IMAGE_ASPECT_COLOR_BIT
             then (case getImageFormatFromVulkanFormat fenv srcFmt of
                     Inl e \<Rightarrow> Inl (Errf (Some e) ''[Getting image.Format for VkFormat: %v, aspect: %v]'')
                   | Inr sf \<Rightarrow> Inr (sf, stagingColorImageBufferFormat))
             else if aspect = VK_IMAGE_ASPECT_DEPTH_BIT
             then (case getDepthImageFormatFromVulkanFormat fenv srcFmt of
                     Inl e \<Rightarrow> Inl (Errf (Some e) ''[Getting image.Format for VkFormat: %v, aspect: %v]'')
                   | Inr sf \<Rightarrow> Inr (sf, stagingDepthStencilImageBufferFormat))
             else if aspect = VK_IMAGE_ASPECT_STENCIL_BIT
             then (case getImageFormatFromVulkanFormat fenv VK_FORMAT_S8_UINT of
                     Inl e \<Rightarrow> Inl (Errf (Some e) ''[Getting image.Format for VkFormat: %v, aspect: %v]'')
                   | Inr sf \<Rightarrow> Inr (sf, stagingDepthStencilImageBufferFormat))
             else Inl (Errf None ''unsupported aspect: %v''))
      in case chosen of
           Inl e \<Rightarrow> Inl e
         | Inr (sf, dstFmt) \<Rightarrow>
             (case getImageFormatFromVulkanFormat fenv dstFmt of
                Inl e \<Rightarrow> Inl (Errf (Some e) ''[Getting image.Format for VkFormat %v]'')
              | Inr df \<Rightarrow>
                  (case unpackData (streamConvert fenv) dat sf df of
                     Inl e \<Rightarrow> Inl e
                   | Inr unpacked \<Rightarrow> Inr (unpacked, dstFmt))))"

text \<open>The channel a source channel is rewritten to: depth and stencil go to red.\<close>

definition remapChannel :: "Channel \<Rightarrow> Channel" where
  "remapChannel c = (if c = Channel_Depth \<or> c = Channel_Stencil then Channel_Red else c)"

text \<open>The data type the loop writes into the destination component for a source data type.\<close>

definition widened :: "DataType option \<Rightarrow> DataType" where
  "widened dt = (if GetInteger dt \<noteq> None then (if GetSigned dt then S32 else U32) else F32)"

text \<open>
  Concrete formats for evaluation: an 8-bit unsigned-normalized RGBA source, a source with
  a 15-bit signed-normalized red and a half-float green channel, a 32-bit float depth
  source, and the two canonical staging formats.
\<close>

definition normalizedSampling :: Sampling where
  "normalizedSampling = \<lparr>smpPremultiplied = False, smpNormalized = True, smpCurve = Curve_Linear\<rparr>"

definition fmtRGBA8unorm :: "Component list" where
  "fmtRGBA8unorm =
     map (\<lambda>c. \<lparr>cDataType = Some \<lparr>dtSigned = False, dtKind = Integer 8\<rparr>,
                cSampling = Some normalizedSampling, cChannel = c\<rparr>)
       [Channel_Red, Channel_Green, Channel_Blue, Channel_Alpha]"

definition fmtMixed :: "Component list" where
  "fmtMixed =
     [\<lparr>cDataType = Some \<lparr>dtSigned = True, dtKind = Integer 15\<rparr>,
       cSampling = Some normalizedSampling, cChannel = Channel_Red\<rparr>,
      \<lparr>cDataType = Some \<lparr>dtSigned = True, dtKind = Float 5 10\<rparr>,
       cSampling = Some Linear, cChannel = Channel_Green\<rparr>]"

definition fmtDepthF32 :: "Component list" where
  "fmtDepthF32 =
     [\<lparr>cDataType = Some F32, cSampling = Some Linear, cChannel = Channel_Depth\<rparr>]"

definition fmtRGBA32uint :: "Component list" where
  "fmtRGBA32uint =
     map (\<lambda>c. \<lparr>cDataType = Some U32, cSampling = Some Linear, cChannel = c\<rparr>)
       [Channel_Red, Channel_Green, Channel_Blue, Channel_Alpha]"

definition fmtR32uint :: "Component list" where
  "fmtR32uint = [\<lparr>cDataType = Some U32, cSampling = Some Linear, cChannel = Channel_Red\<rparr>]"

section \<open>The buffer-image copy session (\<open>ipBufferImageCopySession\<close>)\<close>

datatype VkImageTiling = VK_IMAGE_TILING_OPTIMAL | VK_IMAGE_TILING_LINEAR

text \<open>An image object of a state, with the creation parameters (\<open>Info()\<close>) the primer reads.\<close>

record ImageObject =
  imgVulkanHandle :: handle
  imgFmt :: VkFormat
  imgExtent :: VkExtent3D
  imgMipLevels :: "32 word"
  imgArrayLayers :: "32 word"
  imgUsage :: "32 word"
  imgTiling :: VkImageTiling
  imgInitialLayout :: VkImageLayout
  imgImageAspect :: "32 word"

record byteSizeAndExtent =
  levelSize :: "64 word"
  alignedLevelSize :: "64 word"
  levelSizeInBuf :: "64 word"
  alignedLevelSizeInBuf :: "64 word"
  bseWidth :: "64 word"
  bseHeight :: "64 word"
  bseDepth :: "64 word"

record VkImageSubresourceRange =
  rngAspectMask :: "32 word"
  rngBaseMipLevel :: "32 word"
  rngLevelCount :: "32 word"
  rngBaseArrayLayer :: "32 word"
  rngLayerCount :: "32 word"

record VkImageSubresourceLayers =
  slAspectMask :: "32 word"
  slMipLevel :: "32 word"
  slBaseArrayLayer :: "32 word"
  slLayerCount :: "32 word"

record VkBufferImageCopy =
  bufferOffset :: "64 word"
  bufferRowLength :: "32 word"
  bufferImageHeight :: "32 word"
  imageSubresource :: VkImageSubresourceLayers
  imageOffset :: VkOffset3D
  imageExtent :: VkExtent3D

text \<open>
  A slice of the stored bytes of one subresource of the source image: \<open>Data().Slice(a, b)\<close>
  starts at \<open>a\<close> and has \<open>b - a\<close> bytes.
\<close>

record dataSlice =
  dsAspect :: "32 word"
  dsLayer :: "32 word"
  dsLevel :: "32 word"
  dsBase :: "64 word"
  dsSize :: "64 word"

text \<open>
  \<open>bufferSubRangeFillInfo\<close> is declared with the scratch resources. Kept of it: where the
  bytes come from (new data or a slice of the old state), \<open>size()\<close>, and the offset in the
  scratch buffer that \<open>setOffsetInBuffer\<close> sets.
\<close>

datatype fillSource = NewData "8 word list" | SliceData dataSlice

record bufferSubRangeFillInfo =
  fiOffsetInBuffer :: "64 word"
  fiSize :: "64 word"
  fiSource :: fillSource

definition newBufferSubRangeFillInfoFromNewData :: "8 word list \<Rightarrow> 64 word \<Rightarrow> bufferSubRangeFillInfo" where
  "newBufferSubRangeFillInfoFromNewData dat off =
     \<lparr>fiOffsetInBuffer = off, fiSize = word_of_nat (length dat), fiSource = NewData dat\<rparr>"

definition newBufferSubRangeFillInfoFromSlice :: "dataSlice \<Rightarrow> 64 word \<Rightarrow> bufferSubRangeFillInfo" where
  "newBufferSubRangeFillInfoFromSlice sl off =
     \<lparr>fiOffsetInBuffer = off, fiSize = dsSize sl, fiSource = SliceData sl\<rparr>"

text \<open>
  What the session takes from the state builder and the generated API layer: the size
  computation \<open>levelSize\<close>, the stored bytes of the source image's subresources, the aspect
  bits of a mask, the layer and level counts of a range, and the sparse-binding blocks of an
  image in the order the walk meets them.
\<close>

record sessionEnv =
  sbLevelSize :: "VkExtent3D \<Rightarrow> VkFormat \<Rightarrow> 32 word \<Rightarrow> 32 word \<Rightarrow> byteSizeAndExtent"
  levelData :: "32 word \<Rightarrow> 32 word \<Rightarrow> 32 word \<Rightarrow> 8 word list"
  imageAspectFlagBits :: "ImageObject \<Rightarrow> 32 word \<Rightarrow> 32 word list"
  subImageSubresourceLayerCount :: "ImageObject \<Rightarrow> VkImageSubresourceRange \<Rightarrow> 32 word"
  subImageSubresourceLevelCount :: "ImageObject \<Rightarrow> VkImageSubresourceRange \<Rightarrow> 32 word"
  sparseImageMemoryBindings ::
    "ImageObject \<Rightarrow> (32 word \<times> 32 word \<times> 32 word \<times> VkOffset3D \<times> VkExtent3D) list"

text \<open>
  \<open>MustRead\<close> on a slice gives its \<open>Size()\<close> bytes; bytes the old state never stored read as
  zero.
\<close>

definition mustRead :: "sessionEnv \<Rightarrow> dataSlice \<Rightarrow> 8 word list" where
  "mustRead env sl =
     (let mem = levelData env (dsAspect sl) (dsLayer sl) (dsLevel sl);
          n = unat (dsSize sl)
      in take n (drop (unat (dsBase sl)) mem @ replicate n 0))"

definition roundUp :: "64 word \<Rightarrow> 64 word \<Rightarrow> 64 word" where
  "roundUp dividend divisor = (dividend + divisor - 1) div divisor"

text \<open>
  Modelled from the spec: \<open>nextMultipleOf\<close>, which is not in the sources at hand; the spec
  has the running offset "rounded up to 256" and the output "padded to a multiple of 8
  bytes". It is the next multiple of \<open>a\<close> at or above \<open>v\<close>, in unsigned 64-bit arithmetic.
\<close>

definition nextMultipleOf :: "64 word \<Rightarrow> 64 word \<Rightarrow> 64 word" where
  "nextMultipleOf v a = roundUp v a * a"

definition extendToMultipleOf8 :: "8 word list \<Rightarrow> 8 word list" where
  "extendToMultipleOf8 dat =
     (let l = (word_of_nat (length dat) :: 64 word);
          nl = nextMultipleOf l 8
      in dat @ replicate (unat (nl - l)) 0)"

definition ebgrDataToRGB32SFloat ::
  "formatEnv \<Rightarrow> 8 word list \<Rightarrow> VkExtent3D \<Rightarrow> err + 8 word list \<times> VkFormat" where
  "ebgrDataToRGB32SFloat fenv dat ext =
     (let dstFmt = VK_FORMAT_R32G32B32_SFLOAT
      in case getImageFormatFromVulkanFormat fenv VK_FORMAT_E5B9G9R9_UFLOAT_PACK32 of
           Inl e \<Rightarrow> Inl e
         | Inr sf \<Rightarrow>
             (case getImageFormatFromVulkanFormat fenv dstFmt of
                Inl e \<Rightarrow> Inl e
              | Inr df \<Rightarrow>
                  (case imageConvert fenv dat ext sf df of
                     Inl e \<Rightarrow> Inl e
                   | Inr retData \<Rightarrow> Inr (retData, dstFmt))))"

text \<open>
  The first half of \<open>getCopyAndData\<close>: \<open>unpackedData\<close>, the converted bytes when the data
  has to be converted, and the empty list when the stored bytes can be used as they are.
\<close>

definition unpackedDataFor ::
  "formatEnv \<Rightarrow> sessionEnv \<Rightarrow> ImageObject \<Rightarrow> ImageObject \<Rightarrow> 32 word \<Rightarrow> VkExtent3D
     \<Rightarrow> dataSlice \<Rightarrow> err + 8 word list" where
  "unpackedDataFor fenv env dstImg srcImg srcAspect opaqueBlockExtent sl =
     (if imgFmt dstImg \<noteq> imgFmt srcImg
      then
        (let srcVkFmt = imgFmt srcImg;
             dat = mustRead env sl;
             decoded =
               (if srcVkFmt = VK_FORMAT_E5B9G9R9_UFLOAT_PACK32
                then (case ebgrDataToRGB32SFloat fenv dat opaqueBlockExtent of
                        Inl e \<Rightarrow>
                          Inl (Errf (Some e)
                            ''[Converting data in VK_FORMAT_E5B9G9R9_UFLOAT_PACK32 to VK_FORMAT_R32G32B32_SFLOAT]'')
                      | Inr r \<Rightarrow> Inr r)
                else Inr (dat, srcVkFmt))
         in case decoded of
              Inl e \<Rightarrow> Inl e
            | Inr (dat', srcVkFmt') \<Rightarrow>
                (case unpackDataForPriming fenv dat' srcVkFmt' srcAspect of
                   Inl e \<Rightarrow> Inl (Errf (Some e) ''[Unpacking data from format: %v aspect: %v]'')
                 | Inr (unpacked, f) \<Rightarrow> Inr unpacked))
      else if srcAspect = VK_IMAGE_ASPECT_DEPTH_BIT
      then
        (if imgFmt srcImg = VK_FORMAT_D24_UNORM_S8_UINT
            \<or> imgFmt srcImg = VK_FORMAT_X8_D24_UNORM_PACK32
         then (case unpackDataForPriming fenv (mustRead env sl) (imgFmt srcImg) srcAspect of
                 Inl e \<Rightarrow> Inl (Errf (Some e) ''[Unpacking data from format: %v aspect: %v]'')
               | Inr (unpacked, f) \<Rightarrow> Inr unpacked)
         else Inr [])
      else Inr [])"

definition errorIfUnexpectedLength ::
  "sessionEnv \<Rightarrow> ImageObject \<Rightarrow> 32 word \<Rightarrow> VkExtent3D \<Rightarrow> 64 word \<Rightarrow> err option" where
  "errorIfUnexpectedLength env dstImg dstAspect opaqueBlockExtent dataLen =
     (let dstLevelSize = sbLevelSize env opaqueBlockExtent (imgFmt dstImg) 0 dstAspect
      in if dataLen \<noteq> alignedLevelSizeInBuf dstLevelSize
         then Some (Errf None
           ''size of unpackedData data does not match expectation, actual: %v, expected: %v, srcFmt: %v, dstFmt: %v'')
         else None)"

definition sourceSlice ::
  "sessionEnv \<Rightarrow> ImageObject \<Rightarrow> 32 word \<Rightarrow> 32 word \<Rightarrow> 32 word \<Rightarrow> VkOffset3D \<Rightarrow> VkExtent3D
     \<Rightarrow> dataSlice" where
  "sourceSlice env srcImg srcAspect layer level opaqueBlockOffset opaqueBlockExtent =
     (let srcImgDataOffset =
            levelSize (sbLevelSize env
              \<lparr>extWidth = offX opaqueBlockOffset, extHeight = offY opaqueBlockOffset,
               extDepth = offZ opaqueBlockOffset\<rparr> (imgFmt srcImg) 0 srcAspect);
          srcImgDataSizeInBytes =
            levelSize (sbLevelSize env opaqueBlockExtent (imgFmt srcImg) 0 srcAspect)
      in \<lparr>dsAspect = srcAspect, dsLayer = layer, dsLevel = level,
          dsBase = srcImgDataOffset,
          dsSize = (srcImgDataOffset + srcImgDataSizeInBytes) - srcImgDataOffset\<rparr>)"

definition getCopyAndData ::
  "formatEnv \<Rightarrow> sessionEnv \<Rightarrow> ImageObject \<Rightarrow> 32 word \<Rightarrow> ImageObject \<Rightarrow> 32 word
     \<Rightarrow> 32 word \<Rightarrow> 32 word \<Rightarrow> VkOffset3D \<Rightarrow> VkExtent3D
     \<Rightarrow> err + bufferSubRangeFillInfo \<times> VkBufferImageCopy" where
  "getCopyAndData fenv env dstImg dstAspect srcImg srcAspect layer level
       opaqueBlockOffset opaqueBlockExtent =
     (let bufImgCopy =
            \<lparr>bufferOffset = 0, bufferRowLength = 0, bufferImageHeight = 0,
             imageSubresource =
               \<lparr>slAspectMask = dstAspect, slMipLevel = level, slBaseArrayLayer = layer,
                slLayerCount = 1\<rparr>,
             imageOffset = opaqueBlockOffset, imageExtent = opaqueBlockExtent\<rparr>;
          sl = sourceSlice env srcImg srcAspect layer level opaqueBlockOffset opaqueBlockExtent
      in case unpackedDataFor fenv env dstImg srcImg srcAspect opaqueBlockExtent sl of
           Inl e \<Rightarrow> Inl e
         | Inr unpackedData \<Rightarrow>
             if length unpackedData \<noteq> 0
             then
               (let extended = extendToMultipleOf8 unpackedData
                in case errorIfUnexpectedLength env dstImg dstAspect opaqueBlockExtent
                          (word_of_nat (length extended)) of
                     Some e \<Rightarrow> Inl e
                   | None \<Rightarrow> Inr (newBufferSubRangeFillInfoFromNewData extended 0, bufImgCopy))
             else if dsSize sl mod 8 \<noteq> 0
             then
               (let extended = extendToMultipleOf8 (mustRead env sl)
                in case errorIfUnexpectedLength env dstImg dstAspect opaqueBlockExtent
                          (word_of_nat (length extended)) of
                     Some e \<Rightarrow> Inl e
                   | None \<Rightarrow>
                       if length extended \<noteq> 0
                       then Inr (newBufferSubRangeFillInfoFromNewData extended 0, bufImgCopy)
                       else Inr (newBufferSubRangeFillInfoFromSlice sl 0, bufImgCopy))
             else
               (case errorIfUnexpectedLength env dstImg dstAspect opaqueBlockExtent (dsSize sl) of
                  Some e \<Rightarrow> Inl e
                | None \<Rightarrow> Inr (newBufferSubRangeFillInfoFromSlice sl 0, bufImgCopy)))"

text \<open>
  The copy job and the session. Go maps are association lists with distinct keys, read with
  \<open>map_of\<close> and written with \<open>AList.update\<close>; a missing key of a map of slices reads as the
  empty slice (\<open>mapGet\<close>). The order of a list stands for the order in which a \<open>range\<close> loop
  meets the keys, which Go leaves open.
\<close>

record ipBufImgCopyDst =
  dstImgs :: "ImageObject list"
  dstAspect :: "32 word"

record ipBufImgCopyJob =
  srcAspectsToDsts :: "(32 word \<times> ipBufImgCopyDst) list"
  srcImg :: ImageObject

definition newImagePrimerBufferImageCopyJob :: "ImageObject \<Rightarrow> ipBufImgCopyJob" where
  "newImagePrimerBufferImageCopyJob img = \<lparr>srcAspectsToDsts = [], srcImg = img\<rparr>"

definition addDst ::
  "ipBufImgCopyJob \<Rightarrow> 32 word \<Rightarrow> 32 word \<Rightarrow> ImageObject list \<Rightarrow> err option \<times> ipBufImgCopyJob" where
  "addDst s srcAspect dstAsp imgs =
     (let m = (case map_of (srcAspectsToDsts s) srcAspect of
                 None \<Rightarrow> AList.update srcAspect \<lparr>dstImgs = [], dstAspect = dstAsp\<rparr> (srcAspectsToDsts s)
               | Some d \<Rightarrow> srcAspectsToDsts s)
      in case map_of m srcAspect of
           None \<Rightarrow> (None, s\<lparr>srcAspectsToDsts := m\<rparr>)
         | Some d \<Rightarrow>
             if dstAspect d \<noteq> dstAsp
             then (Some (Errf None ''new dstAspect:%v does not match with the existing one: %v''),
                   s\<lparr>srcAspectsToDsts := m\<rparr>)
             else (None,
                   s\<lparr>srcAspectsToDsts := AList.update srcAspect (d\<lparr>dstImgs := dstImgs d @ imgs\<rparr>) m\<rparr>))"

definition mapGet :: "('k \<times> 'v list) list \<Rightarrow> 'k \<Rightarrow> 'v list" where
  "mapGet m k = (case map_of m k of None \<Rightarrow> [] | Some v \<Rightarrow> v)"

record ipBufferImageCopySession =
  copies :: "(ImageObject \<times> VkBufferImageCopy list) list"
  content :: "(ImageObject \<times> bufferSubRangeFillInfo list) list"
  indices :: "(ImageObject \<times> nat) list"
  totalSize :: "64 word"
  sessionJob :: ipBufImgCopyJob

definition newImagePrimerBufferImageCopySession :: "ipBufImgCopyJob \<Rightarrow> ipBufferImageCopySession" where
  "newImagePrimerBufferImageCopySession j =
     (let imgs = concat (map (\<lambda>(a, dst). dstImgs dst) (srcAspectsToDsts j))
      in \<lparr>copies = foldl (\<lambda>m img. AList.update img [] m) [] imgs,
          content = foldl (\<lambda>m img. AList.update img [] m) [] imgs,
          indices = [],
          totalSize = 0,
          sessionJob = j\<rparr>)"

text \<open>
  One call of the walk's callback asks for one region of the source image: an aspect, a
  layer, a level, and the block's offset and extent.
\<close>

record copyRequest =
  rqAspect :: "32 word"
  rqLayer :: "32 word"
  rqLevel :: "32 word"
  rqOffset :: VkOffset3D
  rqExtent :: VkExtent3D

text \<open>
  The body of the loop over the destination images of the request's aspect: the session and
  the messages given to \<open>log.E\<close>, before and after. A failing \<open>getCopyAndData\<close> is logged
  and the loop goes on with the next image (\<open>continue\<close>).
\<close>

definition collectForDst ::
  "formatEnv \<Rightarrow> sessionEnv \<Rightarrow> copyRequest \<Rightarrow> 32 word
     \<Rightarrow> ipBufferImageCopySession \<times> string list \<Rightarrow> nat \<times> ImageObject
     \<Rightarrow> ipBufferImageCopySession \<times> string list" where
  "collectForDst fenv env rq dstAsp st entry =
     (case st of (h, msgs) \<Rightarrow>
      case entry of (dstIndex, dstImg) \<Rightarrow>
        (case getCopyAndData fenv env dstImg dstAsp (srcImg (sessionJob h)) (rqAspect rq)
                (rqLayer rq) (rqLevel rq) (rqOffset rq) (rqExtent rq) of
           Inl e \<Rightarrow>
             (h, msgs @ [''[Getting VkBufferImageCopy and raw data for priming data at image: %v, aspect: %v, layer: %v, level: %v] %v''])
         | Inr (bufFillInfo, bufImgCopy) \<Rightarrow>
             (h\<lparr>copies := AList.update dstImg (mapGet (copies h) dstImg @ [bufImgCopy]) (copies h),
                content := AList.update dstImg (mapGet (content h) dstImg @ [bufFillInfo]) (content h),
                indices := AList.update dstImg dstIndex (indices h),
                totalSize := totalSize h + fiSize bufFillInfo\<rparr>,
              msgs)))"

text \<open>
  The callback. Reading \<open>.dstImgs\<close> of the entry of an aspect the job does not have
  dereferences a nil pointer: the run panics.
\<close>

definition collectCallback ::
  "formatEnv \<Rightarrow> sessionEnv \<Rightarrow> ipBufferImageCopySession \<times> string list \<Rightarrow> copyRequest
     \<Rightarrow> err + ipBufferImageCopySession \<times> string list" where
  "collectCallback fenv env st rq =
     (case map_of (srcAspectsToDsts (sessionJob (fst st))) (rqAspect rq) of
        None \<Rightarrow> Inl (Err ''panic: nil pointer dereference'' None)
      | Some dst \<Rightarrow>
          Inr (foldl (collectForDst fenv env rq (dstAspect dst)) st
                 (enumerate 0 (dstImgs dst))))"

fun collectRequests ::
  "formatEnv \<Rightarrow> sessionEnv \<Rightarrow> ipBufferImageCopySession \<times> string list \<Rightarrow> copyRequest list
     \<Rightarrow> err + ipBufferImageCopySession \<times> string list" where
  "collectRequests fenv env st [] = Inr st"
| "collectRequests fenv env st (rq # rqs) =
     (case collectCallback fenv env st rq of
        Inl e \<Rightarrow> Inl e
      | Inr st' \<Rightarrow> collectRequests fenv env st' rqs)"

text \<open>
  \<open>walkImageSubresourceRange\<close>: the arguments of the callback, in call order: aspects
  outermost, then levels, then layers.
\<close>

definition walkImageSubresourceRange ::
  "sessionEnv \<Rightarrow> ImageObject \<Rightarrow> VkImageSubresourceRange
     \<Rightarrow> (32 word \<times> 32 word \<times> 32 word \<times> byteSizeAndExtent) list" where
  "walkImageSubresourceRange env img rng =
     (let layerCount = subImageSubresourceLayerCount env img rng;
          levelCount = subImageSubresourceLevelCount env img rng
      in concat (map (\<lambda>aspect.
           concat (map (\<lambda>i.
             (let level = rngBaseMipLevel rng + word_of_nat i;
                  lsz = sbLevelSize env (imgExtent img) (imgFmt img) level aspect
              in map (\<lambda>j. (aspect, rngBaseArrayLayer rng + word_of_nat j, level, lsz))
                   [0 ..< unat layerCount]))
             [0 ..< unat levelCount]))
           (imageAspectFlagBits env img (rngAspectMask rng))))"

definition rangeRequests :: "sessionEnv \<Rightarrow> ImageObject \<Rightarrow> VkImageSubresourceRange \<Rightarrow> copyRequest list" where
  "rangeRequests env img srcRng =
     map (\<lambda>(aspect, layer, level, lsz).
            \<lparr>rqAspect = aspect, rqLayer = layer, rqLevel = level,
             rqOffset = \<lparr>offX = 0, offY = 0, offZ = 0\<rparr>,
             rqExtent = \<lparr>extWidth = ucast (bseWidth lsz), extHeight = ucast (bseHeight lsz),
                         extDepth = ucast (bseDepth lsz)\<rparr>\<rparr>)
       (walkImageSubresourceRange env img srcRng)"

definition collectCopiesFromSubresourceRange ::
  "formatEnv \<Rightarrow> sessionEnv \<Rightarrow> ipBufferImageCopySession \<times> string list \<Rightarrow> VkImageSubresourceRange
     \<Rightarrow> err + ipBufferImageCopySession \<times> string list" where
  "collectCopiesFromSubresourceRange fenv env st srcRng =
     collectRequests fenv env st (rangeRequests env (srcImg (sessionJob (fst st))) srcRng)"

definition collectCopiesFromSparseImageBindings ::
  "formatEnv \<Rightarrow> sessionEnv \<Rightarrow> ipBufferImageCopySession \<times> string list
     \<Rightarrow> err + ipBufferImageCopySession \<times> string list" where
  "collectCopiesFromSparseImageBindings fenv env st =
     collectRequests fenv env st
       (map (\<lambda>(aspect, layer, level, off, ext).
               \<lparr>rqAspect = aspect, rqLayer = layer, rqLevel = level,
                rqOffset = off, rqExtent = ext\<rparr>)
          (sparseImageMemoryBindings env (srcImg (sessionJob (fst st)))))"

text \<open>
  What a session should have gained for destination image \<open>d\<close> from a list of requests: the
  results of the regions whose \<open>getCopyAndData\<close> succeeds, in request order, and nothing for
  the others.
\<close>

definition gainedFor ::
  "formatEnv \<Rightarrow> sessionEnv \<Rightarrow> ipBufImgCopyJob \<Rightarrow> ImageObject \<Rightarrow> copyRequest list
     \<Rightarrow> (bufferSubRangeFillInfo \<times> VkBufferImageCopy) list" where
  "gainedFor fenv env j d rqs =
     concat (map (\<lambda>rq.
       (case map_of (srcAspectsToDsts j) (rqAspect rq) of
          None \<Rightarrow> []
        | Some dst \<Rightarrow>
            concat (map (\<lambda>dstImg.
              if dstImg = d
              then (case getCopyAndData fenv env dstImg (dstAspect dst) (srcImg j) (rqAspect rq)
                           (rqLayer rq) (rqLevel rq) (rqOffset rq) (rqExtent rq) of
                      Inl e \<Rightarrow> []
                    | Inr r \<Rightarrow> [r])
              else []) (dstImgs dst)))) rqs)"

text \<open>The number of regions of a list of requests whose \<open>getCopyAndData\<close> fails.\<close>

definition failedCount ::
  "formatEnv \<Rightarrow> sessionEnv \<Rightarrow> ipBufImgCopyJob \<Rightarrow> copyRequest list \<Rightarrow> nat" where
  "failedCount fenv env j rqs =
     length (concat (map (\<lambda>rq.
       (case map_of (srcAspectsToDsts j) (rqAspect rq) of
          None \<Rightarrow> []
        | Some dst \<Rightarrow>
            filter (\<lambda>dstImg.
              isl (getCopyAndData fenv env dstImg (dstAspect dst) (srcImg j) (rqAspect rq)
                     (rqLayer rq) (rqLevel rq) (rqOffset rq) (rqExtent rq)))
              (dstImgs dst))) rqs))"

text \<open>Every result a list of requests yields, whatever its destination image, in order.\<close>

definition gainedAll ::
  "formatEnv \<Rightarrow> sessionEnv \<Rightarrow> ipBufImgCopyJob \<Rightarrow> copyRequest list
     \<Rightarrow> (bufferSubRangeFillInfo \<times> VkBufferImageCopy) list" where
  "gainedAll fenv env j rqs =
     concat (map (\<lambda>rq.
       (case map_of (srcAspectsToDsts j) (rqAspect rq) of
          None \<Rightarrow> []
        | Some dst \<Rightarrow>
            concat (map (\<lambda>dstImg.
              (case getCopyAndData fenv env dstImg (dstAspect dst) (srcImg j) (rqAspect rq)
                      (rqLayer rq) (rqLevel rq) (rqOffset rq) (rqExtent rq) of
                 Inl e \<Rightarrow> []
               | Inr r \<Rightarrow> [r])) (dstImgs dst)))) rqs)"

subsection \<open>Rolling the copies out (\<open>rolloutBufCopies\<close>)\<close>

record VkImageMemoryBarrier =
  barOldLayout :: VkImageLayout
  barNewLayout :: VkImageLayout
  barImage :: handle
  barAspectMask :: "32 word"
  barBaseMipLevel :: "32 word"
  barLevelCount :: "32 word"
  barBaseArrayLayer :: "32 word"
  barLayerCount :: "32 word"

definition ipImageBarrierAspectFlags :: "32 word \<Rightarrow> VkFormat \<Rightarrow> 32 word" where
  "ipImageBarrierAspectFlags aspect fmt =
     (if fmt = VK_FORMAT_D16_UNORM_S8_UINT \<or> fmt = VK_FORMAT_D24_UNORM_S8_UINT
         \<or> fmt = VK_FORMAT_D32_SFLOAT_S8_UINT
      then aspect OR VK_IMAGE_ASPECT_DEPTH_BIT OR VK_IMAGE_ASPECT_STENCIL_BIT
      else aspect)"

text \<open>The layout oracle \<open>ipLayoutInfo\<close>: \<open>layoutOf(aspect, layer, level)\<close>.\<close>

type_synonym ipLayoutInfo = "32 word \<Rightarrow> 32 word \<Rightarrow> 32 word \<Rightarrow> VkImageLayout"

definition useSpecifiedLayout :: "VkImageLayout \<Rightarrow> ipLayoutInfo" where
  "useSpecifiedLayout layout = (\<lambda>aspect layer level. layout)"

text \<open>The barriers of a destination image, one per layer and level, layers outermost.\<close>

definition dstImgBarriers ::
  "ImageObject \<Rightarrow> 32 word \<Rightarrow> (32 word \<Rightarrow> 32 word \<Rightarrow> VkImageLayout)
     \<Rightarrow> (32 word \<Rightarrow> 32 word \<Rightarrow> VkImageLayout) \<Rightarrow> VkImageMemoryBarrier list" where
  "dstImgBarriers dstImg dstAsp oldOf newOf =
     concat (map (\<lambda>la.
       map (\<lambda>le.
              \<lparr>barOldLayout = oldOf (word_of_nat la) (word_of_nat le),
               barNewLayout = newOf (word_of_nat la) (word_of_nat le),
               barImage = imgVulkanHandle dstImg,
               barAspectMask = ipImageBarrierAspectFlags dstAsp (imgFmt dstImg),
               barBaseMipLevel = word_of_nat le, barLevelCount = 1,
               barBaseArrayLayer = word_of_nat la, barLayerCount = 1\<rparr>)
         [0 ..< unat (imgMipLevels dstImg)])
       [0 ..< unat (imgArrayLayers dstImg)])"

text \<open>
  One batch: the copies and the buffer content of one scratch buffer, with their offsets in
  it, and the final \<open>bufOffset\<close>, which is the size of the buffer content.
\<close>

record copyBatch =
  cbCopies :: "VkBufferImageCopy list"
  cbContent :: "bufferSubRangeFillInfo list"
  cbBufOffset :: "64 word"

text \<open>
  The inner loop \<open>for i := 1; i < len(notProcessedCopies); i++\<close>, from index \<open>i\<close> on: the
  lists are what is left of \<open>notProcessedCopies\<close> and \<open>notProcessedContent\<close> from \<open>i\<close>, \<open>off\<close>
  is \<open>bufOffset\<close>. The result is what \<open>addIthCopyAndContent\<close> adds, the last \<open>bufOffset\<close>,
  and whether indexing \<open>notProcessedContent\<close> ran out of range (a panic).
\<close>

fun packMore ::
  "64 word \<Rightarrow> VkBufferImageCopy list \<Rightarrow> bufferSubRangeFillInfo list \<Rightarrow> 64 word
     \<Rightarrow> VkBufferImageCopy list \<times> bufferSubRangeFillInfo list \<times> 64 word \<times> bool" where
  "packMore scratchBufferSize [] fs off = ([], [], off, False)"
| "packMore scratchBufferSize (c # cs) [] off = ([], [], off, True)"
| "packMore scratchBufferSize (c # cs) (f # fs) off =
     (if nextMultipleOf (off + fiSize f) 256 > scratchBufferSize
      then ([], [], off, False)
      else (case packMore scratchBufferSize cs fs (off + fiSize f) of
              (cs', fs', off', panicked) \<Rightarrow>
                (c\<lparr>bufferOffset := off\<rparr> # cs', f\<lparr>fiOffsetInBuffer := off\<rparr> # fs', off', panicked)))"

text \<open>
  One round of the outer loop, entered with both lists non-empty: \<open>addIthCopyAndContent(0)\<close>
  without a test, then the inner loop.
\<close>

definition packBatch ::
  "64 word \<Rightarrow> VkBufferImageCopy \<Rightarrow> VkBufferImageCopy list
     \<Rightarrow> bufferSubRangeFillInfo \<Rightarrow> bufferSubRangeFillInfo list \<Rightarrow> copyBatch \<times> bool" where
  "packBatch scratchBufferSize c cs f fs =
     (case packMore scratchBufferSize cs fs (0 + fiSize f) of
        (cs', fs', off', panicked) \<Rightarrow>
          (\<lparr>cbCopies = c\<lparr>bufferOffset := 0\<rparr> # cs',
            cbContent = f\<lparr>fiOffsetInBuffer := 0\<rparr> # fs',
            cbBufOffset = off'\<rparr>, panicked))"

text \<open>
  The outer loop \<open>for len(notProcessedCopies) != 0 && len(notProcessedContent) != 0\<close>: the
  batches in order, and whether the run panicked in the last one.
\<close>

function copyBatches ::
  "64 word \<Rightarrow> VkBufferImageCopy list \<Rightarrow> bufferSubRangeFillInfo list \<Rightarrow> copyBatch list \<times> bool" where
  "copyBatches scratchBufferSize [] fs = ([], False)"
| "copyBatches scratchBufferSize (c # cs) [] = ([], False)"
| "copyBatches scratchBufferSize (c # cs) (f # fs) =
     (case packBatch scratchBufferSize c cs f fs of
        (b, panicked) \<Rightarrow>
          if panicked then ([b], True)
          else (case copyBatches scratchBufferSize
                       (drop (length (cbCopies b)) (c # cs)) (drop (length (cbCopies b)) (f # fs)) of
                  (bs, p) \<Rightarrow> (b # bs, p)))"
  by pat_completeness auto
termination
  apply (relation "measure (\<lambda>(S, cs, fs). length cs)")
   apply simp
  apply (auto simp: packBatch_def split: prod.splits)
  done

datatype copyTask =
    PreCopyLayoutTransition handle "VkImageMemoryBarrier list"
  | CopyBatch handle ImageObject copyBatch
  | PostCopyLayoutTransition handle "VkImageMemoryBarrier list"

text \<open>The message with which \<open>rolloutBufCopies\<close> wraps the error of a failed commit.\<close>

fun commitPurpose :: "copyTask \<Rightarrow> string" where
  "commitPurpose (PreCopyLayoutTransition q bs) =
     ''[Committing pre-copy destination image layout transition commands]''"
| "commitPurpose (CopyBatch q img b) =
     ''[Committing scratch buffer filling and image copy commands, scratch buffer size: %v]''"
| "commitPurpose (PostCopyLayoutTransition q bs) =
     ''[Committing post-copy destination image layout transition commands]''"

datatype rolloutStep = Commit copyTask | Panic

text \<open>The body of the loop over the destination images: the tasks built for one image, in order.\<close>

definition rolloutImage ::
  "64 word \<Rightarrow> ipBufferImageCopySession \<Rightarrow> handle \<Rightarrow> ipLayoutInfo \<Rightarrow> ipLayoutInfo
     \<Rightarrow> 32 word \<Rightarrow> ImageObject \<Rightarrow> rolloutStep list" where
  "rolloutImage scratchBufferSize h queue initLayouts finalLayouts dstAsp dstImg =
     (let preCopyDstImgBarriers =
            dstImgBarriers dstImg dstAsp (initLayouts dstAsp)
              (\<lambda>la le. VK_IMAGE_LAYOUT_TRANSFER_DST_OPTIMAL);
          postCopyDstImgBarriers =
            dstImgBarriers dstImg dstAsp (\<lambda>la le. VK_IMAGE_LAYOUT_TRANSFER_DST_OPTIMAL)
              (finalLayouts dstAsp)
      in case copyBatches scratchBufferSize (mapGet (copies h) dstImg) (mapGet (content h) dstImg) of
           (bs, panicked) \<Rightarrow>
             Commit (PreCopyLayoutTransition queue preCopyDstImgBarriers)
             # map (\<lambda>b. Commit (CopyBatch queue dstImg b)) (if panicked then butlast bs else bs)
             @ (if panicked then [Panic]
                else [Commit (PostCopyLayoutTransition queue postCopyDstImgBarriers)]))"

definition rolloutSteps ::
  "64 word \<Rightarrow> ipBufferImageCopySession \<Rightarrow> handle \<Rightarrow> ipLayoutInfo \<Rightarrow> ipLayoutInfo
     \<Rightarrow> rolloutStep list" where
  "rolloutSteps scratchBufferSize h queue initLayouts finalLayouts =
     concat (map (\<lambda>(a, dst).
       concat (map (rolloutImage scratchBufferSize h queue initLayouts finalLayouts (dstAspect dst))
                 (dstImgs dst)))
       (srcAspectsToDsts (sessionJob h)))"

text \<open>
  Committing the tasks in order. \<open>commitOutcome n\<close> is what the call's \<open>n\<close>-th \<open>commit()\<close>
  returns (\<open>None\<close> for nil). The tasks are built from the session alone, and a failed commit
  or a panic ends the call; so the call is the list of tasks it builds, cut at the first
  commit that fails. The result is the tasks committed and the error returned.
\<close>

fun commitAll :: "(nat \<Rightarrow> err option) \<Rightarrow> nat \<Rightarrow> rolloutStep list \<Rightarrow> copyTask list \<times> err option" where
  "commitAll commitOutcome n [] = ([], None)"
| "commitAll commitOutcome n (Panic # steps) =
     ([], Some (Err ''panic: index out of range'' None))"
| "commitAll commitOutcome n (Commit t # steps) =
     (case commitOutcome n of
        Some e \<Rightarrow> ([], Some (Errf (Some e) (commitPurpose t)))
      | None \<Rightarrow>
          (case commitAll commitOutcome (Suc n) steps of
             (ts, r) \<Rightarrow> (t # ts, r)))"

definition rolloutBufCopies ::
  "64 word \<Rightarrow> (nat \<Rightarrow> err option) \<Rightarrow> ipBufferImageCopySession \<Rightarrow> handle
     \<Rightarrow> ipLayoutInfo \<Rightarrow> ipLayoutInfo \<Rightarrow> copyTask list \<times> err option" where
  "rolloutBufCopies scratchBufferSize commitOutcome h queue initLayouts finalLayouts =
     (if totalSize h = 0 \<or> length (copies h) = 0 \<or> length (content h) = 0
      then ([], Some (Errf None ''no content for buf->img copy''))
      else if length (copies h) \<noteq> length (content h)
      then ([], Some (Errf None
              ''mismatch number of VkBufferImageCopy: %v and buffer content pieces: %v''))
      else commitAll commitOutcome 0
             (rolloutSteps scratchBufferSize h queue initLayouts finalLayouts))"

text \<open>\<open>ipPrimeableByBufferCopy\<close> and its \<open>prime\<close>.\<close>

record ipPrimeableByBufferCopy =
  pcImg :: handle
  pcQueue :: handle
  pcCopySession :: ipBufferImageCopySession

definition primeByBufferCopy ::
  "64 word \<Rightarrow> (nat \<Rightarrow> err option) \<Rightarrow> ipPrimeableByBufferCopy \<Rightarrow> ipLayoutInfo \<Rightarrow> ipLayoutInfo
     \<Rightarrow> copyTask list \<times> err option" where
  "primeByBufferCopy scratchBufferSize commitOutcome pi srcLayout dstLayout =
     (case rolloutBufCopies scratchBufferSize commitOutcome (pcCopySession pi) (pcQueue pi)
             srcLayout dstLayout of
        (ts, Some e) \<Rightarrow>
          (ts, Some (Errf (Some e) ''[Rolling out the buf->img copy commands for image: %v]''))
      | (ts, None) \<Rightarrow> (ts, None))"

text \<open>The part of \<open>gainedFor\<close> that one request contributes through the images of its aspect.\<close>

definition gainedAt ::
  "formatEnv \<Rightarrow> sessionEnv \<Rightarrow> ipBufImgCopyJob \<Rightarrow> ImageObject \<Rightarrow> copyRequest \<Rightarrow> 32 word
     \<Rightarrow> ImageObject list \<Rightarrow> (bufferSubRangeFillInfo \<times> VkBufferImageCopy) list" where
  "gainedAt fenv env j d rq a imgs =
     concat (map (\<lambda>dstImg.
              if dstImg = d
              then (case getCopyAndData fenv env dstImg a (srcImg j) (rqAspect rq)
                           (rqLayer rq) (rqLevel rq) (rqOffset rq) (rqExtent rq) of
                      Inl e \<Rightarrow> []
                    | Inr r \<Rightarrow> [r])
              else []) imgs)"

text \<open>
  A descriptor as it was collected, before \<open>rolloutBufCopies\<close> rebases it: with buffer
  offset zero.
\<close>

definition asCollectedCopy :: "VkBufferImageCopy \<Rightarrow> VkBufferImageCopy" where
  "asCollectedCopy c = c\<lparr>bufferOffset := 0\<rparr>"


text \<open>
  Concrete inputs for evaluation: a three-channel 8-bit source image with two mip levels,
  its colour staging image, a converter that widens every byte to four, and a size
  computation of 3 and 16 bytes per texel, aligned to 8 in the buffer.
\<close>

definition fmtRGB8unorm :: "Component list" where
  "fmtRGB8unorm =
     map (\<lambda>c. \<lparr>cDataType = Some \<lparr>dtSigned = False, dtKind = Integer 8\<rparr>,
                cSampling = Some normalizedSampling, cChannel = c\<rparr>)
       [Channel_Red, Channel_Green, Channel_Blue]"

definition VK_FORMAT_R8G8B8_UNORM :: VkFormat where
  "VK_FORMAT_R8G8B8_UNORM = 23"

definition fenvA :: formatEnv where
  "fenvA =
     \<lparr>getImageFormatFromVulkanFormat =
        (\<lambda>f. if f = VK_FORMAT_R8G8B8_UNORM then Inr (Uncompressed fmtRGB8unorm)
             else if f = VK_FORMAT_R32G32B32A32_UINT then Inr (Uncompressed fmtRGBA32uint)
             else Inl (Err ''unknown format'' None)),
      getDepthImageFormatFromVulkanFormat = (\<lambda>f. Inl (Err ''not a depth format'' None)),
      streamConvert = (\<lambda>df sf d. Inr (concat (map (\<lambda>b. [b, 0, 0, 0]) d))),
      imageConvert = (\<lambda>d e sf df. Inl (Err ''not used'' None))\<rparr>"

definition envA :: sessionEnv where
  "envA =
     \<lparr>sbLevelSize =
        (\<lambda>ext fmt level aspect.
           (let texels = (ucast (extWidth ext) * ucast (extHeight ext) * ucast (extDepth ext) :: 64 word);
                n = (if fmt = VK_FORMAT_R8G8B8_UNORM then 3 else 16) * texels
            in \<lparr>levelSize = n, alignedLevelSize = nextMultipleOf n 8, levelSizeInBuf = n,
                alignedLevelSizeInBuf = nextMultipleOf n 8,
                bseWidth = ucast (extWidth ext), bseHeight = ucast (extHeight ext),
                bseDepth = ucast (extDepth ext)\<rparr>)),
      levelData = (\<lambda>aspect layer level. [10, 20, 30, 40, 50, 60]),
      imageAspectFlagBits = (\<lambda>img mask. [VK_IMAGE_ASPECT_COLOR_BIT]),
      subImageSubresourceLayerCount = (\<lambda>img rng. rngLayerCount rng),
      subImageSubresourceLevelCount = (\<lambda>img rng. rngLevelCount rng),
      sparseImageMemoryBindings = (\<lambda>img. [])\<rparr>"

definition imgSrcA :: ImageObject where
  "imgSrcA =
     \<lparr>imgVulkanHandle = 1, imgFmt = VK_FORMAT_R8G8B8_UNORM,
      imgExtent = \<lparr>extWidth = 2, extHeight = 1, extDepth = 1\<rparr>,
      imgMipLevels = 2, imgArrayLayers = 1, imgUsage = 16,
      imgTiling = VK_IMAGE_TILING_OPTIMAL, imgInitialLayout = VK_IMAGE_LAYOUT_UNDEFINED,
      imgImageAspect = VK_IMAGE_ASPECT_COLOR_BIT\<rparr>"

definition imgStagingA :: ImageObject where
  "imgStagingA = imgSrcA\<lparr>imgVulkanHandle := 2, imgFmt := VK_FORMAT_R32G32B32A32_UINT, imgUsage := 134\<rparr>"

definition jobA :: ipBufImgCopyJob where
  "jobA = \<lparr>srcAspectsToDsts =
              [(VK_IMAGE_ASPECT_COLOR_BIT,
                \<lparr>dstImgs = [imgStagingA], dstAspect = VK_IMAGE_ASPECT_COLOR_BIT\<rparr>)],
           srcImg = imgSrcA\<rparr>"

definition rqA :: "32 word \<Rightarrow> 32 word \<Rightarrow> copyRequest" where
  "rqA level w =
     \<lparr>rqAspect = VK_IMAGE_ASPECT_COLOR_BIT, rqLayer = 0, rqLevel = level,
      rqOffset = \<lparr>offX = 0, offY = 0, offZ = 0\<rparr>,
      rqExtent = \<lparr>extWidth = w, extHeight = 1, extDepth = 1\<rparr>\<rparr>"





section \<open>The priming strategy selector (\<open>newPrimeableImageData\<close>)\<close>

definition VK_IMAGE_USAGE_TRANSFER_DST_BIT :: "32 word" where
  "VK_IMAGE_USAGE_TRANSFER_DST_BIT = 2"

definition VK_IMAGE_USAGE_SAMPLED_BIT :: "32 word" where
  "VK_IMAGE_USAGE_SAMPLED_BIT = 4"

definition VK_IMAGE_USAGE_STORAGE_BIT :: "32 word" where
  "VK_IMAGE_USAGE_STORAGE_BIT = 8"

definition VK_IMAGE_USAGE_COLOR_ATTACHMENT_BIT :: "32 word" where
  "VK_IMAGE_USAGE_COLOR_ATTACHMENT_BIT = 16"

definition VK_IMAGE_USAGE_DEPTH_STENCIL_ATTACHMENT_BIT :: "32 word" where
  "VK_IMAGE_USAGE_DEPTH_STENCIL_ATTACHMENT_BIT = 32"

definition VK_IMAGE_USAGE_INPUT_ATTACHMENT_BIT :: "32 word" where
  "VK_IMAGE_USAGE_INPUT_ATTACHMENT_BIT = 128"

definition VK_QUEUE_GRAPHICS_BIT :: "32 word" where
  "VK_QUEUE_GRAPHICS_BIT = 1"

definition VK_QUEUE_COMPUTE_BIT :: "32 word" where
  "VK_QUEUE_COMPUTE_BIT = 2"

definition VK_QUEUE_TRANSFER_BIT :: "32 word" where
  "VK_QUEUE_TRANSFER_BIT = 4"

datatype strategy = ByBufferCopy | ByRendering | ByImageStore | ByPreinitialization

text \<open>The primeable built: its strategy and its priming queue.\<close>

datatype primeable = Primeable strategy handle

text \<open>
  What \<open>newPrimeableImageData\<close> gets from the operations it calls: the queue
  \<open>getQueueForPriming\<close> finds for a set of queue flags (\<open>None\<close> for a nil queue), whether a
  queue exists in the new state, the aspects of the image, and the outcomes of creating the
  staging images of an aspect, of rolling the copies out to the staging images, of creating
  the same-format staging image, and of the stores that fill it from device data (\<open>None\<close>
  is success, otherwise the first error).

  The copy session collected for the primeable, the store jobs (whose failures are logged
  and skipped) and the release of the staging images before an error is returned do not
  change the strategy or the error returned, and are left out.
\<close>

record selectorEnv =
  getQueueForPriming :: "32 word \<Rightarrow> handle option"
  queueInNewState :: "handle \<Rightarrow> bool"
  imageAspects :: "32 word list"
  create32BitUintColorStagingImagesForAspect :: "32 word \<Rightarrow> err option"
  stagingRolloutBufCopies :: "err option"
  createSameStagingImage :: "err option"
  deviceDataStore :: "err option"

definition nilQueueErr :: err where
  "nilQueueErr = Err ''Nil Queue'' None"

definition notImplErr :: err where
  "notImplErr = Err ''Not Implemented'' None"

text \<open>The loop over the aspects that creates the staging images: the first error ends it.\<close>

fun createStagingImages :: "(32 word \<Rightarrow> err option) \<Rightarrow> 32 word list \<Rightarrow> err option" where
  "createStagingImages create [] = None"
| "createStagingImages create (aspect # aspects) =
     (case create aspect of
        Some e \<Rightarrow> Some e
      | None \<Rightarrow> createStagingImages create aspects)"

definition newPrimeableImageData :: "selectorEnv \<Rightarrow> ImageObject \<Rightarrow> bool \<Rightarrow> err + primeable" where
  "newPrimeableImageData env oldStateImgObj fromHostData =
     (let transDstBit = VK_IMAGE_USAGE_TRANSFER_DST_BIT;
          attBits = VK_IMAGE_USAGE_COLOR_ATTACHMENT_BIT OR VK_IMAGE_USAGE_DEPTH_STENCIL_ATTACHMENT_BIT;
          storageBit = VK_IMAGE_USAGE_STORAGE_BIT;
          isDepth = (imgUsage oldStateImgObj AND VK_IMAGE_USAGE_DEPTH_STENCIL_ATTACHMENT_BIT \<noteq> 0);
          primeByCopy = (imgUsage oldStateImgObj AND transDstBit \<noteq> 0 \<and> \<not> isDepth);
          primeByRendering = (\<not> primeByCopy \<and> imgUsage oldStateImgObj AND attBits \<noteq> 0);
          primeByImageStore =
            (\<not> primeByCopy \<and> \<not> primeByRendering \<and> imgUsage oldStateImgObj AND storageBit \<noteq> 0);
          primeByPreinitialization =
            (\<not> primeByCopy \<and> \<not> primeByRendering \<and> \<not> primeByImageStore
             \<and> imgTiling oldStateImgObj = VK_IMAGE_TILING_LINEAR
             \<and> imgInitialLayout oldStateImgObj = VK_IMAGE_LAYOUT_PREINITIALIZED)
      in if primeByCopy
         then
           (if fromHostData
            then (case getQueueForPriming env
                         (VK_QUEUE_TRANSFER_BIT OR VK_QUEUE_GRAPHICS_BIT OR VK_QUEUE_COMPUTE_BIT) of
                    None \<Rightarrow>
                      Inl (Errf (Some nilQueueErr)
                        ''[Building primeable image data that can be primed by buffer -> image copy, image: %v]'')
                  | Some queue \<Rightarrow> Inr (Primeable ByBufferCopy queue))
            else Inl (Errf (Some notImplErr)
                   ''[Building primeable image data that can be primed by image -> image copy, image: %v]''))
         else if primeByRendering
         then
           (if fromHostData
            then (case getQueueForPriming env VK_QUEUE_GRAPHICS_BIT of
                    None \<Rightarrow>
                      Inl (Errf (Some nilQueueErr)
                        ''[Building primeable image data that can be primed by rendering host data: %v]'')
                  | Some queue \<Rightarrow>
                      (case createStagingImages (create32BitUintColorStagingImagesForAspect env)
                              (imageAspects env) of
                         Some e \<Rightarrow>
                           Inl (Errf (Some e)
                             ''[Creating staging images for priming image data by rendering host data, image: %v, aspect: %v]'')
                       | None \<Rightarrow>
                           (case stagingRolloutBufCopies env of
                              Some e \<Rightarrow>
                                Inl (Errf (Some e)
                                  ''[Rolling out buf->img copy commands for staging images, building primeable data (by rendering) for image: %v]'')
                            | None \<Rightarrow> Inr (Primeable ByRendering queue))))
            else Inl (Errf (Some notImplErr)
                   ''[Building primeable image data that can be primed by rendering device data]''))
         else if primeByImageStore
         then
           (case getQueueForPriming env VK_QUEUE_COMPUTE_BIT of
              None \<Rightarrow>
                Inl (Errf (Some nilQueueErr)
                  ''[Building primeable image data that can be primed by host data imageStore operation, image: %v]'')
            | Some queue \<Rightarrow>
                if \<not> queueInNewState env queue
                then Inl (Errf (Some (Err ''Queue: %v does not exist in new state'' None))
                       ''[Building primeable image data that can be primed by host data imageStore operation, image: %v]'')
                else if fromHostData
                then
                  (case createStagingImages (create32BitUintColorStagingImagesForAspect env)
                          (imageAspects env) of
                     Some e \<Rightarrow>
                       Inl (Errf (Some e)
                         ''[Creating staging images for priming image data by imageStore operation from host data, image: %v, aspect: %v]'')
                   | None \<Rightarrow>
                       (case stagingRolloutBufCopies env of
                          Some e \<Rightarrow>
                            Inl (Errf (Some e)
                              ''[Rolling out buf->img copy commands for staging images, building primeable data (by image store) for image: %v]'')
                        | None \<Rightarrow> Inr (Primeable ByImageStore queue)))
                else
                  (case createSameStagingImage env of
                     Some e \<Rightarrow>
                       Inl (Errf (Some e)
                         ''[Creating staging image for priming image data by imageStore operation from device data, image: %v]'')
                   | None \<Rightarrow>
                       (case deviceDataStore env of
                          Some e \<Rightarrow>
                            Inl (Errf (Some e)
                              ''[Building imageStore primeable image data from device data, filling data to staging image: %v, from image: %v, aspect: %v, layer: %v, level: %v, offset: %v, extent: %v]'')
                        | None \<Rightarrow> Inr (Primeable ByImageStore queue))))
         else if primeByPreinitialization
         then
           (if fromHostData
            then (case getQueueForPriming env
                         (VK_QUEUE_TRANSFER_BIT OR VK_QUEUE_GRAPHICS_BIT OR VK_QUEUE_COMPUTE_BIT) of
                    None \<Rightarrow>
                      Inl (Errf (Some nilQueueErr)
                        ''[Building primeable image data that can be primed by preinitialization with host data, image: %v]'')
                  | Some queue \<Rightarrow> Inr (Primeable ByPreinitialization queue))
            else Inl (Errf (Some notImplErr)
                   ''[Building primeable image data that can be primed by preinitialization with device data, image: %v]''))
         else Inl (Errf None ''No way build primeable image data for image: %v''))"

text \<open>
  The precedence as the specification words it: by copy when the usage includes transfer-destination
  and the image's aspect is not depth or stencil, then by rendering, by image store and by
  preinitialization, the first that matches.
\<close>

definition specifiedStrategy :: "ImageObject \<Rightarrow> strategy option" where
  "specifiedStrategy img =
     (if imgUsage img AND VK_IMAGE_USAGE_TRANSFER_DST_BIT \<noteq> 0
         \<and> imgImageAspect img AND (VK_IMAGE_ASPECT_DEPTH_BIT OR VK_IMAGE_ASPECT_STENCIL_BIT) = 0
      then Some ByBufferCopy
      else if imgUsage img AND VK_IMAGE_USAGE_COLOR_ATTACHMENT_BIT \<noteq> 0
         \<or> imgUsage img AND VK_IMAGE_USAGE_DEPTH_STENCIL_ATTACHMENT_BIT \<noteq> 0
      then Some ByRendering
      else if imgUsage img AND VK_IMAGE_USAGE_STORAGE_BIT \<noteq> 0
      then Some ByImageStore
      else if imgTiling img = VK_IMAGE_TILING_LINEAR
         \<and> imgInitialLayout img = VK_IMAGE_LAYOUT_PREINITIALIZED
      then Some ByPreinitialization
      else None)"

text \<open>
  The precedence with the first condition as the code has it: the usage includes
  transfer-destination and does not include depth/stencil-attachment.
\<close>

definition selectedStrategy :: "ImageObject \<Rightarrow> strategy option" where
  "selectedStrategy img =
     (if imgUsage img AND VK_IMAGE_USAGE_TRANSFER_DST_BIT \<noteq> 0
         \<and> imgUsage img AND VK_IMAGE_USAGE_DEPTH_STENCIL_ATTACHMENT_BIT = 0
      then Some ByBufferCopy
      else if imgUsage img AND VK_IMAGE_USAGE_COLOR_ATTACHMENT_BIT \<noteq> 0
         \<or> imgUsage img AND VK_IMAGE_USAGE_DEPTH_STENCIL_ATTACHMENT_BIT \<noteq> 0
      then Some ByRendering
      else if imgUsage img AND VK_IMAGE_USAGE_STORAGE_BIT \<noteq> 0
      then Some ByImageStore
      else if imgTiling img = VK_IMAGE_TILING_LINEAR
         \<and> imgInitialLayout img = VK_IMAGE_LAYOUT_PREINITIALIZED
      then Some ByPreinitialization
      else None)"

text \<open>Every operation succeeds and queue 5 serves every request.\<close>

definition selEnvOk :: selectorEnv where
  "selEnvOk =
     \<lparr>getQueueForPriming = (\<lambda>flags. Some 5), queueInNewState = (\<lambda>q. True),
      imageAspects = [VK_IMAGE_ASPECT_COLOR_BIT],
      create32BitUintColorStagingImagesForAspect = (\<lambda>aspect. None),
      stagingRolloutBufCopies = None, createSameStagingImage = None, deviceDataStore = None\<rparr>"

text \<open>
  A depth image that is sampled and filled by transfer, and a colour image that is both a
  transfer destination and a colour attachment.
\<close>

definition VK_FORMAT_R8G8B8A8_UNORM :: VkFormat where
  "VK_FORMAT_R8G8B8A8_UNORM = 37"

definition VK_FORMAT_D32_SFLOAT :: VkFormat where
  "VK_FORMAT_D32_SFLOAT = 126"

definition imgDepthSampled :: ImageObject where
  "imgDepthSampled =
     \<lparr>imgVulkanHandle = 3, imgFmt = VK_FORMAT_D32_SFLOAT,
      imgExtent = \<lparr>extWidth = 4, extHeight = 4, extDepth = 1\<rparr>,
      imgMipLevels = 1, imgArrayLayers = 1,
      imgUsage = VK_IMAGE_USAGE_TRANSFER_DST_BIT OR VK_IMAGE_USAGE_SAMPLED_BIT,
      imgTiling = VK_IMAGE_TILING_OPTIMAL, imgInitialLayout = VK_IMAGE_LAYOUT_UNDEFINED,
      imgImageAspect = VK_IMAGE_ASPECT_DEPTH_BIT\<rparr>"

definition imgColorTarget :: ImageObject where
  "imgColorTarget =
     \<lparr>imgVulkanHandle = 4, imgFmt = VK_FORMAT_R8G8B8A8_UNORM,
      imgExtent = \<lparr>extWidth = 4, extHeight = 4, extDepth = 1\<rparr>,
      imgMipLevels = 1, imgArrayLayers = 1,
      imgUsage = VK_IMAGE_USAGE_TRANSFER_DST_BIT OR VK_IMAGE_USAGE_COLOR_ATTACHMENT_BIT,
      imgTiling = VK_IMAGE_TILING_OPTIMAL, imgInitialLayout = VK_IMAGE_LAYOUT_UNDEFINED,
      imgImageAspect = VK_IMAGE_ASPECT_COLOR_BIT\<rparr>"

definition imgRenderTarget :: ImageObject where
  "imgRenderTarget =
     \<lparr>imgVulkanHandle = 6, imgFmt = VK_FORMAT_R8G8B8A8_UNORM,
      imgExtent = \<lparr>extWidth = 4, extHeight = 4, extDepth = 1\<rparr>,
      imgMipLevels = 1, imgArrayLayers = 1,
      imgUsage = VK_IMAGE_USAGE_COLOR_ATTACHMENT_BIT OR VK_IMAGE_USAGE_SAMPLED_BIT,
      imgTiling = VK_IMAGE_TILING_OPTIMAL, imgInitialLayout = VK_IMAGE_LAYOUT_UNDEFINED,
      imgImageAspect = VK_IMAGE_ASPECT_COLOR_BIT\<rparr>"

definition imgStorage :: ImageObject where
  "imgStorage =
     \<lparr>imgVulkanHandle = 7, imgFmt = VK_FORMAT_R8G8B8A8_UNORM,
      imgExtent = \<lparr>extWidth = 4, extHeight = 4, extDepth = 1\<rparr>,
      imgMipLevels = 1, imgArrayLayers = 1,
      imgUsage = VK_IMAGE_USAGE_STORAGE_BIT OR VK_IMAGE_USAGE_SAMPLED_BIT,
      imgTiling = VK_IMAGE_TILING_OPTIMAL, imgInitialLayout = VK_IMAGE_LAYOUT_UNDEFINED,
      imgImageAspect = VK_IMAGE_ASPECT_COLOR_BIT\<rparr>"

definition imgPreinitialized :: ImageObject where
  "imgPreinitialized =
     \<lparr>imgVulkanHandle = 8, imgFmt = VK_FORMAT_R8G8B8A8_UNORM,
      imgExtent = \<lparr>extWidth = 4, extHeight = 4, extDepth = 1\<rparr>,
      imgMipLevels = 1, imgArrayLayers = 1,
      imgUsage = VK_IMAGE_USAGE_SAMPLED_BIT,
      imgTiling = VK_IMAGE_TILING_LINEAR, imgInitialLayout = VK_IMAGE_LAYOUT_PREINITIALIZED,
      imgImageAspect = VK_IMAGE_ASPECT_COLOR_BIT\<rparr>"

text \<open>
  What building a strategy needs, once it is selected, to end with a primeable on queue
  \<open>q\<close>: host data, except for the image store, which also takes device data; a queue of
  the strategy's kind; and, for rendering and the image store, the staging images and the
  copies or stores that fill them.
\<close>

fun strategyAcquired :: "selectorEnv \<Rightarrow> bool \<Rightarrow> strategy \<Rightarrow> handle \<Rightarrow> bool" where
  "strategyAcquired env fromHostData ByBufferCopy q =
     (fromHostData
      \<and> getQueueForPriming env
            (VK_QUEUE_TRANSFER_BIT OR VK_QUEUE_GRAPHICS_BIT OR VK_QUEUE_COMPUTE_BIT) = Some q)"
| "strategyAcquired env fromHostData ByRendering q =
     (fromHostData
      \<and> getQueueForPriming env VK_QUEUE_GRAPHICS_BIT = Some q
      \<and> createStagingImages (create32BitUintColorStagingImagesForAspect env) (imageAspects env) = None
      \<and> stagingRolloutBufCopies env = None)"
| "strategyAcquired env fromHostData ByImageStore q =
     (getQueueForPriming env VK_QUEUE_COMPUTE_BIT = Some q
      \<and> queueInNewState env q
      \<and> (if fromHostData
          then createStagingImages (create32BitUintColorStagingImagesForAspect env) (imageAspects env) = None
               \<and> stagingRolloutBufCopies env = None
          else createSameStagingImage env = None \<and> deviceDataStore env = None))"
| "strategyAcquired env fromHostData ByPreinitialization q =
     (fromHostData
      \<and> getQueueForPriming env
            (VK_QUEUE_TRANSFER_BIT OR VK_QUEUE_GRAPHICS_BIT OR VK_QUEUE_COMPUTE_BIT) = Some q)"

section \<open>The render handler (\<open>render\<close>)\<close>

datatype VkStencilOp =
    VK_STENCIL_OP_KEEP
  | VK_STENCIL_OP_ZERO
  | VK_STENCIL_OP_REPLACE
  | VK_STENCIL_OP_INCREMENT_AND_CLAMP
  | VK_STENCIL_OP_DECREMENT_AND_CLAMP
  | VK_STENCIL_OP_INVERT
  | VK_STENCIL_OP_INCREMENT_AND_WRAP
  | VK_STENCIL_OP_DECREMENT_AND_WRAP

datatype VkCompareOp =
    VK_COMPARE_OP_NEVER
  | VK_COMPARE_OP_LESS
  | VK_COMPARE_OP_EQUAL
  | VK_COMPARE_OP_LESS_OR_EQUAL
  | VK_COMPARE_OP_GREATER
  | VK_COMPARE_OP_NOT_EQUAL
  | VK_COMPARE_OP_GREATER_OR_EQUAL
  | VK_COMPARE_OP_ALWAYS

datatype VkDynamicState =
    VK_DYNAMIC_STATE_VIEWPORT
  | VK_DYNAMIC_STATE_SCISSOR
  | VK_DYNAMIC_STATE_STENCIL_WRITE_MASK
  | VK_DYNAMIC_STATE_STENCIL_REFERENCE

record VkStencilOpState =
  sFailOp :: VkStencilOp
  sPassOp :: VkStencilOp
  sDepthFailOp :: VkStencilOp
  sCompareOp :: VkCompareOp
  sCompareMask :: "32 word"
  sWriteMask :: "32 word"
  sReference :: "32 word"

text \<open>
  An image of a render job. The device, the image type and the sample count are read from
  the image object (\<open>image.Device()\<close>, \<open>image.Info().ImageType()\<close>, \<open>image.Info().Samples()\<close>).
\<close>

record ipRenderImage =
  riImage :: ImageObject
  riDevice :: handle
  riImageType :: VkImageType
  riSamples :: "32 word"
  riAspect :: "32 word"
  riLayer :: "32 word"
  riLevel :: "32 word"
  riInitialLayout :: VkImageLayout
  riFinalLayout :: VkImageLayout

record ipRenderJob =
  inputAttachmentImages :: "ipRenderImage list"
  renderTarget :: ipRenderImage
  rjInputFormat :: VkFormat

record ipRenderDescriptorSetInfo =
  dsDev :: handle
  numInputAttachments :: nat
  pushConstant :: bool

record ipRenderPassInfo =
  rpDev :: handle
  rpNumInputAttachments :: nat
  inputAttachmentImageFormat :: VkFormat
  inputAttachmentImageSamples :: "32 word"
  targetAspect :: "32 word"
  targetFormat :: VkFormat
  targetSamples :: "32 word"

record ipRenderShaderInfo =
  rsDev :: handle
  isVertex :: bool
  rsFormat :: VkFormat
  rsAspect :: "32 word"

record ipGfxPipelineInfo =
  fragShaderInfo :: ipRenderShaderInfo
  gfxPipelineLayout :: handle
  renderPassInfo :: ipRenderPassInfo

text \<open>
  A graphics pipeline as the new state holds it after \<open>VkCreateGraphicsPipelines\<close>: its
  handle and the fields of the create info that \<open>getOrCreateGraphicsPipeline\<close> computes.
\<close>

record GraphicsPipelineObject =
  gpVulkanHandle :: handle
  gpVertShader :: handle
  gpFragShader :: handle
  gpLayout :: handle
  gpRenderPass :: handle
  gpDepthTestEnable :: bool
  gpDepthWriteEnable :: bool
  gpDepthCompareOp :: VkCompareOp
  gpStencilTestEnable :: bool
  gpFront :: VkStencilOpState
  gpBack :: VkStencilOpState
  gpDynamicStates :: "VkDynamicState list"
  gpColorAttachmentCount :: "32 word"

text \<open>
  The handler's caches. A pipeline layout is cached as the state returned it, which may be
  the nil object (\<open>None\<close>).
\<close>

record ipRenderHandler =
  rhDescriptorSetLayouts :: "ipRenderDescriptorSetInfo \<rightharpoonup> handle"
  rhPipelineLayouts :: "ipRenderDescriptorSetInfo \<rightharpoonup> handle option"
  rhPipelines :: "ipGfxPipelineInfo \<rightharpoonup> GraphicsPipelineObject"
  rhShaders :: "ipRenderShaderInfo \<rightharpoonup> handle"

definition newImagePrimerRenderHandler :: ipRenderHandler where
  "newImagePrimerRenderHandler =
     \<lparr>rhDescriptorSetLayouts = Map.empty, rhPipelineLayouts = Map.empty,
      rhPipelines = Map.empty, rhShaders = Map.empty\<rparr>"

definition ipRenderInputAttachmentBinding :: "32 word" where
  "ipRenderInputAttachmentBinding = 0"

text \<open>
  What \<open>render\<close> takes from outside this file. The objects the state builder creates are
  given by their handles, \<open>None\<close> for a nil object where \<open>render\<close> tests \<open>IsNil\<close>; the
  SPIR-V generators give the code or an error; \<open>levelSize\<close> gives the size of the target
  level and \<open>targetLayout\<close> the layout the new state holds for the target subresource.
\<close>

record renderEnv =
  createDescriptorPool :: "ipRenderDescriptorSetInfo \<Rightarrow> handle option"
  newDescriptorSetLayout :: "ipRenderDescriptorSetInfo \<Rightarrow> handle"
  allocDescriptorSet :: "handle \<Rightarrow> handle \<Rightarrow> handle option"
  createImageView :: "ipRenderImage \<Rightarrow> handle option"
  newRenderPass :: "ipRenderPassInfo \<Rightarrow> VkImageLayout \<Rightarrow> handle option"
  createFramebuffer :: "handle \<Rightarrow> handle list \<Rightarrow> 32 word \<Rightarrow> 32 word \<Rightarrow> handle option"
  newPipelineLayout :: "ipRenderDescriptorSetInfo \<Rightarrow> handle option"
  newShaderModule :: "ipRenderShaderInfo \<Rightarrow> handle"
  newPipeline :: "ipGfxPipelineInfo \<Rightarrow> handle"
  ipRenderVertexShaderSpirv :: "err + 32 word list"
  ipRenderColorShaderSpirv :: "VkFormat \<Rightarrow> err + 32 word list"
  ipRenderDepthShaderSpirv :: "VkFormat \<Rightarrow> err + 32 word list"
  ipRenderStencilShaderSpirv :: "err + 32 word list"
  targetLevelSize :: byteSizeAndExtent
  targetLayout :: VkImageLayout

definition createRenderPass ::
  "renderEnv \<Rightarrow> ipRenderPassInfo \<Rightarrow> VkImageLayout \<Rightarrow> handle option" where
  "createRenderPass env info finalLayout =
     (if targetAspect info = VK_IMAGE_ASPECT_COLOR_BIT
         \<or> targetAspect info = VK_IMAGE_ASPECT_DEPTH_BIT
         \<or> targetAspect info = VK_IMAGE_ASPECT_STENCIL_BIT
      then newRenderPass env info finalLayout
      else None)"

definition getOrCreateShaderModule_render ::
  "renderEnv \<Rightarrow> ipRenderHandler \<Rightarrow> ipRenderShaderInfo \<Rightarrow> ipRenderHandler \<times> (err + handle)" where
  "getOrCreateShaderModule_render env h info =
     (case rhShaders h info of
        Some m \<Rightarrow> (h, Inr m)
      | None \<Rightarrow>
          (case (if isVertex info then ipRenderVertexShaderSpirv env
                 else if rsAspect info = VK_IMAGE_ASPECT_COLOR_BIT
                 then ipRenderColorShaderSpirv env (rsFormat info)
                 else if rsAspect info = VK_IMAGE_ASPECT_DEPTH_BIT
                 then ipRenderDepthShaderSpirv env (rsFormat info)
                 else if rsAspect info = VK_IMAGE_ASPECT_STENCIL_BIT
                 then ipRenderStencilShaderSpirv env
                 else Inl (Err ''Unsupported aspect bit: %v'' None)) of
             Inl e \<Rightarrow> (h, Inl (Errf (Some e) ''[Generating shader SPIR-V for: %v]''))
           | Inr code \<Rightarrow>
               if length code = 0
               then (h, Inl (Errf None ''no SPIR-V code generated''))
               else (h\<lparr>rhShaders := (rhShaders h)(info \<mapsto> newShaderModule env info)\<rparr>,
                     Inr (newShaderModule env info))))"

text \<open>The stencil state of the front faces, and the all-zero state of the back faces.\<close>

definition frontStencilOpState :: VkStencilOpState where
  "frontStencilOpState =
     \<lparr>sFailOp = VK_STENCIL_OP_KEEP, sPassOp = VK_STENCIL_OP_REPLACE,
      sDepthFailOp = VK_STENCIL_OP_REPLACE, sCompareOp = VK_COMPARE_OP_ALWAYS,
      sCompareMask = 0, sWriteMask = 0, sReference = 0\<rparr>"

definition backStencilOpState :: VkStencilOpState where
  "backStencilOpState =
     \<lparr>sFailOp = VK_STENCIL_OP_KEEP, sPassOp = VK_STENCIL_OP_KEEP,
      sDepthFailOp = VK_STENCIL_OP_KEEP, sCompareOp = VK_COMPARE_OP_NEVER,
      sCompareMask = 0, sWriteMask = 0, sReference = 0\<rparr>"

text \<open>
  The pipeline \<open>getOrCreateGraphicsPipeline\<close> creates for a key: the depth test and
  write are enabled for a depth target only, the stencil test for a stencil target only,
  with the stencil write mask and reference made dynamic.
\<close>

definition graphicsPipelineFor ::
  "ipGfxPipelineInfo \<Rightarrow> handle \<Rightarrow> handle \<Rightarrow> handle \<Rightarrow> handle \<Rightarrow> GraphicsPipelineObject" where
  "graphicsPipelineFor info renderPass vertShader fragShader pipelineHandle =
     (let aspect = targetAspect (renderPassInfo info);
          depthTestEnable = (aspect = VK_IMAGE_ASPECT_DEPTH_BIT);
          depthWriteEnable = (aspect = VK_IMAGE_ASPECT_DEPTH_BIT);
          stencilTestEnable = (aspect = VK_IMAGE_ASPECT_STENCIL_BIT);
          dynamicStates =
            [VK_DYNAMIC_STATE_VIEWPORT, VK_DYNAMIC_STATE_SCISSOR]
            @ (if aspect = VK_IMAGE_ASPECT_STENCIL_BIT
               then [VK_DYNAMIC_STATE_STENCIL_WRITE_MASK, VK_DYNAMIC_STATE_STENCIL_REFERENCE]
               else []);
          numColorAttachments =
            (if aspect = VK_IMAGE_ASPECT_DEPTH_BIT \<or> aspect = VK_IMAGE_ASPECT_STENCIL_BIT
             then 0 else 1)
      in \<lparr>gpVulkanHandle = pipelineHandle,
          gpVertShader = vertShader, gpFragShader = fragShader,
          gpLayout = gfxPipelineLayout info, gpRenderPass = renderPass,
          gpDepthTestEnable = depthTestEnable,
          gpDepthWriteEnable = depthWriteEnable,
          gpDepthCompareOp = VK_COMPARE_OP_ALWAYS,
          gpStencilTestEnable = stencilTestEnable,
          gpFront = frontStencilOpState, gpBack = backStencilOpState,
          gpDynamicStates = dynamicStates,
          gpColorAttachmentCount = numColorAttachments\<rparr>)"

definition getOrCreateGraphicsPipeline ::
  "renderEnv \<Rightarrow> ipRenderHandler \<Rightarrow> ipGfxPipelineInfo \<Rightarrow> handle
     \<Rightarrow> ipRenderHandler \<times> (err + GraphicsPipelineObject)" where
  "getOrCreateGraphicsPipeline env h info renderPass =
     (case rhPipelines h info of
        Some p \<Rightarrow> (h, Inr p)
      | None \<Rightarrow>
          (case getOrCreateShaderModule_render env h
                  \<lparr>rsDev = rpDev (renderPassInfo info), isVertex = True, rsFormat = 0, rsAspect = 0\<rparr> of
             (h1, Inl e) \<Rightarrow> (h1, Inl (Errf (Some e) ''[Getting vertex shader module]''))
           | (h1, Inr vertShader) \<Rightarrow>
               (case getOrCreateShaderModule_render env h1 (fragShaderInfo info) of
                  (h2, Inl e) \<Rightarrow> (h2, Inl (Errf (Some e) ''[Getting fragment shader module]''))
                | (h2, Inr fragShader) \<Rightarrow>
                    (let p = graphicsPipelineFor info renderPass vertShader fragShader
                               (newPipeline env info)
                     in (h2\<lparr>rhPipelines := (rhPipelines h2)(info \<mapsto> p)\<rparr>, Inr p)))))"

definition getOrCreateDescriptorSetLayout ::
  "renderEnv \<Rightarrow> ipRenderHandler \<Rightarrow> ipRenderDescriptorSetInfo \<Rightarrow> ipRenderHandler \<times> handle" where
  "getOrCreateDescriptorSetLayout env h descSetInfo =
     (case rhDescriptorSetLayouts h descSetInfo of
        Some l \<Rightarrow> (h, l)
      | None \<Rightarrow>
          (h\<lparr>rhDescriptorSetLayouts :=
                (rhDescriptorSetLayouts h)(descSetInfo \<mapsto> newDescriptorSetLayout env descSetInfo)\<rparr>,
           newDescriptorSetLayout env descSetInfo))"

definition getOrCreatePipelineLayout ::
  "renderEnv \<Rightarrow> ipRenderHandler \<Rightarrow> ipRenderDescriptorSetInfo
     \<Rightarrow> ipRenderHandler \<times> handle option" where
  "getOrCreatePipelineLayout env h descSetInfo =
     (case rhPipelineLayouts h descSetInfo of
        Some l \<Rightarrow> (h, l)
      | None \<Rightarrow>
          (let (h1, descriptorSet) = getOrCreateDescriptorSetLayout env h descSetInfo
           in (h1\<lparr>rhPipelineLayouts :=
                     (rhPipelineLayouts h1)(descSetInfo \<mapsto> newPipelineLayout env descSetInfo)\<rparr>,
               newPipelineLayout env descSetInfo)))"

record ipRenderDrawInfo =
  diRenderPass :: handle
  diFramebuffer :: handle
  diDescSet :: handle
  diPipelineLayout :: handle
  diPipeline :: GraphicsPipelineObject
  diAspect :: "32 word"
  diWidth :: "32 word"
  diHeight :: "32 word"
  stencilWriteMask :: "32 word"
  stencilReference :: "32 word"
  clearStencil :: bool

text \<open>
  What \<open>render\<close> gives to \<open>recordCmdBufCommand\<close> is a closure. The task calls its closures
  with its command buffer when it is committed, and the caller commits after \<open>render\<close> has
  returned: \<open>ipPrimeableByRendering.prime\<close> calls \<open>render\<close> for every job on one task and
  then \<open>commit\<close>. A closure reads the variables of \<open>render\<close> it refers to when it runs. The
  only one of them that \<open>render\<close> changes after recording a closure is the loop variable
  \<open>i\<close> of the stencil loop, which in the Go of this repository is one variable for all
  iterations. So a closure is the commands it writes as a function of the value \<open>i\<close> holds
  when it runs.
\<close>

type_synonym cmdBufClosure = "32 word \<Rightarrow> command list"

definition recordCmdBufCommand :: "cmdBufClosure \<Rightarrow> cmdBufClosure list \<Rightarrow> cmdBufClosure list" where
  "recordCmdBufCommand f closures = closures @ [f]"

text \<open>The commands the closures write, in order, when they run with \<open>i\<close> holding \<open>iNow\<close>.\<close>

definition runClosures :: "32 word \<Rightarrow> cmdBufClosure list \<Rightarrow> command list" where
  "runClosures iNow closures = concat (map (\<lambda>f. f iNow) closures)"

text \<open>
  \<open>beginRenderPassAndDraw\<close> takes \<open>info\<close> by value, so its closure reads the copy made at
  the call.
\<close>

definition beginRenderPassAndDraw ::
  "ipRenderDrawInfo \<Rightarrow> cmdBufClosure list \<Rightarrow> cmdBufClosure list" where
  "beginRenderPassAndDraw info closures =
     recordCmdBufCommand
       (\<lambda>iNow.
        [VkCmdBeginRenderPass (diRenderPass info) (diFramebuffer info) (diWidth info) (diHeight info)]
        @ (if clearStencil info
           then [VkCmdClearAttachments VK_IMAGE_ASPECT_STENCIL_BIT (diWidth info) (diHeight info)]
           else [])
        @ [VkCmdBindPipeline VK_PIPELINE_BIND_POINT_GRAPHICS (gpVulkanHandle (diPipeline info)),
           VkCmdSetViewport (diWidth info) (diHeight info),
           VkCmdSetScissor (diWidth info) (diHeight info)]
        @ (if diAspect info = VK_IMAGE_ASPECT_STENCIL_BIT
           then [VkCmdSetStencilWriteMask (stencilWriteMask info),
                 VkCmdSetStencilReference (stencilReference info)]
           else [])
        @ [VkCmdBindDescriptorSets VK_PIPELINE_BIND_POINT_GRAPHICS
             (diPipelineLayout info) (diDescSet info),
           VkCmdDraw 6 1 0 0,
           VkCmdEndRenderPass])
       closures"

text \<open>The loop that creates the views of the input attachment images.\<close>

fun createInputViews :: "renderEnv \<Rightarrow> ipRenderImage list \<Rightarrow> err + handle list" where
  "createInputViews env [] = Inr []"
| "createInputViews env (input # rest) =
     (if riImageType input = VK_IMAGE_TYPE_3D
      then Inl (Errf None ''rendering to 3D images are not supported yet'')
      else (case createImageView env input of
              None \<Rightarrow> Inl (Errf None ''failed to create image view for input attachment image: %v'')
            | Some view \<Rightarrow>
                (case createInputViews env rest of
                   Inl e \<Rightarrow> Inl e
                 | Inr views \<Rightarrow> Inr (view # views))))"

text \<open>
  \<open>render\<close> either returns (an error, or \<open>None\<close> for Go's \<open>nil\<close>) or panics, which it does
  at \<open>job.inputAttachmentImages[0]\<close> when the job has no input attachment image.
\<close>

datatype renderOutcome = RenderReturned "err option" | RenderPanicked

text \<open>The objects \<open>render\<close> has in hand when it starts to record commands.\<close>

record renderObjects =
  roDescSet :: handle
  roRenderPass :: handle
  roFramebuffer :: handle
  roPipelineLayout :: handle
  roPipeline :: GraphicsPipelineObject
  roWidth :: "32 word"
  roHeight :: "32 word"

text \<open>
  The first part of \<open>render\<close>, up to the graphics pipeline: every object is created or
  fetched in the order of the source, and the first failure ends the call. The cleanups
  given to \<open>deferUntilExecuted\<close> record no command and are left out.
\<close>

definition renderSetup ::
  "renderEnv \<Rightarrow> ipRenderHandler \<Rightarrow> ipRenderJob \<Rightarrow> scratchTask
     \<Rightarrow> ipRenderHandler \<times> scratchTask \<times> (renderOutcome + renderObjects)" where
  "renderSetup env h job tsk =
     (let target = renderTarget job;
          aspect = riAspect target;
          dev = riDevice target;
          descSetInfo =
            \<lparr>dsDev = dev, numInputAttachments = length (inputAttachmentImages job),
             pushConstant = (aspect = VK_IMAGE_ASPECT_STENCIL_BIT)\<rparr>
      in case createDescriptorPool env descSetInfo of
           None \<Rightarrow>
             (h, tsk, Inl (RenderReturned (Some (Errf None
                ''failed to create descriptor pool for %v input attachments''))))
         | Some descPool \<Rightarrow>
             (case getOrCreateDescriptorSetLayout env h descSetInfo of
                (h1, descSetLayout) \<Rightarrow>
                  (case allocDescriptorSet env descPool descSetLayout of
                     None \<Rightarrow>
                       (h1, tsk, Inl (RenderReturned (Some (Errf None
                          ''failed to allocate descriptorset with %v input attachments''))))
                   | Some descSet \<Rightarrow>
                       (case createInputViews env (inputAttachmentImages job) of
                          Inl e \<Rightarrow> (h1, tsk, Inl (RenderReturned (Some e)))
                        | Inr inputViews \<Rightarrow>
                            if riImageType target = VK_IMAGE_TYPE_3D
                            then (h1, tsk, Inl (RenderReturned (Some (Errf None
                                    ''rendering to 3D images are not supported yet''))))
                            else
                              (case createImageView env target of
                                 None \<Rightarrow>
                                   (h1, tsk, Inl (RenderReturned (Some (Errf None
                                      ''failed to create image view for rendering target image: %v''))))
                               | Some outputView \<Rightarrow>
                                   (let tsk1 = tsk\<lparr>onCommitted := onCommitted tsk
                                                @ [WriteDescriptorSet descSet
                                                     ipRenderInputAttachmentBinding inputViews]\<rparr>
                                    in case inputAttachmentImages job of
                                         [] \<Rightarrow> (h1, tsk1, Inl RenderPanicked)
                                       | input0 # others \<Rightarrow>
                                           (let rpInfo =
                                                  \<lparr>rpDev = dev,
                                                   rpNumInputAttachments = length (inputAttachmentImages job),
                                                   inputAttachmentImageFormat = imgFmt (riImage input0),
                                                   inputAttachmentImageSamples = riSamples input0,
                                                   targetAspect = aspect,
                                                   targetFormat = imgFmt (riImage target),
                                                   targetSamples = riSamples target\<rparr>
                                            in case createRenderPass env rpInfo (riFinalLayout target) of
                                                 None \<Rightarrow>
                                                   (h1, tsk1, Inl (RenderReturned (Some (Errf None
                                                      ''failed to create renderpass for rendering''))))
                                               | Some renderPass \<Rightarrow>
                                                   (let width = ucast (bseWidth (targetLevelSize env));
                                                        height = ucast (bseHeight (targetLevelSize env))
                                                    in case createFramebuffer env renderPass
                                                              (inputViews @ [outputView]) width height of
                                                         None \<Rightarrow>
                                                           (h1, tsk1, Inl (RenderReturned (Some (Errf None
                                                              ''failed to create framebuffer for rendering''))))
                                                       | Some framebuffer \<Rightarrow>
                                                           (case getOrCreatePipelineLayout env h1 descSetInfo of
                                                              (h2, None) \<Rightarrow>
                                                                (h2, tsk1, Inl (RenderReturned (Some (Errf None
                                                                   ''failed to get pipeline layout for the rendering''))))
                                                            | (h2, Some pipelineLayout) \<Rightarrow>
                                                                (case getOrCreateGraphicsPipeline env h2
                                                                        \<lparr>fragShaderInfo =
                                                                           \<lparr>rsDev = dev, isVertex = False,
                                                                            rsFormat = rjInputFormat job,
                                                                            rsAspect = aspect\<rparr>,
                                                                         gfxPipelineLayout = pipelineLayout,
                                                                         renderPassInfo = rpInfo\<rparr>
                                                                        renderPass of
                                                                   (h3, Inl e) \<Rightarrow>
                                                                     (h3, tsk1, Inl (RenderReturned (Some
                                                                        (Errf (Some e) ''[Getting graphics pipeline]''))))
                                                                 | (h3, Inr pipeline) \<Rightarrow>
                                                                     (h3, tsk1, Inr
                                                                        \<lparr>roDescSet = descSet,
                                                                         roRenderPass = renderPass,
                                                                         roFramebuffer = framebuffer,
                                                                         roPipelineLayout = pipelineLayout,
                                                                         roPipeline = pipeline,
                                                                         roWidth = width,
                                                                         roHeight = height\<rparr>)))))))))))"

text \<open>The barriers of the input attachment images, before and after the draws.\<close>

definition inputSrcBarrier :: "ipRenderImage \<Rightarrow> VkImageMemoryBarrier" where
  "inputSrcBarrier input =
     \<lparr>barOldLayout = riInitialLayout input,
      barNewLayout = VK_IMAGE_LAYOUT_SHADER_READ_ONLY_OPTIMAL,
      barImage = imgVulkanHandle (riImage input),
      barAspectMask = ipImageBarrierAspectFlags (riAspect input) (imgFmt (riImage input)),
      barBaseMipLevel = 0, barLevelCount = imgMipLevels (riImage input),
      barBaseArrayLayer = 0, barLayerCount = imgArrayLayers (riImage input)\<rparr>"

definition inputDstBarrier :: "ipRenderImage \<Rightarrow> VkImageMemoryBarrier" where
  "inputDstBarrier input =
     \<lparr>barOldLayout = VK_IMAGE_LAYOUT_SHADER_READ_ONLY_OPTIMAL,
      barNewLayout = riFinalLayout input,
      barImage = imgVulkanHandle (riImage input),
      barAspectMask = ipImageBarrierAspectFlags (riAspect input) (imgFmt (riImage input)),
      barBaseMipLevel = 0, barLevelCount = imgMipLevels (riImage input),
      barBaseArrayLayer = 0, barLayerCount = imgArrayLayers (riImage input)\<rparr>"

text \<open>
  One iteration of the stencil loop, entered with the loop variable holding \<open>i\<close>: the
  closure with the barrier and the push constant, whose \<open>stencilIndex := []uint32{i}\<close> is
  inside the closure and reads the loop variable when the closure runs; and the draw, whose
  \<open>drawInfo\<close> (with \<open>0x1 << i\<close> and \<open>i == 0\<close>) is built in the iteration.
\<close>

definition stencilIteration ::
  "renderObjects \<Rightarrow> 32 word \<Rightarrow> cmdBufClosure list \<Rightarrow> cmdBufClosure list" where
  "stencilIteration ro i closures =
     beginRenderPassAndDraw
       \<lparr>diRenderPass = roRenderPass ro, diFramebuffer = roFramebuffer ro,
        diDescSet = roDescSet ro, diPipelineLayout = roPipelineLayout ro,
        diPipeline = roPipeline ro, diAspect = VK_IMAGE_ASPECT_STENCIL_BIT,
        diWidth = roWidth ro, diHeight = roHeight ro,
        stencilWriteMask = push_bit (unat i) 1,
        stencilReference = push_bit (unat i) 1,
        clearStencil = (i = 0)\<rparr>
       (recordCmdBufCommand
          (\<lambda>iNow. [VkCmdPipelineBarrier 1,
                    VkCmdPushConstants (roPipelineLayout ro) 4 [iNow]])
          closures)"

text \<open>
  The loop \<open>for i := uint32(0); i < uint32(8); i++\<close>: the value of the loop variable when the
  loop ends, and the closures recorded.
\<close>

function stencilLoop ::
  "renderObjects \<Rightarrow> 32 word \<Rightarrow> cmdBufClosure list \<Rightarrow> 32 word \<times> cmdBufClosure list" where
  "stencilLoop ro i closures =
     (if i < 8 then stencilLoop ro (i + 1) (stencilIteration ro i closures) else (i, closures))"
  by pat_completeness auto

termination stencilLoop
  apply (relation "measure (\<lambda>(ro, i, closures). 8 - unat i)")
   apply simp
  apply (simp add: word_less_nat_alt unat_word_ariths)
  done

declare stencilLoop.simps [simp del]

text \<open>
  \<open>render\<close>. In the task returned, \<open>recorded\<close> has gained the commands that the closures of
  this call write when the task is committed: they run with the loop variable as the stencil
  loop left it. The colour and depth branches have no such variable and their closures read
  none.
\<close>

definition render ::
  "renderEnv \<Rightarrow> ipRenderHandler \<Rightarrow> ipRenderJob \<Rightarrow> scratchTask
     \<Rightarrow> renderOutcome \<times> ipRenderHandler \<times> scratchTask" where
  "render env h job tsk =
     (let target = renderTarget job;
          aspect = riAspect target
      in if aspect \<noteq> VK_IMAGE_ASPECT_COLOR_BIT \<and> aspect \<noteq> VK_IMAGE_ASPECT_DEPTH_BIT
            \<and> aspect \<noteq> VK_IMAGE_ASPECT_STENCIL_BIT
         then (RenderReturned (Some (Errf None ''unsupported aspect: %v'')), h, tsk)
         else
           (case renderSetup env h job tsk of
              (h3, tsk1, Inl outcome) \<Rightarrow> (outcome, h3, tsk1)
            | (h3, tsk1, Inr ro) \<Rightarrow>
                (let outputBarrierAspect =
                       ipImageBarrierAspectFlags aspect (imgFmt (riImage target));
                     outputPreRenderLayout =
                       (if aspect = VK_IMAGE_ASPECT_COLOR_BIT
                        then VK_IMAGE_LAYOUT_COLOR_ATTACHMENT_OPTIMAL
                        else VK_IMAGE_LAYOUT_DEPTH_STENCIL_ATTACHMENT_OPTIMAL);
                     inputSrcBarriers = map inputSrcBarrier (inputAttachmentImages job);
                     dstBarriers =
                       map inputDstBarrier
                         (filter (\<lambda>input. riFinalLayout input
                                            \<noteq> VK_IMAGE_LAYOUT_SHADER_READ_ONLY_OPTIMAL)
                            (inputAttachmentImages job));
                     outputBarrier =
                       \<lparr>barOldLayout = targetLayout env,
                        barNewLayout = outputPreRenderLayout,
                        barImage = imgVulkanHandle (riImage target),
                        barAspectMask = outputBarrierAspect,
                        barBaseMipLevel = riLevel target, barLevelCount = 1,
                        barBaseArrayLayer = riLayer target, barLayerCount = 1\<rparr>;
                     closures2 =
                       recordCmdBufCommand
                         (\<lambda>iNow. [VkCmdPipelineBarrier (length (inputSrcBarriers @ [outputBarrier]))])
                         [];
                     (iEnd, closures3, dstBarriers1) =
                       (if aspect = VK_IMAGE_ASPECT_COLOR_BIT \<or> aspect = VK_IMAGE_ASPECT_DEPTH_BIT
                        then (0,
                              beginRenderPassAndDraw
                                \<lparr>diRenderPass = roRenderPass ro, diFramebuffer = roFramebuffer ro,
                                 diDescSet = roDescSet ro, diPipelineLayout = roPipelineLayout ro,
                                 diPipeline = roPipeline ro, diAspect = aspect,
                                 diWidth = roWidth ro, diHeight = roHeight ro,
                                 stencilWriteMask = 0, stencilReference = 0,
                                 clearStencil = False\<rparr>
                                closures2,
                              dstBarriers)
                        else (fst (stencilLoop ro 0 closures2),
                              snd (stencilLoop ro 0 closures2),
                              dstBarriers
                              @ [\<lparr>barOldLayout = VK_IMAGE_LAYOUT_DEPTH_STENCIL_ATTACHMENT_OPTIMAL,
                                  barNewLayout = riFinalLayout target,
                                  barImage = imgVulkanHandle (riImage target),
                                  barAspectMask = outputBarrierAspect,
                                  barBaseMipLevel = riLevel target, barLevelCount = 1,
                                  barBaseArrayLayer = riLayer target, barLayerCount = 1\<rparr>]));
                     closures4 =
                       (if length dstBarriers1 > 0
                        then recordCmdBufCommand
                               (\<lambda>iNow. [VkCmdPipelineBarrier (length dstBarriers1)]) closures3
                        else closures3)
                 in (RenderReturned None, h3,
                     tsk1\<lparr>recorded := recorded tsk1 @ runClosures iEnd closures4\<rparr>))))"


section \<open>The recorded stencil passes on a pixel\<close>

text \<open>
  The stencil fragment shader (\<open>ipRenderStencilShaderSpirv\<close>) is not in the source. What a
  draw needs of it is whether it keeps the fragment of a pixel, which it decides from the
  pushed stencil bit index and the pixel's value in the staging image: a shader is here a
  function of the two.
\<close>

type_synonym stencilShader = "32 word \<Rightarrow> 32 word \<Rightarrow> bool"

text \<open>
  Modelled from the spec: the shader that renders one bit plane per pass: with the pushed
  stencil bit index \<open>k\<close>, it keeps the fragment of a pixel when bit \<open>k\<close> of the pixel's
  value in the staging image is set, and discards it otherwise.
\<close>

definition stencilFragmentKept :: stencilShader where
  "stencilFragmentKept stencilIndex texel = bit texel (unat stencilIndex)"

text \<open>
  Modelled from the spec: the state of the command buffer that a draw reads, and the stored
  stencil value of one pixel of the target. The stencil test and the stencil write are
  Vulkan's: the reference is compared with the stored value under the compare mask, the
  operation chosen by the outcome gives a value, and the bits of the write mask take it.
  The depth test of the handler's pipelines compares with \<open>ALWAYS\<close> and cannot fail, and the
  triangles drawn are front-facing.
\<close>

record gpuState =
  stencilValue :: "8 word"
  dynStencilWriteMask :: "32 word"
  dynStencilReference :: "32 word"
  pushedConstants :: "32 word list"
  boundPipeline :: "handle option"

fun compareOpHolds :: "VkCompareOp \<Rightarrow> 8 word \<Rightarrow> 8 word \<Rightarrow> bool" where
  "compareOpHolds VK_COMPARE_OP_NEVER r v = False"
| "compareOpHolds VK_COMPARE_OP_LESS r v = (r < v)"
| "compareOpHolds VK_COMPARE_OP_EQUAL r v = (r = v)"
| "compareOpHolds VK_COMPARE_OP_LESS_OR_EQUAL r v = (r \<le> v)"
| "compareOpHolds VK_COMPARE_OP_GREATER r v = (r > v)"
| "compareOpHolds VK_COMPARE_OP_NOT_EQUAL r v = (r \<noteq> v)"
| "compareOpHolds VK_COMPARE_OP_GREATER_OR_EQUAL r v = (r \<ge> v)"
| "compareOpHolds VK_COMPARE_OP_ALWAYS r v = True"

fun stencilOpValue :: "VkStencilOp \<Rightarrow> 8 word \<Rightarrow> 8 word \<Rightarrow> 8 word" where
  "stencilOpValue VK_STENCIL_OP_KEEP r v = v"
| "stencilOpValue VK_STENCIL_OP_ZERO r v = 0"
| "stencilOpValue VK_STENCIL_OP_REPLACE r v = r"
| "stencilOpValue VK_STENCIL_OP_INCREMENT_AND_CLAMP r v = (if v = - 1 then v else v + 1)"
| "stencilOpValue VK_STENCIL_OP_DECREMENT_AND_CLAMP r v = (if v = 0 then v else v - 1)"
| "stencilOpValue VK_STENCIL_OP_INVERT r v = NOT v"
| "stencilOpValue VK_STENCIL_OP_INCREMENT_AND_WRAP r v = v + 1"
| "stencilOpValue VK_STENCIL_OP_DECREMENT_AND_WRAP r v = v - 1"

definition drawStencil ::
  "stencilShader \<Rightarrow> GraphicsPipelineObject \<Rightarrow> 32 word \<Rightarrow> gpuState \<Rightarrow> gpuState" where
  "drawStencil shader p texel s =
     (if \<not> gpStencilTestEnable p then s
      else
        (case pushedConstants s of
           [stencilIndex] \<Rightarrow>
             if \<not> shader stencilIndex texel then s
             else
               (let front = gpFront p;
                    r = ucast (dynStencilReference s);
                    writeMask = ucast (dynStencilWriteMask s);
                    compareMask = ucast (sCompareMask front);
                    v = stencilValue s;
                    op = (if compareOpHolds (sCompareOp front) (r AND compareMask) (v AND compareMask)
                          then sPassOp front else sFailOp front)
                in s\<lparr>stencilValue := (v AND NOT writeMask) OR (stencilOpValue op r v AND writeMask)\<rparr>)
         | _ \<Rightarrow> s))"

fun execCmd ::
  "stencilShader \<Rightarrow> GraphicsPipelineObject \<Rightarrow> 32 word \<Rightarrow> gpuState \<Rightarrow> command \<Rightarrow> gpuState" where
  "execCmd shader p texel s (VkCmdClearAttachments aspectMask w h) =
     (if aspectMask AND VK_IMAGE_ASPECT_STENCIL_BIT \<noteq> 0 then s\<lparr>stencilValue := 0\<rparr> else s)"
| "execCmd shader p texel s (VkCmdPushConstants layout len ws) = s\<lparr>pushedConstants := ws\<rparr>"
| "execCmd shader p texel s (VkCmdBindPipeline bindPoint pipeline) =
     s\<lparr>boundPipeline := Some pipeline\<rparr>"
| "execCmd shader p texel s (VkCmdSetStencilWriteMask m) = s\<lparr>dynStencilWriteMask := m\<rparr>"
| "execCmd shader p texel s (VkCmdSetStencilReference r) = s\<lparr>dynStencilReference := r\<rparr>"
| "execCmd shader p texel s (VkCmdDraw vertexCount instanceCount firstVertex firstInstance) =
     (if boundPipeline s = Some (gpVulkanHandle p) then drawStencil shader p texel s else s)"
| "execCmd shader p texel s c = s"

definition execute ::
  "stencilShader \<Rightarrow> GraphicsPipelineObject \<Rightarrow> 32 word \<Rightarrow> gpuState \<Rightarrow> command list \<Rightarrow> gpuState" where
  "execute shader p texel s cmds = foldl (execCmd shader p texel) s cmds"

text \<open>The draws among recorded commands.\<close>

fun draws :: "command list \<Rightarrow> command list" where
  "draws [] = []"
| "draws (VkCmdDraw vertexCount instanceCount firstVertex firstInstance # cs) =
     VkCmdDraw vertexCount instanceCount firstVertex firstInstance # draws cs"
| "draws (c # cs) = draws cs"

text \<open>
  Draw pass \<open>i\<close> as the specification words it: the stencil attachment is cleared in pass 0
  only, and the stencil write mask and the stencil reference are both \<open>1 << i\<close>. \<open>k\<close> is the
  stencil bit index pushed to the fragment shader.
\<close>

definition bitPlanePass :: "renderObjects \<Rightarrow> 32 word \<Rightarrow> nat \<Rightarrow> command list" where
  "bitPlanePass ro k i =
     [VkCmdPipelineBarrier 1,
      VkCmdPushConstants (roPipelineLayout ro) 4 [k],
      VkCmdBeginRenderPass (roRenderPass ro) (roFramebuffer ro) (roWidth ro) (roHeight ro)]
     @ (if i = 0
        then [VkCmdClearAttachments VK_IMAGE_ASPECT_STENCIL_BIT (roWidth ro) (roHeight ro)]
        else [])
     @ [VkCmdBindPipeline VK_PIPELINE_BIND_POINT_GRAPHICS (gpVulkanHandle (roPipeline ro)),
        VkCmdSetViewport (roWidth ro) (roHeight ro),
        VkCmdSetScissor (roWidth ro) (roHeight ro),
        VkCmdSetStencilWriteMask (push_bit i 1),
        VkCmdSetStencilReference (push_bit i 1),
        VkCmdBindDescriptorSets VK_PIPELINE_BIND_POINT_GRAPHICS (roPipelineLayout ro) (roDescSet ro),
        VkCmdDraw 6 1 0 0,
        VkCmdEndRenderPass]"

text \<open>Every cached pipeline is one that \<open>getOrCreateGraphicsPipeline\<close> built for its key.\<close>

definition pipelinesBuiltByHandler :: "ipRenderHandler \<Rightarrow> bool" where
  "pipelinesBuiltByHandler h \<longleftrightarrow>
     (\<forall>info p. rhPipelines h info = Some p
        \<longrightarrow> (\<exists>renderPass vertShader fragShader pipelineHandle.
               p = graphicsPipelineFor info renderPass vertShader fragShader pipelineHandle))"


text \<open>
  A stencil job: one 4 x 4 staging image (\<open>R32_UINT\<close>, colour aspect) rendered to the stencil
  aspect of an \<open>S8_UINT\<close> image, in an environment where every object is created.
\<close>

definition imgStencilStaging :: ImageObject where
  "imgStencilStaging =
     \<lparr>imgVulkanHandle = 31, imgFmt = VK_FORMAT_R32_UINT,
      imgExtent = \<lparr>extWidth = 4, extHeight = 4, extDepth = 1\<rparr>,
      imgMipLevels = 1, imgArrayLayers = 1, imgUsage = 134,
      imgTiling = VK_IMAGE_TILING_OPTIMAL, imgInitialLayout = VK_IMAGE_LAYOUT_UNDEFINED,
      imgImageAspect = VK_IMAGE_ASPECT_COLOR_BIT\<rparr>"

definition imgStencilTarget :: ImageObject where
  "imgStencilTarget =
     \<lparr>imgVulkanHandle = 32, imgFmt = VK_FORMAT_S8_UINT,
      imgExtent = \<lparr>extWidth = 4, extHeight = 4, extDepth = 1\<rparr>,
      imgMipLevels = 1, imgArrayLayers = 1, imgUsage = 32,
      imgTiling = VK_IMAGE_TILING_OPTIMAL, imgInitialLayout = VK_IMAGE_LAYOUT_UNDEFINED,
      imgImageAspect = VK_IMAGE_ASPECT_STENCIL_BIT\<rparr>"

definition jobStencil :: ipRenderJob where
  "jobStencil =
     \<lparr>inputAttachmentImages =
        [\<lparr>riImage = imgStencilStaging, riDevice = 1, riImageType = VK_IMAGE_TYPE_2D,
          riSamples = 1, riAspect = VK_IMAGE_ASPECT_COLOR_BIT, riLayer = 0, riLevel = 0,
          riInitialLayout = VK_IMAGE_LAYOUT_SHADER_READ_ONLY_OPTIMAL,
          riFinalLayout = VK_IMAGE_LAYOUT_SHADER_READ_ONLY_OPTIMAL\<rparr>],
      renderTarget =
        \<lparr>riImage = imgStencilTarget, riDevice = 1, riImageType = VK_IMAGE_TYPE_2D,
         riSamples = 1, riAspect = VK_IMAGE_ASPECT_STENCIL_BIT, riLayer = 0, riLevel = 0,
         riInitialLayout = VK_IMAGE_LAYOUT_UNDEFINED,
         riFinalLayout = VK_IMAGE_LAYOUT_DEPTH_STENCIL_ATTACHMENT_OPTIMAL\<rparr>,
      rjInputFormat = VK_FORMAT_S8_UINT\<rparr>"

definition envStencil :: renderEnv where
  "envStencil =
     \<lparr>createDescriptorPool = (\<lambda>info. Some 10),
      newDescriptorSetLayout = (\<lambda>info. 11),
      allocDescriptorSet = (\<lambda>pool layout. Some 12),
      createImageView = (\<lambda>image. Some (20 + imgVulkanHandle (riImage image))),
      newRenderPass = (\<lambda>info finalLayout. Some 13),
      createFramebuffer = (\<lambda>renderPass views width height. Some 14),
      newPipelineLayout = (\<lambda>info. Some 15),
      newShaderModule = (\<lambda>info. if isVertex info then 16 else 17),
      newPipeline = (\<lambda>info. 18),
      ipRenderVertexShaderSpirv = Inr [1],
      ipRenderColorShaderSpirv = (\<lambda>fmt. Inr [2]),
      ipRenderDepthShaderSpirv = (\<lambda>fmt. Inr [3]),
      ipRenderStencilShaderSpirv = Inr [4],
      targetLevelSize =
        \<lparr>levelSize = 16, alignedLevelSize = 16, levelSizeInBuf = 16, alignedLevelSizeInBuf = 16,
         bseWidth = 4, bseHeight = 4, bseDepth = 1\<rparr>,
      targetLayout = VK_IMAGE_LAYOUT_UNDEFINED\<rparr>"

definition tskStencil :: scratchTask where
  "tskStencil = \<lparr>taskQueue = 5, onCommitted = [], recorded = []\<rparr>"

definition gpuStart :: gpuState where
  "gpuStart =
     \<lparr>stencilValue = 60, dynStencilWriteMask = 0, dynStencilReference = 0,
      pushedConstants = [], boundPipeline = None\<rparr>"

chapter \<open>Properties\<close>

section \<open>Properties of staging image allocation\<close>

lemma allocationSizes_created:
  "allocationSizes [VkCreateImage i, VkGetImageMemoryRequirements i,
      VkAllocateMemory sz ix m, VkBindImageMemory i m 0] = [sz]"
  by simp

text \<open>
  C7. For every staging image whose size is inferred, createImageAndBindMemory succeeds and
  allocates one block of backing memory of max(2 * size, 256 KiB) bytes: twice the inferred
  size when that product is at least 262144, and 262144 otherwise. The product is the
  source's \<open>imgSize * 2\<close> on \<open>VkDeviceSize\<close>; it is the mathematical product whenever
  that fits in 64 bits.
\<close>

theorem createImageAndBindMemory_allocSize:
  "snd (createImageAndBindMemory dev (Inr imgSize) memTypeIndex imgHandle memHandle)
       = Inr (imgHandle, memHandle)
   \<and> allocationSizes (fst (createImageAndBindMemory dev (Inr imgSize) memTypeIndex imgHandle memHandle))
       = [max (imgSize * 2) 262144]
   \<and> (if 262144 \<le> imgSize * 2
       then allocationSizes (fst (createImageAndBindMemory dev (Inr imgSize) memTypeIndex imgHandle memHandle))
              = [imgSize * 2]
       else allocationSizes (fst (createImageAndBindMemory dev (Inr imgSize) memTypeIndex imgHandle memHandle))
              = [262144])
   \<and> (if unat imgSize < 2 ^ 63 then unat (imgSize * 2) = 2 * unat imgSize else True)"
proof -
  have wrap: "unat (imgSize * 2) = 2 * unat imgSize" if "unat imgSize < 2 ^ 63"
  proof -
    have "unat (imgSize * 2) = (unat imgSize * 2) mod 2 ^ 64"
      by (simp add: unat_word_ariths)
    also have "\<dots> = unat imgSize * 2"
      using that by simp
    finally show ?thesis by simp
  qed
  show ?thesis
    using wrap
    by (auto simp: createImageAndBindMemory_def Let_def max_def not_less)
qed

theorem createImageAndBindMemory_allocSize_witness:
  "allocationSizes (fst (createImageAndBindMemory 1 (Inr 1000) 0 7 8)) = [262144]
   \<and> allocationSizes (fst (createImageAndBindMemory 1 (Inr 131072) 0 7 8)) = [262144]
   \<and> allocationSizes (fst (createImageAndBindMemory 1 (Inr 4194304) 0 7 8)) = [8388608]"
  using createImageAndBindMemory_allocSize [of 1 1000 0 7 8]
        createImageAndBindMemory_allocSize [of 1 131072 0 7 8]
        createImageAndBindMemory_allocSize [of 1 4194304 0 7 8]
  by (simp add: max_def)

section \<open>Properties of the image-store handler\<close>

lemma storeFailed_sel [simp]:
  "returned (storeFailed e h w) = Some e" "task (storeFailed e h w) = None"
  by (simp_all add: storeFailed_def)

lemma storeSetup_frame:
  assumes "storeSetup env h job = (h4, w, ds, pl, md, dl)"
  shows "pipelines h4 = pipelines h" and "shaders h4 = shaders h"
    and "pipelineLayouts h4 (viewDevice (jobOutput job)) \<noteq> None"
  using assms
  by (auto simp: storeSetup_def Let_def split: option.splits)

lemma getOrCreateComputePipeline_ok:
  assumes "ipComputeShaderSpirv env info = Inr code" and "code \<noteq> []"
    and "pipelineLayouts h (infoDev info) \<noteq> None"
  shows "\<exists>h' w p. getOrCreateComputePipeline env h info = (h', w, Inr p)"
  using assms
  by (auto simp: getOrCreateComputePipeline_def getOrCreateShaderModule_def split: option.splits)

lemmas store_eval =
  store_def storeSetup_def env0_def emptyStoreHandler_def job0_def jobTooWide_def Let_def
  getOrCreateComputePipeline_def getOrCreateShaderModule_def compShaderInfoOf_def
  specMaxComputeGroupCountX_def specMaxComputeGroupCountY_def specMaxComputeGroupCountZ_def
  storeFailed_def

text \<open>
  C8. A store job whose extent exceeds 65536 in width, height or depth is rejected: store
  returns an error and builds no task, so no dispatch is recorded. For a job within the
  bound, store either fails for another reason (and again records nothing) or returns nil
  with a task whose only dispatch has the job's extent as its group counts, unclamped; it
  does build that task when the image types agree and the shader generator delivers code.
\<close>

theorem store_extent_bound:
  "(65536 < extWidth (jobExtent job) \<or> 65536 < extHeight (jobExtent job)
       \<or> 65536 < extDepth (jobExtent job)
     \<longrightarrow> returned (store env h job queue) \<noteq> None \<and> task (store env h job queue) = None)
   \<and> (extWidth (jobExtent job) \<le> 65536 \<and> extHeight (jobExtent job) \<le> 65536
       \<and> extDepth (jobExtent job) \<le> 65536
     \<longrightarrow> (case task (store env h job queue) of
            None \<Rightarrow> returned (store env h job queue) \<noteq> None
          | Some t \<Rightarrow> returned (store env h job queue) = None
              \<and> dispatches (recorded t)
                  = [(extWidth (jobExtent job), extHeight (jobExtent job), extDepth (jobExtent job))]))
   \<and> (extWidth (jobExtent job) \<le> 65536 \<and> extHeight (jobExtent job) \<le> 65536
       \<and> extDepth (jobExtent job) \<le> 65536
       \<and> viewImageType (jobInput job) = viewImageType (jobOutput job)
       \<and> (\<exists>code. ipComputeShaderSpirv env (compShaderInfoOf job) = Inr code \<and> code \<noteq> [])
     \<longrightarrow> task (store env h job queue) \<noteq> None)"
proof -
  obtain h4 w ds pl md dl where s: "storeSetup env h job = (h4, w, ds, pl, md, dl)"
    by (metis prod_cases3)
  obtain h5 w5 r where p: "getOrCreateComputePipeline env h4 (compShaderInfoOf job) = (h5, w5, r)"
    by (metis prod_cases3)
  have ok: "\<exists>pipeline. r = Inr pipeline"
    if "ipComputeShaderSpirv env (compShaderInfoOf job) = Inr code" "code \<noteq> []" for code
    using getOrCreateComputePipeline_ok [OF that, of h4] storeSetup_frame(3) [OF s] p
    by (auto simp: compShaderInfoOf_def)
  show ?thesis
  proof (cases r)
    case (Inl e)
    then show ?thesis using s p ok by (auto simp add: store_def)
  next
    case (Inr pipeline)
    then show ?thesis using s p
      by (auto simp add: store_def specMaxComputeGroupCountX_def
        specMaxComputeGroupCountY_def specMaxComputeGroupCountZ_def not_less)
  qed
qed

theorem store_extent_bound_witness:
  "returned (store (env0 None) emptyStoreHandler jobTooWide 5) \<noteq> None
   \<and> task (store (env0 None) emptyStoreHandler jobTooWide 5) = None
   \<and> returned (store (env0 None) emptyStoreHandler job0 5) = None
   \<and> map_option (\<lambda>t. dispatches (recorded t)) (task (store (env0 None) emptyStoreHandler job0 5))
        = Some [(65536, 4, 1)]"
proof -
  have a: "extWidth (jobExtent jobTooWide) = 65537" "extWidth (jobExtent job0) = 65536"
    "extHeight (jobExtent job0) = 4" "extDepth (jobExtent job0) = 1"
    "viewImageType (jobInput job0) = viewImageType (jobOutput job0)"
    "ipComputeShaderSpirv (env0 None) (compShaderInfoOf job0) = Inr [119734787]"
    by (simp_all add: jobTooWide_def job0_def env0_def)
  show ?thesis
    using store_extent_bound [of jobTooWide "env0 None" emptyStoreHandler 5]
          store_extent_bound [of job0 "env0 None" emptyStoreHandler 5]
    by (auto simp: a split: option.splits)
qed

text \<open>
  C4, at \<open>store\<close>. When committing the bind-and-dispatch task fails, \<open>store\<close> gives the
  error to \<open>log.E\<close> and returns nil: the caller is not told.
\<close>

theorem store_commit_failure_returns_nil:
  "returned (store (env0 (Some (Err ''queue lost'' None))) emptyStoreHandler job0 5) = None
   \<and> logged (store (env0 (Some (Err ''queue lost'' None))) emptyStoreHandler job0 5)
       = [''[Committing scratch task for priming storage image: %v by imageStore, image view subresource: %v ] %v'']"
  by (simp add: store_eval)

section \<open>Properties of deferred cleanup\<close>

lemma runDeferred_append [simp]: "runDeferred (a @ b) = runDeferred a @ runDeferred b"
  by (simp add: runDeferred_def)

lemma runDeferred_Nil [simp]: "runDeferred [] = []"
  by (simp add: runDeferred_def)

lemma runDeferred_Cons [simp]: "runDeferred (t # ts) = ctDeferred t @ runDeferred ts"
  by (simp add: runDeferred_def)

text \<open>
  C9. For the by-rendering and the by-image-store primeable, two calls of free run the
  cleanup callbacks once: the first call leaves the callback list empty, so the callbacks
  that run after two calls are those that run after one, whatever the commits do; and when
  the first call's task commits, it is the last committed task, behind all work committed
  before, and after both calls every callback of the list runs exactly as often as the list
  holds it, on top of what was scheduled before.
\<close>

theorem free_twice_runs_callbacks_once:
  "prFreeCallbacks (snd (freeByRendering c1 sb pr)) = []
   \<and> runDeferred (fst (freeTwiceByRendering c1 c2 sb pr)) = runDeferred (fst (freeByRendering c1 sb pr))
   \<and> (c1 = None \<longrightarrow>
        fst (freeByRendering c1 sb pr)
          = sb @ [\<lparr>ctQueue = prQueue pr, ctDeferred = prFreeCallbacks pr\<rparr>]
        \<and> runDeferred (fst (freeTwiceByRendering c1 c2 sb pr))
          = runDeferred sb @ prFreeCallbacks pr)
   \<and> psFreeCallbacks (snd (freeByImageStore c1 sb' ps)) = []
   \<and> runDeferred (fst (freeTwiceByImageStore c1 c2 sb' ps)) = runDeferred (fst (freeByImageStore c1 sb' ps))
   \<and> (c1 = None \<longrightarrow>
        fst (freeByImageStore c1 sb' ps)
          = sb' @ [\<lparr>ctQueue = psQueue ps, ctDeferred = psFreeCallbacks ps\<rparr>]
        \<and> runDeferred (fst (freeTwiceByImageStore c1 c2 sb' ps))
          = runDeferred sb' @ psFreeCallbacks ps)"
  by (cases c1; cases c2)
     (simp_all add: freeTwiceByRendering_def freeTwiceByImageStore_def freeByRendering_def
        freeByImageStore_def deferUntilAllCommittedExecuted_def)

theorem free_twice_runs_callbacks_once_witness:
  "runDeferred (fst (freeTwiceByRendering None None
       [\<lparr>ctQueue = 5, ctDeferred = [''destroy render pass'']\<rparr>]
       \<lparr>prImg = 1, prStagingImages = [(1, [2])],
        prFreeCallbacks = [''free staging images''], prQueue = 5\<rparr>))
     = [''destroy render pass'', ''free staging images'']
   \<and> runDeferred (fst (freeTwiceByImageStore None None
       [\<lparr>ctQueue = 5, ctDeferred = [''destroy pool'']\<rparr>]
       \<lparr>psImg = 1, psQueue = 5, psStoreJobs = [],
        psFreeCallbacks = [''free staging images'', ''destroy view'']\<rparr>))
     = [''destroy pool'', ''free staging images'', ''destroy view'']"
  using free_twice_runs_callbacks_once
    [of None "[\<lparr>ctQueue = 5, ctDeferred = [''destroy render pass'']\<rparr>]"
        "\<lparr>prImg = 1, prStagingImages = [(1, [2])],
          prFreeCallbacks = [''free staging images''], prQueue = 5\<rparr>"
        None
        "[\<lparr>ctQueue = 5, ctDeferred = [''destroy pool'']\<rparr>]"
        "\<lparr>psImg = 1, psQueue = 5, psStoreJobs = [],
          psFreeCallbacks = [''free staging images'', ''destroy view'']\<rparr>"]
  by (simp add: freeTwiceByRendering_def freeTwiceByImageStore_def freeByRendering_def
        freeByImageStore_def deferUntilAllCommittedExecuted_def)

section \<open>Properties of the format normalizer\<close>

lemma formatComponent_Some:
  "formatComponent df c = Some i \<Longrightarrow> i < length df \<and> cChannel (df ! i) = c"
  by (induction df arbitrary: i) (auto split: if_splits)

lemma formatComponent_update:
  "j < length df \<Longrightarrow> cChannel d = cChannel (df ! j)
     \<Longrightarrow> formatComponent (df[j := d]) c = formatComponent df c"
proof (induction df arbitrary: j)
  case Nil
  then show ?case by simp
next
  case (Cons a df)
  then show ?case by (cases j) auto
qed

lemma unpackComponent_Inr:
  assumes "unpackComponent sc df = Inr (sc', df1)"
  shows "\<exists>j dc. formatComponent df (remapChannel (cChannel sc)) = Some j
           \<and> j < length df
           \<and> df1 = df[j := dc]
           \<and> cChannel dc = cChannel (df ! j)
           \<and> cDataType dc = Some (widened (cDataType sc))
           \<and> cSampling dc = Some Linear
           \<and> sc' = sc\<lparr>cChannel := remapChannel (cChannel sc), cSampling := Some Linear\<rparr>
           \<and> (GetInteger (cDataType sc) \<noteq> None \<or> GetFloat (cDataType sc) \<noteq> None)"
proof -
  obtain j where j: "formatComponent df (remapChannel (cChannel sc)) = Some j"
    using assms by (auto simp: unpackComponent_def remapChannel_def Let_def split: option.splits if_splits)
  have "j < length df" using formatComponent_Some [OF j] by simp
  moreover have "sc\<lparr>cChannel := remapChannel (cChannel sc)\<rparr>
      = (if cChannel sc = Channel_Depth \<or> cChannel sc = Channel_Stencil
                 then sc\<lparr>cChannel := Channel_Red\<rparr> else sc)"
    by (simp add: remapChannel_def)
  ultimately show ?thesis
    using assms j
    by (auto simp: unpackComponent_def remapChannel_def Let_def widened_def split: if_splits)
qed

lemma unpackComponent_frame:
  assumes "unpackComponent sc df = Inr (sc', df1)"
  shows "length df1 = length df" and "map cChannel df1 = map cChannel df"
    and "formatComponent df1 c = formatComponent df c"
    and "k < length df \<Longrightarrow> cChannel (df ! k) \<noteq> remapChannel (cChannel sc) \<Longrightarrow> df1 ! k = df ! k"
proof -
  obtain j dc where j: "formatComponent df (remapChannel (cChannel sc)) = Some j" "j < length df"
    and d: "df1 = df[j := dc]" and dc: "cChannel dc = cChannel (df ! j)"
    using unpackComponent_Inr [OF assms] by blast
  show "length df1 = length df" using d by simp
  show "map cChannel df1 = map cChannel df"
    using d dc j(2) by (simp add: map_update list_update_same_conv)
  show "formatComponent df1 c = formatComponent df c"
    using d dc j(2) by (simp add: formatComponent_update)
  show "df1 ! k = df ! k" if "k < length df" "cChannel (df ! k) \<noteq> remapChannel (cChannel sc)"
  proof -
    have "k \<noteq> j" using formatComponent_Some [OF j(1)] that by auto
    then show ?thesis using d by simp
  qed
qed

lemma unpackFormats_frame:
  "unpackFormats sf df = Inr (sf', df') \<Longrightarrow>
     length sf' = length sf \<and> length df' = length df
     \<and> (\<forall>c. formatComponent df' c = formatComponent df c)
     \<and> (\<forall>k < length df. cChannel (df ! k) \<notin> remapChannel ` cChannel ` set sf \<longrightarrow> df' ! k = df ! k)"
proof (induction sf arbitrary: df sf' df')
  case Nil
  then show ?case by simp
next
  case (Cons sc rest)
  from Cons.prems obtain sc' df1 sf1 where
    c: "unpackComponent sc df = Inr (sc', df1)" and
    r: "unpackFormats rest df1 = Inr (sf1, df')" and s: "sf' = sc' # sf1"
    by (auto split: sum.splits)
  note f = unpackComponent_frame [OF c]
  note ih = Cons.IH [OF r]
  have ch: "cChannel (df1 ! k) = cChannel (df ! k)" if "k < length df" for k
    using f(1,2) that by (metis nth_map)
  show ?case
    using ih f s ch by auto
qed

lemma unpackFormats_widens:
  assumes "unpackFormats sf df = Inr (sf', df')"
    and "distinct (map (\<lambda>sc. remapChannel (cChannel sc)) sf)"
    and "i < length sf"
  shows "\<exists>j. formatComponent df (remapChannel (cChannel (sf ! i))) = Some j
           \<and> j < length df'
           \<and> cChannel (df' ! j) = remapChannel (cChannel (sf ! i))
           \<and> cDataType (df' ! j) = Some (widened (cDataType (sf ! i)))
           \<and> cSampling (df' ! j) = Some Linear
           \<and> sf' ! i = (sf ! i)\<lparr>cChannel := remapChannel (cChannel (sf ! i)), cSampling := Some Linear\<rparr>
           \<and> (GetInteger (cDataType (sf ! i)) \<noteq> None \<or> GetFloat (cDataType (sf ! i)) \<noteq> None)"
  using assms
proof (induction sf arbitrary: df sf' df' i)
  case Nil
  then show ?case by simp
next
  case (Cons sc rest)
  from Cons.prems(1) obtain sc' df1 sf1 where
    c: "unpackComponent sc df = Inr (sc', df1)" and
    r: "unpackFormats rest df1 = Inr (sf1, df')" and s: "sf' = sc' # sf1"
    by (auto split: sum.splits)
  note f = unpackComponent_frame [OF c]
  note fr = unpackFormats_frame [OF r]
  show ?case
  proof (cases i)
    case 0
    obtain j dc where j: "formatComponent df (remapChannel (cChannel sc)) = Some j" "j < length df"
      and d: "df1 = df[j := dc]" and dc: "cChannel dc = cChannel (df ! j)"
        "cDataType dc = Some (widened (cDataType sc))" "cSampling dc = Some Linear"
      and sc': "sc' = sc\<lparr>cChannel := remapChannel (cChannel sc), cSampling := Some Linear\<rparr>"
      and k: "GetInteger (cDataType sc) \<noteq> None \<or> GetFloat (cDataType sc) \<noteq> None"
      using unpackComponent_Inr [OF c] by blast
    have cj: "cChannel (df ! j) = remapChannel (cChannel sc)"
      using formatComponent_Some [OF j(1)] by simp
    have "cChannel (df1 ! j) \<notin> remapChannel ` cChannel ` set rest"
      using Cons.prems(2) cj d dc j(2) by (auto simp: image_iff)
    then have "df' ! j = df1 ! j"
      using fr j(2) f(1) by simp
    then show ?thesis
      using 0 j d dc sc' k s cj fr f(1) by simp
  next
    case (Suc n)
    have "\<exists>j. formatComponent df1 (remapChannel (cChannel (rest ! n))) = Some j
           \<and> j < length df'
           \<and> cChannel (df' ! j) = remapChannel (cChannel (rest ! n))
           \<and> cDataType (df' ! j) = Some (widened (cDataType (rest ! n)))
           \<and> cSampling (df' ! j) = Some Linear
           \<and> sf1 ! n = (rest ! n)\<lparr>cChannel := remapChannel (cChannel (rest ! n)), cSampling := Some Linear\<rparr>
           \<and> (GetInteger (cDataType (rest ! n)) \<noteq> None \<or> GetFloat (cDataType (rest ! n)) \<noteq> None)"
      using Cons.IH [OF r, of n] Cons.prems(2,3) Suc by simp
    then show ?thesis
      using Suc s f(3) by simp
  qed
qed

lemma widened_cases:
  assumes "GetInteger d \<noteq> None \<or> GetFloat d \<noteq> None"
  shows "\<exists>dt. d = Some dt
           \<and> (case dtKind dt of
                 Integer n \<Rightarrow> widened d = (if dtSigned dt then S32 else U32)
               | Float e m \<Rightarrow> widened d = F32
               | _ \<Rightarrow> False)"
proof (cases d)
  case None
  then show ?thesis using assms by simp
next
  case (Some dt)
  then show ?thesis
    using assms by (cases "dtKind dt") (simp_all add: widened_def)
qed

text \<open>
  How \<open>unpackDataForPriming\<close> reaches \<open>unpackData\<close>: the colour aspect converts the image's
  own format to the colour staging format, the depth aspect the depth part of the format,
  and the stencil aspect the 8-bit stencil format, both to the depth/stencil staging format.
\<close>

lemma unpackDataForPriming_color:
  assumes "getImageFormatFromVulkanFormat fenv srcFmt = Inr sf"
    and "getImageFormatFromVulkanFormat fenv stagingColorImageBufferFormat = Inr df"
  shows "unpackDataForPriming fenv dat srcFmt VK_IMAGE_ASPECT_COLOR_BIT
           = (case unpackData (streamConvert fenv) dat sf df of
                Inl e \<Rightarrow> Inl e
              | Inr unpacked \<Rightarrow> Inr (unpacked, stagingColorImageBufferFormat))"
  using assms by (simp add: unpackDataForPriming_def)

lemma unpackDataForPriming_depth:
  assumes "getDepthImageFormatFromVulkanFormat fenv srcFmt = Inr sf"
    and "getImageFormatFromVulkanFormat fenv stagingDepthStencilImageBufferFormat = Inr df"
  shows "unpackDataForPriming fenv dat srcFmt VK_IMAGE_ASPECT_DEPTH_BIT
           = (case unpackData (streamConvert fenv) dat sf df of
                Inl e \<Rightarrow> Inl e
              | Inr unpacked \<Rightarrow> Inr (unpacked, stagingDepthStencilImageBufferFormat))"
  using assms
  by (simp add: unpackDataForPriming_def VK_IMAGE_ASPECT_DEPTH_BIT_def VK_IMAGE_ASPECT_COLOR_BIT_def)

lemma unpackDataForPriming_stencil:
  assumes "getImageFormatFromVulkanFormat fenv VK_FORMAT_S8_UINT = Inr sf"
    and "getImageFormatFromVulkanFormat fenv stagingDepthStencilImageBufferFormat = Inr df"
  shows "unpackDataForPriming fenv dat srcFmt VK_IMAGE_ASPECT_STENCIL_BIT
           = (case unpackData (streamConvert fenv) dat sf df of
                Inl e \<Rightarrow> Inl e
              | Inr unpacked \<Rightarrow> Inr (unpacked, stagingDepthStencilImageBufferFormat))"
  using assms
  by (simp add: unpackDataForPriming_def VK_IMAGE_ASPECT_DEPTH_BIT_def VK_IMAGE_ASPECT_COLOR_BIT_def
        VK_IMAGE_ASPECT_STENCIL_BIT_def)

text \<open>
  C5. Take an uncompressed source format that the normalizer accepts (its loop over the
  source components ends without an error) and whose channels stay distinct once depth and
  stencil are mapped to red. Then unpackData hands stream.Convert the rewritten formats, and
  for every source channel: the channel is the source's with depth and stencil moved to
  red; the source keeps its data type and is sampled linearly, so a normalized integer is
  read as the integer it stores; and the destination component of that channel is an
  unsigned 32-bit integer for an unsigned integer channel (normalized or not), a signed
  32-bit integer for a signed integer channel (normalized or not), and a 32-bit float for a
  floating-point channel. No other kind of channel is accepted.
\<close>

theorem unpackData_widens_channels:
  assumes "unpackFormats sf df = Inr (sf', df')"
    and "distinct (map (\<lambda>sc. remapChannel (cChannel sc)) sf)"
    and "i < length sf"
  shows "unpackData conv dat (Uncompressed sf) (Uncompressed df)
           = (case conv df' sf' dat of
                Inl e \<Rightarrow> Inl (Errf (Some e) ''[Converting data from %v to %v]'')
              | Inr converted \<Rightarrow> Inr converted)
         \<and> (\<exists>j dt. formatComponent df (remapChannel (cChannel (sf ! i))) = Some j
               \<and> j < length df' \<and> length df' = length df
               \<and> cChannel (df' ! j) = remapChannel (cChannel (sf ! i))
               \<and> cChannel (sf' ! i) = remapChannel (cChannel (sf ! i))
               \<and> cDataType (sf ! i) = Some dt \<and> cDataType (sf' ! i) = Some dt
               \<and> cSampling (sf' ! i) = Some Linear \<and> cSampling (df' ! j) = Some Linear
               \<and> (case dtKind dt of
                     Integer n \<Rightarrow> cDataType (df' ! j) = Some (if dtSigned dt then S32 else U32)
                   | Float e m \<Rightarrow> cDataType (df' ! j) = Some F32
                   | _ \<Rightarrow> False))"
proof -
  obtain j where j: "formatComponent df (remapChannel (cChannel (sf ! i))) = Some j"
      "j < length df'" "cChannel (df' ! j) = remapChannel (cChannel (sf ! i))"
      "cDataType (df' ! j) = Some (widened (cDataType (sf ! i)))"
      "cSampling (df' ! j) = Some Linear"
      "sf' ! i = (sf ! i)\<lparr>cChannel := remapChannel (cChannel (sf ! i)), cSampling := Some Linear\<rparr>"
      "GetInteger (cDataType (sf ! i)) \<noteq> None \<or> GetFloat (cDataType (sf ! i)) \<noteq> None"
    using unpackFormats_widens [OF assms] by blast
  obtain dt where dt: "cDataType (sf ! i) = Some dt"
      "case dtKind dt of
         Integer n \<Rightarrow> widened (cDataType (sf ! i)) = (if dtSigned dt then S32 else U32)
       | Float e m \<Rightarrow> widened (cDataType (sf ! i)) = F32
       | _ \<Rightarrow> False"
    using widened_cases [OF j(7)] by blast
  have conv: "unpackData conv dat (Uncompressed sf) (Uncompressed df)
           = (case conv df' sf' dat of
                Inl e \<Rightarrow> Inl (Errf (Some e) ''[Converting data from %v to %v]'')
              | Inr converted \<Rightarrow> Inr converted)"
    using assms(1) by (simp add: unpackData_def)
  have len: "length df' = length df"
    using unpackFormats_frame [OF assms(1)] by simp
  have kind: "case dtKind dt of
                Integer n \<Rightarrow> cDataType (df' ! j) = Some (if dtSigned dt then S32 else U32)
              | Float e m \<Rightarrow> cDataType (df' ! j) = Some F32
              | _ \<Rightarrow> False"
    using dt(2) j(4) by (cases "dtKind dt") simp_all
  show ?thesis
    using conv len kind dt(1) j(1,2,3,5,6) by auto
qed

theorem unpackData_widens_channels_witness:
  "(\<exists>sf' df'. unpackFormats fmtMixed fmtRGBA32uint = Inr (sf', df')
       \<and> map cDataType df' = [Some S32, Some F32, Some U32, Some U32]
       \<and> map cChannel sf' = [Channel_Red, Channel_Green])
   \<and> (\<exists>sf' df'. unpackFormats fmtDepthF32 fmtR32uint = Inr (sf', df')
       \<and> map cDataType df' = [Some F32]
       \<and> map cChannel sf' = [Channel_Red])
   \<and> (\<exists>sf' df'. unpackFormats fmtRGBA8unorm fmtRGBA32uint = Inr (sf', df')
       \<and> map cDataType df' = [Some U32, Some U32, Some U32, Some U32]
       \<and> map cSampling sf' = [Some Linear, Some Linear, Some Linear, Some Linear])"
proof -
  let ?c = "\<lambda>(df :: Component list) (sf :: Component list) (d :: 8 word list). (Inr d :: err + 8 word list)"
  obtain sf1 df1 where m: "unpackFormats fmtMixed fmtRGBA32uint = Inr (sf1, df1)"
    by (simp add: fmtMixed_def fmtRGBA32uint_def unpackComponent_def Let_def Linear_def
          normalizedSampling_def)
  obtain sf2 df2 where d: "unpackFormats fmtDepthF32 fmtR32uint = Inr (sf2, df2)"
    by (simp add: fmtDepthF32_def fmtR32uint_def unpackComponent_def Let_def F32_def)
  obtain sf3 df3 where r: "unpackFormats fmtRGBA8unorm fmtRGBA32uint = Inr (sf3, df3)"
    by (simp add: fmtRGBA8unorm_def fmtRGBA32uint_def unpackComponent_def Let_def)
  have dm: "distinct (map (\<lambda>sc. remapChannel (cChannel sc)) fmtMixed)"
    and dd: "distinct (map (\<lambda>sc. remapChannel (cChannel sc)) fmtDepthF32)"
    and dr: "distinct (map (\<lambda>sc. remapChannel (cChannel sc)) fmtRGBA8unorm)"
    by (simp_all add: fmtMixed_def fmtDepthF32_def fmtRGBA8unorm_def remapChannel_def)
  have lm: "0 < length fmtMixed" and ld: "0 < length fmtDepthF32" and lr: "0 < length fmtRGBA8unorm"
    by (simp_all add: fmtMixed_def fmtDepthF32_def fmtRGBA8unorm_def)
  note w1 = unpackData_widens_channels [OF m dm lm, of ?c "[]"]
  note w2 = unpackData_widens_channels [OF d dd ld, of ?c "[]"]
  note w3 = unpackData_widens_channels [OF r dr lr, of ?c "[]"]
  have e1: "unpackFormats fmtMixed fmtRGBA32uint = Inr (sf1, df1) \<Longrightarrow>
      map cDataType df1 = [Some S32, Some F32, Some U32, Some U32]
       \<and> map cChannel sf1 = [Channel_Red, Channel_Green]"
    by (auto simp: fmtMixed_def fmtRGBA32uint_def unpackComponent_def Let_def Linear_def
          normalizedSampling_def)
  have e2: "unpackFormats fmtDepthF32 fmtR32uint = Inr (sf2, df2) \<Longrightarrow>
      map cDataType df2 = [Some F32] \<and> map cChannel sf2 = [Channel_Red]"
    by (auto simp: fmtDepthF32_def fmtR32uint_def unpackComponent_def Let_def F32_def)
  have e3: "unpackFormats fmtRGBA8unorm fmtRGBA32uint = Inr (sf3, df3) \<Longrightarrow>
      map cDataType df3 = [Some U32, Some U32, Some U32, Some U32]
       \<and> map cSampling sf3 = [Some Linear, Some Linear, Some Linear, Some Linear]"
    by (auto simp: fmtRGBA8unorm_def fmtRGBA32uint_def unpackComponent_def Let_def)
  show ?thesis
    using w1 w2 w3 e1 [OF m] e2 [OF d] e3 [OF r] by (simp add: m d r)
qed

section \<open>Properties of the buffer-image copy session\<close>

lemma length_mustRead [simp]: "length (mustRead env sl) = unat (dsSize sl)"
  by (simp add: mustRead_def Let_def)

lemma getCopyAndData_size:
  assumes "getCopyAndData fenv env dstImg dstAsp sImg srcAspect layer level off ext = Inr (fill, cp)"
  shows "fiSize fill = alignedLevelSizeInBuf (sbLevelSize env ext (imgFmt dstImg) 0 dstAsp)"
proof -
  let ?sl = "sourceSlice env sImg srcAspect layer level off ext"
  obtain u where u: "unpackedDataFor fenv env dstImg sImg srcAspect ext ?sl = Inr u"
    using assms by (auto simp: getCopyAndData_def Let_def split: sum.splits)
  have nz: "extendToMultipleOf8 (mustRead env ?sl) \<noteq> []" if "dsSize ?sl mod 8 \<noteq> 0"
  proof
    assume "extendToMultipleOf8 (mustRead env ?sl) = []"
    then have "length (mustRead env ?sl) = 0"
      by (simp add: extendToMultipleOf8_def Let_def)
    then have "dsSize ?sl = 0"
      by (simp add: unat_eq_0)
    then show False using that by simp
  qed
  show ?thesis
    using assms u nz
    by (auto simp: getCopyAndData_def Let_def errorIfUnexpectedLength_def
          newBufferSubRangeFillInfoFromNewData_def newBufferSubRangeFillInfoFromSlice_def
        split: if_splits option.splits)
qed

lemma getCopyAndData_mismatch:
  assumes "unpackedDataFor fenv env dstImg sImg srcAspect ext
             (sourceSlice env sImg srcAspect layer level off ext) = Inr u"
    and "(if u \<noteq> [] then word_of_nat (length (extendToMultipleOf8 u))
          else if dsSize (sourceSlice env sImg srcAspect layer level off ext) mod 8 \<noteq> 0
          then word_of_nat (length (extendToMultipleOf8
                 (mustRead env (sourceSlice env sImg srcAspect layer level off ext))))
          else dsSize (sourceSlice env sImg srcAspect layer level off ext))
         \<noteq> alignedLevelSizeInBuf (sbLevelSize env ext (imgFmt dstImg) 0 dstAsp)"
  shows "getCopyAndData fenv env dstImg dstAsp sImg srcAspect layer level off ext
           = Inl (Errf None
               ''size of unpackedData data does not match expectation, actual: %v, expected: %v, srcFmt: %v, dstFmt: %v'')"
proof -
  let ?sl = "sourceSlice env sImg srcAspect layer level off ext"
  show ?thesis
  proof (cases "u = []")
    case False
    then show ?thesis
      using assms by (simp add: getCopyAndData_def Let_def errorIfUnexpectedLength_def)
  next
    case True
    show ?thesis
    proof (cases "dsSize ?sl mod 8 = 0")
      case True
      then show ?thesis
        using assms \<open>u = []\<close>
        by (simp add: getCopyAndData_def Let_def errorIfUnexpectedLength_def)
    next
      case False
      then show ?thesis
        using assms \<open>u = []\<close>
        by (simp add: getCopyAndData_def Let_def errorIfUnexpectedLength_def)
    qed
  qed
qed

lemma mapGet_update [simp]:
  "mapGet (AList.update k v m) k' = (if k' = k then v else mapGet m k')"
  by (simp add: mapGet_def update_conv')

lemma collectForDst_fold:
  "foldl (collectForDst fenv env rq a) (h, msgs) (enumerate n imgs) = (h', msgs') \<Longrightarrow>
     sessionJob h' = sessionJob h
     \<and> mapGet (copies h') d = mapGet (copies h) d @ map snd (gainedAt fenv env (sessionJob h) d rq a imgs)
     \<and> mapGet (content h') d = mapGet (content h) d @ map fst (gainedAt fenv env (sessionJob h) d rq a imgs)
     \<and> length msgs' = length msgs
         + length (filter (\<lambda>dstImg. isl (getCopyAndData fenv env dstImg a (srcImg (sessionJob h))
              (rqAspect rq) (rqLayer rq) (rqLevel rq) (rqOffset rq) (rqExtent rq))) imgs)"
proof (induction imgs arbitrary: h msgs n)
  case Nil
  then show ?case by (simp add: gainedAt_def)
next
  case (Cons i imgs)
  obtain h1 m1 where s: "collectForDst fenv env rq a (h, msgs) (n, i) = (h1, m1)"
    by (cases "collectForDst fenv env rq a (h, msgs) (n, i)")
  have r: "foldl (collectForDst fenv env rq a) (h1, m1) (enumerate (Suc n) imgs) = (h', msgs')"
    using Cons.prems s by simp
  note ih = Cons.IH [OF r]
  show ?case
  proof (cases "getCopyAndData fenv env i a (srcImg (sessionJob h)) (rqAspect rq)
                  (rqLayer rq) (rqLevel rq) (rqOffset rq) (rqExtent rq)")
    case (Inl e)
    then have "h1 = h" "m1 = msgs @ [''[Getting VkBufferImageCopy and raw data for priming data at image: %v, aspect: %v, layer: %v, level: %v] %v'']"
      using s by (simp_all add: collectForDst_def)
    then show ?thesis using ih Inl by (auto simp add: gainedAt_def)
  next
    case (Inr r)
    obtain fill cp where fc: "r = (fill, cp)" by (cases r)
    have j: "sessionJob h1 = sessionJob h" and m: "m1 = msgs"
      and c: "mapGet (copies h1) d = (if d = i then mapGet (copies h) i @ [cp] else mapGet (copies h) d)"
      and f: "mapGet (content h1) d = (if d = i then mapGet (content h) i @ [fill] else mapGet (content h) d)"
      using s Inr fc by (auto simp: collectForDst_def)
    show ?thesis
      using ih j m c f Inr fc by (auto simp: gainedAt_def)
  qed
qed

lemma collectRequests_gained:
  "collectRequests fenv env (h, msgs) rqs = Inr (h', msgs') \<Longrightarrow>
     sessionJob h' = sessionJob h
     \<and> mapGet (copies h') d = mapGet (copies h) d @ map snd (gainedFor fenv env (sessionJob h) d rqs)
     \<and> mapGet (content h') d = mapGet (content h) d @ map fst (gainedFor fenv env (sessionJob h) d rqs)
     \<and> length msgs' = length msgs + failedCount fenv env (sessionJob h) rqs"
proof (induction rqs arbitrary: h msgs)
  case Nil
  then show ?case by (simp add: gainedFor_def failedCount_def)
next
  case (Cons rq rqs)
  from Cons.prems obtain dst where
    dst: "map_of (srcAspectsToDsts (sessionJob h)) (rqAspect rq) = Some dst"
    by (auto simp: collectCallback_def split: option.splits)
  obtain h1 m1 where
    s: "foldl (collectForDst fenv env rq (dstAspect dst)) (h, msgs) (enumerate 0 (dstImgs dst)) = (h1, m1)"
    by (cases "foldl (collectForDst fenv env rq (dstAspect dst)) (h, msgs) (enumerate 0 (dstImgs dst))")
  have r: "collectRequests fenv env (h1, m1) rqs = Inr (h', msgs')"
    using Cons.prems dst s by (simp add: collectCallback_def)
  note ih = Cons.IH [OF r]
  note st = collectForDst_fold [OF s, of d]
  have g: "gainedFor fenv env (sessionJob h) d (rq # rqs)
             = gainedAt fenv env (sessionJob h) d rq (dstAspect dst) (dstImgs dst)
               @ gainedFor fenv env (sessionJob h) d rqs"
    using dst by (simp add: gainedFor_def gainedAt_def)
  have fcount: "failedCount fenv env (sessionJob h) (rq # rqs)
             = length (filter (\<lambda>dstImg. isl (getCopyAndData fenv env dstImg (dstAspect dst)
                  (srcImg (sessionJob h)) (rqAspect rq) (rqLayer rq) (rqLevel rq) (rqOffset rq)
                  (rqExtent rq))) (dstImgs dst))
               + failedCount fenv env (sessionJob h) rqs"
    using dst by (simp add: failedCount_def)
  show ?case
    using ih st g fcount by simp
qed

lemmas evalA = fenvA_def envA_def imgSrcA_def imgStagingA_def jobA_def rqA_def
  fmtRGB8unorm_def fmtRGBA32uint_def VK_FORMAT_R8G8B8_UNORM_def VK_FORMAT_R32G32B32A32_UINT_def
  VK_IMAGE_ASPECT_COLOR_BIT_def VK_IMAGE_ASPECT_DEPTH_BIT_def VK_IMAGE_ASPECT_STENCIL_BIT_def
  getCopyAndData_def unpackedDataFor_def sourceSlice_def mustRead_def Let_def
  unpackDataForPriming_def unpackData_def unpackComponent_def
  stagingColorImageBufferFormat_def VK_FORMAT_E5B9G9R9_UFLOAT_PACK32_def
  extendToMultipleOf8_def nextMultipleOf_def roundUp_def errorIfUnexpectedLength_def
  newBufferSubRangeFillInfoFromNewData_def newBufferSubRangeFillInfoFromSlice_def
  normalizedSampling_def

lemma replicate_4: "replicate 4 x = [x, x, x, x]"
  by (simp add: numeral_eq_Suc)

lemma g1: "isl (getCopyAndData fenvA envA imgStagingA VK_IMAGE_ASPECT_COLOR_BIT imgSrcA
                VK_IMAGE_ASPECT_COLOR_BIT 0 0 \<lparr>offX = 0, offY = 0, offZ = 0\<rparr>
                \<lparr>extWidth = 2, extHeight = 1, extDepth = 1\<rparr>)"
  by (simp add: evalA)

lemma g2: "getCopyAndData fenvA envA imgStagingA VK_IMAGE_ASPECT_COLOR_BIT imgSrcA
                VK_IMAGE_ASPECT_COLOR_BIT 0 1 \<lparr>offX = 0, offY = 0, offZ = 0\<rparr>
                \<lparr>extWidth = 1, extHeight = 1, extDepth = 1\<rparr>
           = Inr (\<lparr>fiOffsetInBuffer = 0, fiSize = 16,
                    fiSource = NewData [10, 0, 0, 0, 20, 0, 0, 0, 30, 0, 0, 0, 0, 0, 0, 0]\<rparr>,
                  \<lparr>bufferOffset = 0, bufferRowLength = 0, bufferImageHeight = 0,
                   imageSubresource = \<lparr>slAspectMask = 1, slMipLevel = 1, slBaseArrayLayer = 0,
                     slLayerCount = 1\<rparr>,
                   imageOffset = \<lparr>offX = 0, offY = 0, offZ = 0\<rparr>,
                   imageExtent = \<lparr>extWidth = 1, extHeight = 1, extDepth = 1\<rparr>\<rparr>)"
  by (simp add: evalA replicate_4)

lemma mapGet_new_session:
  "mapGet (foldl (\<lambda>m img. AList.update img [] m) m imgs) d
     = (if d \<in> set imgs then [] else mapGet m d)"
  by (induction imgs arbitrary: m) auto

lemma new_session_empty [simp]:
  "mapGet (copies (newImagePrimerBufferImageCopySession j)) d = []"
  "mapGet (content (newImagePrimerBufferImageCopySession j)) d = []"
  "totalSize (newImagePrimerBufferImageCopySession j) = 0"
  "sessionJob (newImagePrimerBufferImageCopySession j) = j"
  by (simp_all add: newImagePrimerBufferImageCopySession_def Let_def mapGet_new_session)
     (simp_all add: mapGet_def)

text \<open>
  C6. A region whose payload (the converted bytes padded to a multiple of 8, or the stored
  bytes where nothing is converted) has a length other than the aligned size the
  destination format expects for the region makes getCopyAndData return the size-mismatch
  error; what getCopyAndData returns without an error has exactly the expected size. The
  collecting walk, when it ends without a panic, has added to every destination image the
  results of the regions that succeeded, in order and with nothing lost, and has logged one
  message for each region that failed: a failure skips that region alone.
\<close>

theorem getCopyAndData_mismatch_skipped:
  "(\<forall>fill cp. getCopyAndData fenv env dstImg dstAsp sImg srcAspect layer level off ext = Inr (fill, cp)
       \<longrightarrow> fiSize fill = alignedLevelSizeInBuf (sbLevelSize env ext (imgFmt dstImg) 0 dstAsp))
   \<and> (\<forall>u. unpackedDataFor fenv env dstImg sImg srcAspect ext
             (sourceSlice env sImg srcAspect layer level off ext) = Inr u
         \<and> (if u \<noteq> [] then word_of_nat (length (extendToMultipleOf8 u))
             else if dsSize (sourceSlice env sImg srcAspect layer level off ext) mod 8 \<noteq> 0
             then word_of_nat (length (extendToMultipleOf8
                    (mustRead env (sourceSlice env sImg srcAspect layer level off ext))))
             else dsSize (sourceSlice env sImg srcAspect layer level off ext))
            \<noteq> alignedLevelSizeInBuf (sbLevelSize env ext (imgFmt dstImg) 0 dstAsp)
       \<longrightarrow> getCopyAndData fenv env dstImg dstAsp sImg srcAspect layer level off ext
             = Inl (Errf None
                 ''size of unpackedData data does not match expectation, actual: %v, expected: %v, srcFmt: %v, dstFmt: %v''))
   \<and> (\<forall>h' msgs'. collectRequests fenv env (h, msgs) rqs = Inr (h', msgs')
       \<longrightarrow> (\<forall>d. mapGet (copies h') d
                   = mapGet (copies h) d @ map snd (gainedFor fenv env (sessionJob h) d rqs)
                \<and> mapGet (content h') d
                   = mapGet (content h) d @ map fst (gainedFor fenv env (sessionJob h) d rqs))
           \<and> length msgs' = length msgs + failedCount fenv env (sessionJob h) rqs)"
  using getCopyAndData_size [of fenv env dstImg dstAsp sImg srcAspect layer level off ext]
        getCopyAndData_mismatch [of fenv env dstImg sImg srcAspect ext layer level off _ dstAsp]
        collectRequests_gained [of fenv env h msgs rqs]
  by blast

lemmas evalC = collectCallback_def collectForDst_def gainedFor_def failedCount_def mapGet_def

theorem getCopyAndData_mismatch_skipped_witness:
  "(\<exists>h' msgs'. collectRequests fenvA envA (newImagePrimerBufferImageCopySession jobA, [])
        [rqA 0 2, rqA 1 1] = Inr (h', msgs')
      \<and> length msgs' = 1
      \<and> map (\<lambda>c. slMipLevel (imageSubresource c)) (mapGet (copies h') imgStagingA) = [1]
      \<and> map fiSize (mapGet (content h') imgStagingA) = [16])"
proof -
  have j: "map_of (srcAspectsToDsts jobA) VK_IMAGE_ASPECT_COLOR_BIT
             = Some \<lparr>dstImgs = [imgStagingA], dstAspect = VK_IMAGE_ASPECT_COLOR_BIT\<rparr>"
       "srcImg jobA = imgSrcA"
    by (simp_all add: jobA_def)
  have r: "rqAspect (rqA l w) = VK_IMAGE_ASPECT_COLOR_BIT" "rqLayer (rqA l w) = 0"
       "rqLevel (rqA l w) = l" "rqOffset (rqA l w) = \<lparr>offX = 0, offY = 0, offZ = 0\<rparr>"
       "rqExtent (rqA l w) = \<lparr>extWidth = w, extHeight = 1, extDepth = 1\<rparr>" for l w
    by (simp_all add: rqA_def)
  obtain e where e: "getCopyAndData fenvA envA imgStagingA VK_IMAGE_ASPECT_COLOR_BIT imgSrcA
                VK_IMAGE_ASPECT_COLOR_BIT 0 0 \<lparr>offX = 0, offY = 0, offZ = 0\<rparr>
                \<lparr>extWidth = 2, extHeight = 1, extDepth = 1\<rparr> = Inl e"
    using g1 by (auto simp: isl_def)
  have s1: "collectForDst fenvA envA (rqA 0 2) VK_IMAGE_ASPECT_COLOR_BIT
              (newImagePrimerBufferImageCopySession jobA, []) (0, imgStagingA)
            = (newImagePrimerBufferImageCopySession jobA,
               [''[Getting VkBufferImageCopy and raw data for priming data at image: %v, aspect: %v, layer: %v, level: %v] %v''])"
    by (simp add: collectForDst_def j r e)
  obtain h' msgs' where s2: "collectForDst fenvA envA (rqA 1 1) VK_IMAGE_ASPECT_COLOR_BIT
              (newImagePrimerBufferImageCopySession jobA,
               [''[Getting VkBufferImageCopy and raw data for priming data at image: %v, aspect: %v, layer: %v, level: %v] %v''])
              (0, imgStagingA) = (h', msgs')"
    by (cases "collectForDst fenvA envA (rqA 1 1) VK_IMAGE_ASPECT_COLOR_BIT
              (newImagePrimerBufferImageCopySession jobA,
               [''[Getting VkBufferImageCopy and raw data for priming data at image: %v, aspect: %v, layer: %v, level: %v] %v''])
              (0, imgStagingA)")
  have c: "collectRequests fenvA envA (newImagePrimerBufferImageCopySession jobA, [])
        [rqA 0 2, rqA 1 1] = Inr (h', msgs')"
    by (simp add: collectCallback_def j r s1 s2)
  have gf: "gainedFor fenvA envA jobA imgStagingA [rqA 0 2, rqA 1 1]
     = [(\<lparr>fiOffsetInBuffer = 0, fiSize = 16,
                    fiSource = NewData [10, 0, 0, 0, 20, 0, 0, 0, 30, 0, 0, 0, 0, 0, 0, 0]\<rparr>,
                  \<lparr>bufferOffset = 0, bufferRowLength = 0, bufferImageHeight = 0,
                   imageSubresource = \<lparr>slAspectMask = 1, slMipLevel = 1, slBaseArrayLayer = 0,
                     slLayerCount = 1\<rparr>,
                   imageOffset = \<lparr>offX = 0, offY = 0, offZ = 0\<rparr>,
                   imageExtent = \<lparr>extWidth = 1, extHeight = 1, extDepth = 1\<rparr>\<rparr>)]"
    by (simp add: gainedFor_def j r e g2)
  have fc: "failedCount fenvA envA jobA [rqA 0 2, rqA 1 1] = 1"
    by (simp add: failedCount_def j r e g2)
  show ?thesis
    using getCopyAndData_mismatch_skipped
      [of fenvA envA imgStagingA VK_IMAGE_ASPECT_COLOR_BIT imgSrcA VK_IMAGE_ASPECT_COLOR_BIT 0 0
          "\<lparr>offX = 0, offY = 0, offZ = 0\<rparr>" "\<lparr>extWidth = 2, extHeight = 1, extDepth = 1\<rparr>"
          "newImagePrimerBufferImageCopySession jobA" "[]" "[rqA 0 2, rqA 1 1]"]
      c gf fc
    by simp
qed






text \<open>
  The bound of C3 as stated fails for a descriptor larger than the scratch buffer. The
  constant \<open>scratchBufferSize\<close> is declared in another file; the counterexample takes
  64 MiB for it, and the lemma before it shows the same for any value.
\<close>

lemma oversized_descriptor_batches_alone:
  assumes "S < nextMultipleOf (fiSize f) 256"
  shows "\<exists>b. copyBatches S [c] [f] = ([b], False) \<and> cbCopies b = [asCollectedCopy c]
           \<and> S < nextMultipleOf (cbBufOffset b) 256"
  using assms by (simp add: packBatch_def asCollectedCopy_def)



lemma collectForDst_total:
  "foldl (collectForDst fenv env rq a) (h, msgs) (enumerate n imgs) = (h', msgs') \<Longrightarrow>
     totalSize h' = totalSize h
        + sum_list (map (\<lambda>r. fiSize (fst r))
            (concat (map (\<lambda>dstImg.
              (case getCopyAndData fenv env dstImg a (srcImg (sessionJob h)) (rqAspect rq)
                      (rqLayer rq) (rqLevel rq) (rqOffset rq) (rqExtent rq) of
                 Inl e \<Rightarrow> []
               | Inr r \<Rightarrow> [r])) imgs)))"
proof (induction imgs arbitrary: h msgs n)
  case Nil
  then show ?case by simp
next
  case (Cons i imgs)
  obtain h1 m1 where s: "collectForDst fenv env rq a (h, msgs) (n, i) = (h1, m1)"
    by (cases "collectForDst fenv env rq a (h, msgs) (n, i)")
  have r: "foldl (collectForDst fenv env rq a) (h1, m1) (enumerate (Suc n) imgs) = (h', msgs')"
    using Cons.prems s by simp
  note ih = Cons.IH [OF r]
  show ?case
  proof (cases "getCopyAndData fenv env i a (srcImg (sessionJob h)) (rqAspect rq)
                  (rqLayer rq) (rqLevel rq) (rqOffset rq) (rqExtent rq)")
    case (Inl e)
    then have "h1 = h" using s by (simp add: collectForDst_def)
    then show ?thesis using ih Inl by simp
  next
    case (Inr r)
    obtain fill cp where fc: "r = (fill, cp)" by (cases r)
    have "sessionJob h1 = sessionJob h" "totalSize h1 = totalSize h + fiSize fill"
      using s Inr fc by (auto simp: collectForDst_def)
    then show ?thesis using ih Inr fc by (simp add: add.assoc)
  qed
qed

lemma collectRequests_total:
  "collectRequests fenv env (h, msgs) rqs = Inr (h', msgs') \<Longrightarrow>
     totalSize h' = totalSize h
        + sum_list (map (\<lambda>r. fiSize (fst r)) (gainedAll fenv env (sessionJob h) rqs))"
proof (induction rqs arbitrary: h msgs)
  case Nil
  then show ?case by (simp add: gainedAll_def)
next
  case (Cons rq rqs)
  from Cons.prems obtain dst where
    dst: "map_of (srcAspectsToDsts (sessionJob h)) (rqAspect rq) = Some dst"
    by (auto simp: collectCallback_def split: option.splits)
  obtain h1 m1 where
    s: "foldl (collectForDst fenv env rq (dstAspect dst)) (h, msgs) (enumerate 0 (dstImgs dst)) = (h1, m1)"
    by (cases "foldl (collectForDst fenv env rq (dstAspect dst)) (h, msgs) (enumerate 0 (dstImgs dst))")
  have r: "collectRequests fenv env (h1, m1) rqs = Inr (h', msgs')"
    using Cons.prems dst s by (simp add: collectCallback_def)
  have j: "sessionJob h1 = sessionJob h"
    using collectForDst_fold [OF s] by simp
  show ?case
    using Cons.IH [OF r] collectForDst_total [OF s] j dst
    by (simp add: gainedAll_def add.assoc)
qed

lemma gainedAll_empty:
  assumes "\<And>d. gainedFor fenv env j d rqs = []"
  shows "gainedAll fenv env j rqs = []"
proof -
  have "(case getCopyAndData fenv env dstImg (dstAspect dst) (srcImg j) (rqAspect rq)
                      (rqLayer rq) (rqLevel rq) (rqOffset rq) (rqExtent rq) of
                 Inl e \<Rightarrow> [] | Inr r \<Rightarrow> [r]) = []"
    if "rq \<in> set rqs" "map_of (srcAspectsToDsts j) (rqAspect rq) = Some dst"
       "dstImg \<in> set (dstImgs dst)" for rq dst dstImg
  proof -
    have "gainedFor fenv env j dstImg rqs = []" using assms by simp
    then show ?thesis
      using that unfolding gainedFor_def by (fastforce simp: concat_eq_Nil_conv)
  qed
  then show ?thesis
    unfolding gainedAll_def by (auto simp: concat_eq_Nil_conv split: option.splits)
qed

text \<open>
  C10. A session whose total size is zero, or which has no destination image, makes
  rolloutBufCopies return the error "no content for buf->img copy" and commit nothing. A
  session that collected no copy descriptor has total size zero, so it is such a session.
  prime of the by-copy primeable returns that error, wrapped.
\<close>

theorem rolloutBufCopies_no_content:
  "(totalSize h = 0 \<or> copies h = [] \<or> content h = []
      \<longrightarrow> rolloutBufCopies S oc h q il fl = ([], Some (Errf None ''no content for buf->img copy'')))
   \<and> (\<forall>h' msgs'. collectRequests fenv env (newImagePrimerBufferImageCopySession j, []) rqs = Inr (h', msgs')
          \<and> (\<forall>d. mapGet (copies h') d = [])
      \<longrightarrow> totalSize h' = 0
          \<and> rolloutBufCopies S oc h' q il fl = ([], Some (Errf None ''no content for buf->img copy'')))
   \<and> (rolloutBufCopies S oc h q il fl = ([], Some (Errf None ''no content for buf->img copy''))
      \<longrightarrow> primeByBufferCopy S oc \<lparr>pcImg = i, pcQueue = q, pcCopySession = h\<rparr> il fl
            = ([], Some (Errf (Some (Errf None ''no content for buf->img copy''))
                     ''[Rolling out the buf->img copy commands for image: %v]'')))"
proof -
  have a: "rolloutBufCopies S oc h q il fl = ([], Some (Errf None ''no content for buf->img copy''))"
    if "totalSize h = 0 \<or> copies h = [] \<or> content h = []" for h
    using that by (auto simp: rolloutBufCopies_def)
  have b: "totalSize h' = 0"
    if c: "collectRequests fenv env (newImagePrimerBufferImageCopySession j, []) rqs = Inr (h', msgs')"
      and e: "\<forall>d. mapGet (copies h') d = []" for h' msgs'
  proof -
    have "gainedFor fenv env j d rqs = []" for d
      using collectRequests_gained [OF c, of d] e by simp
    then have "gainedAll fenv env j rqs = []" by (rule gainedAll_empty)
    then show ?thesis using collectRequests_total [OF c] by simp
  qed
  have c: "primeByBufferCopy S oc \<lparr>pcImg = i, pcQueue = q, pcCopySession = h\<rparr> il fl
            = ([], Some (Errf (Some (Errf None ''no content for buf->img copy''))
                     ''[Rolling out the buf->img copy commands for image: %v]''))"
    if "rolloutBufCopies S oc h q il fl = ([], Some (Errf None ''no content for buf->img copy''))"
    using that by (simp add: primeByBufferCopy_def)
  show ?thesis using a b c by blast
qed

theorem rolloutBufCopies_no_content_witness:
  "snd (rolloutBufCopies 67108864 (\<lambda>n. None) (newImagePrimerBufferImageCopySession jobA) 5
          (useSpecifiedLayout VK_IMAGE_LAYOUT_UNDEFINED) (useSpecifiedLayout VK_IMAGE_LAYOUT_GENERAL))
     = Some (Errf None ''no content for buf->img copy'')
   \<and> snd (primeByBufferCopy 67108864 (\<lambda>n. None)
            \<lparr>pcImg = 2, pcQueue = 5, pcCopySession = newImagePrimerBufferImageCopySession jobA\<rparr>
            (useSpecifiedLayout VK_IMAGE_LAYOUT_UNDEFINED) (useSpecifiedLayout VK_IMAGE_LAYOUT_GENERAL))
     = Some (Errf (Some (Errf None ''no content for buf->img copy''))
               ''[Rolling out the buf->img copy commands for image: %v]'')"
proof -
  have t: "totalSize (newImagePrimerBufferImageCopySession jobA) = 0" by simp
  show ?thesis
    using rolloutBufCopies_no_content
      [of "newImagePrimerBufferImageCopySession jobA" 67108864 "\<lambda>n. None" 5
          "useSpecifiedLayout VK_IMAGE_LAYOUT_UNDEFINED" "useSpecifiedLayout VK_IMAGE_LAYOUT_GENERAL"
          fenvA envA jobA "[]" 2] t
    by simp
qed

text \<open>
  C4, at \<open>rolloutBufCopies\<close>: a nil result means that every commit succeeded, and an error
  that is not a panic wraps the error of the first failed commit in the purpose of its task.
\<close>

lemma commitAll_nil_all_committed:
  "commitAll oc n steps = (ts, None) \<Longrightarrow>
     Panic \<notin> set steps \<and> (\<forall>k < length steps. oc (n + k) = None) \<and> map Commit ts = steps"
proof (induction oc n steps arbitrary: ts rule: commitAll.induct)
  case (1 oc n)
  then show ?case by simp
next
  case (2 oc n steps)
  then show ?case by simp
next
  case (3 oc n t steps)
  from "3.prems" obtain ts' where o: "oc n = None" and r: "commitAll oc (Suc n) steps = (ts', None)"
    and t: "ts = t # ts'"
    by (auto split: option.splits prod.splits)
  note ih = "3.IH" [OF o r]
  have "oc (n + k) = None" if "k < length (Commit t # steps)" for k
    using that o ih by (cases k) auto
  then show ?case using ih t by auto
qed

lemma commitAll_error_names_task:
  "commitAll oc n steps = (ts, Some e) \<Longrightarrow>
     e = Err ''panic: index out of range'' None
     \<or> (\<exists>k t cause. k < length steps \<and> steps ! k = Commit t \<and> oc (n + k) = Some cause
           \<and> (\<forall>i < k. oc (n + i) = None)
           \<and> e = Errf (Some cause) (commitPurpose t) \<and> length ts = k)"
proof (induction oc n steps arbitrary: ts rule: commitAll.induct)
  case (1 oc n)
  then show ?case by simp
next
  case (2 oc n steps)
  then show ?case by simp
next
  case (3 oc n t steps)
  show ?case
  proof (cases "oc n")
    case (Some cause)
    then have "e = Errf (Some cause) (commitPurpose t)" "ts = []"
      using "3.prems" by simp_all
    then show ?thesis using Some by (intro disjI2 exI [of _ 0]) auto
  next
    case None
    then obtain ts' where r: "commitAll oc (Suc n) steps = (ts', Some e)" and t: "ts = t # ts'"
      using "3.prems" by (auto split: prod.splits)
    from "3.IH" [OF None r] show ?thesis
    proof
      assume "e = Err ''panic: index out of range'' None"
      then show ?thesis by simp
    next
      assume "\<exists>k t cause. k < length steps \<and> steps ! k = Commit t \<and> oc (Suc n + k) = Some cause
           \<and> (\<forall>i < k. oc (Suc n + i) = None)
           \<and> e = Errf (Some cause) (commitPurpose t) \<and> length ts' = k"
      then obtain k t' cause where k: "k < length steps" "steps ! k = Commit t'"
          "oc (Suc n + k) = Some cause" "\<forall>i < k. oc (Suc n + i) = None"
          "e = Errf (Some cause) (commitPurpose t')" "length ts' = k"
        by blast
      have "\<forall>i < Suc k. oc (n + i) = None"
      proof (intro allI impI)
        fix i assume "i < Suc k"
        then show "oc (n + i) = None" using None k(4) by (cases i) auto
      qed
      then show ?thesis
        using k t by (intro disjI2 exI [of _ "Suc k"] exI [of _ t'] exI [of _ cause]) auto
    qed
  qed
qed

section \<open>Properties of the strategy selector\<close>

lemma attBits_iff:
  "(u :: 32 word) AND (VK_IMAGE_USAGE_COLOR_ATTACHMENT_BIT OR VK_IMAGE_USAGE_DEPTH_STENCIL_ATTACHMENT_BIT) \<noteq> 0
     \<longleftrightarrow> u AND VK_IMAGE_USAGE_COLOR_ATTACHMENT_BIT \<noteq> 0
         \<or> u AND VK_IMAGE_USAGE_DEPTH_STENCIL_ATTACHMENT_BIT \<noteq> 0"
  by (simp add: bit.conj_disj_distrib or_eq_0_iff)

lemma newPrimeableImageData_strategy:
  assumes "newPrimeableImageData env img fromHostData = Inr (Primeable s q)"
  shows "selectedStrategy img = Some s \<and> strategyAcquired env fromHostData s q"
  using assms
  unfolding newPrimeableImageData_def selectedStrategy_def Let_def attBits_iff
  by (auto split: if_splits option.splits)

lemma newPrimeableImageData_none:
  assumes "selectedStrategy img = None"
  shows "newPrimeableImageData env img fromHostData
           = Inl (Errf None ''No way build primeable image data for image: %v'')"
  using assms
  unfolding newPrimeableImageData_def selectedStrategy_def Let_def attBits_iff
  by (auto split: if_splits)

lemma newPrimeableImageData_built:
  assumes "selectedStrategy img = Some s" and "strategyAcquired env fromHostData s q"
  shows "newPrimeableImageData env img fromHostData = Inr (Primeable s q)"
proof (cases s)
  case ByBufferCopy
  with assms show ?thesis
    unfolding newPrimeableImageData_def selectedStrategy_def Let_def attBits_iff
    by (auto split: if_splits)
next
  case ByRendering
  with assms show ?thesis
    unfolding newPrimeableImageData_def selectedStrategy_def Let_def attBits_iff
    by (auto split: if_splits)
next
  case ByImageStore
  with assms show ?thesis
    unfolding newPrimeableImageData_def selectedStrategy_def Let_def attBits_iff
    by (auto split: if_splits)
next
  case ByPreinitialization
  with assms show ?thesis
    unfolding newPrimeableImageData_def selectedStrategy_def Let_def attBits_iff
    by (auto split: if_splits)
qed

text \<open>
  C1. \<open>newPrimeableImageData\<close> selects the strategy by first match: by buffer copy when the
  usage includes transfer-destination and does not include depth/stencil-attachment,
  otherwise by rendering when the usage includes colour-attachment or
  depth/stencil-attachment, otherwise by image store when the usage includes storage,
  otherwise by preinitialization when the tiling is linear and the initial layout is
  preinitialized. It returns a primeable of strategy \<open>s\<close> on queue \<open>q\<close> exactly when \<open>s\<close> is
  the strategy selected and what building \<open>s\<close> needs is acquired with \<open>q\<close>; so it builds the
  selected strategy whenever that can be built, and never another one. When nothing matches,
  the call fails with "No way build primeable image data". An image whose usage includes
  transfer-destination and colour-attachment and not depth/stencil-attachment is selected
  for copy: it is primed by copy when host data and a queue are there, and never by
  rendering.
\<close>

theorem newPrimeableImageData_first_match:
  "(newPrimeableImageData env img fromHostData = Inr (Primeable s q)
      \<longleftrightarrow> selectedStrategy img = Some s \<and> strategyAcquired env fromHostData s q)
   \<and> (selectedStrategy img = None
       \<longrightarrow> newPrimeableImageData env img fromHostData
             = Inl (Errf None ''No way build primeable image data for image: %v''))
   \<and> (imgUsage img AND VK_IMAGE_USAGE_TRANSFER_DST_BIT \<noteq> 0
       \<and> imgUsage img AND VK_IMAGE_USAGE_COLOR_ATTACHMENT_BIT \<noteq> 0
       \<and> imgUsage img AND VK_IMAGE_USAGE_DEPTH_STENCIL_ATTACHMENT_BIT = 0
       \<longrightarrow> (newPrimeableImageData env img fromHostData = Inr (Primeable s q)
              \<longleftrightarrow> s = ByBufferCopy \<and> fromHostData
                  \<and> getQueueForPriming env
                        (VK_QUEUE_TRANSFER_BIT OR VK_QUEUE_GRAPHICS_BIT OR VK_QUEUE_COMPUTE_BIT)
                      = Some q))"
proof -
  have iff: "newPrimeableImageData env img fromHostData = Inr (Primeable s q)
      \<longleftrightarrow> selectedStrategy img = Some s \<and> strategyAcquired env fromHostData s q"
    using newPrimeableImageData_strategy [of env img fromHostData s q]
      newPrimeableImageData_built [of img s env fromHostData q]
    by blast
  have copy: "newPrimeableImageData env img fromHostData = Inr (Primeable s q)
              \<longleftrightarrow> s = ByBufferCopy \<and> fromHostData
                  \<and> getQueueForPriming env
                        (VK_QUEUE_TRANSFER_BIT OR VK_QUEUE_GRAPHICS_BIT OR VK_QUEUE_COMPUTE_BIT)
                      = Some q"
    if u: "imgUsage img AND VK_IMAGE_USAGE_TRANSFER_DST_BIT \<noteq> 0
       \<and> imgUsage img AND VK_IMAGE_USAGE_COLOR_ATTACHMENT_BIT \<noteq> 0
       \<and> imgUsage img AND VK_IMAGE_USAGE_DEPTH_STENCIL_ATTACHMENT_BIT = 0"
  proof -
    from u have "selectedStrategy img = Some ByBufferCopy"
      by (simp add: selectedStrategy_def)
    with iff show ?thesis
      by auto
  qed
  from iff copy newPrimeableImageData_none [of img env fromHostData] show ?thesis
    by blast
qed

lemma selected_examples:
  "selectedStrategy imgColorTarget = Some ByBufferCopy"
  "selectedStrategy imgRenderTarget = Some ByRendering"
  "selectedStrategy imgStorage = Some ByImageStore"
  "selectedStrategy imgPreinitialized = Some ByPreinitialization"
  by (simp_all add: selectedStrategy_def imgColorTarget_def imgRenderTarget_def imgStorage_def
      imgPreinitialized_def VK_IMAGE_USAGE_TRANSFER_DST_BIT_def VK_IMAGE_USAGE_SAMPLED_BIT_def
      VK_IMAGE_USAGE_STORAGE_BIT_def VK_IMAGE_USAGE_COLOR_ATTACHMENT_BIT_def
      VK_IMAGE_USAGE_DEPTH_STENCIL_ATTACHMENT_BIT_def)

lemma acquired_examples:
  "strategyAcquired selEnvOk True ByBufferCopy 5"
  "strategyAcquired selEnvOk True ByRendering 5"
  "strategyAcquired selEnvOk True ByImageStore 5"
  "strategyAcquired selEnvOk False ByImageStore 5"
  "strategyAcquired selEnvOk True ByPreinitialization 5"
  by (simp_all add: selEnvOk_def)

theorem newPrimeableImageData_first_match_witness:
  "newPrimeableImageData selEnvOk imgColorTarget True = Inr (Primeable ByBufferCopy 5)
   \<and> newPrimeableImageData selEnvOk imgRenderTarget True = Inr (Primeable ByRendering 5)
   \<and> newPrimeableImageData selEnvOk imgStorage True = Inr (Primeable ByImageStore 5)
   \<and> newPrimeableImageData selEnvOk imgStorage False = Inr (Primeable ByImageStore 5)
   \<and> newPrimeableImageData selEnvOk imgPreinitialized True
       = Inr (Primeable ByPreinitialization 5)
   \<and> newPrimeableImageData selEnvOk imgRenderTarget True \<noteq> Inr (Primeable ByBufferCopy 5)"
proof -
  note t = newPrimeableImageData_first_match [THEN conjunct1]
  have 1: "newPrimeableImageData selEnvOk imgColorTarget True = Inr (Primeable ByBufferCopy 5)"
    using t [of selEnvOk imgColorTarget True ByBufferCopy 5] selected_examples(1)
      acquired_examples(1) by blast
  have 2: "newPrimeableImageData selEnvOk imgRenderTarget True = Inr (Primeable ByRendering 5)"
    using t [of selEnvOk imgRenderTarget True ByRendering 5] selected_examples(2)
      acquired_examples(2) by blast
  have 3: "newPrimeableImageData selEnvOk imgStorage True = Inr (Primeable ByImageStore 5)"
    using t [of selEnvOk imgStorage True ByImageStore 5] selected_examples(3)
      acquired_examples(3) by blast
  have 4: "newPrimeableImageData selEnvOk imgStorage False = Inr (Primeable ByImageStore 5)"
    using t [of selEnvOk imgStorage False ByImageStore 5] selected_examples(3)
      acquired_examples(4) by blast
  have 5: "newPrimeableImageData selEnvOk imgPreinitialized True
             = Inr (Primeable ByPreinitialization 5)"
    using t [of selEnvOk imgPreinitialized True ByPreinitialization 5] selected_examples(4)
      acquired_examples(5) by blast
  have 6: "newPrimeableImageData selEnvOk imgRenderTarget True \<noteq> Inr (Primeable ByBufferCopy 5)"
    using t [of selEnvOk imgRenderTarget True ByBufferCopy 5] selected_examples(2)
    by simp
  from 1 2 3 4 5 6 show ?thesis
    by blast
qed

text \<open>
  A depth image whose usage is transfer-destination and sampled: its aspect is depth, so the
  precedence worded with the aspect gives it no strategy, and the code primes it by copy.
\<close>

theorem newPrimeableImageData_depth_aspect_counterexample:
  "newPrimeableImageData selEnvOk imgDepthSampled True = Inr (Primeable ByBufferCopy 5)
   \<and> specifiedStrategy imgDepthSampled = None"
  by (simp add: newPrimeableImageData_def specifiedStrategy_def selEnvOk_def imgDepthSampled_def
      VK_IMAGE_USAGE_TRANSFER_DST_BIT_def VK_IMAGE_USAGE_SAMPLED_BIT_def
      VK_IMAGE_USAGE_STORAGE_BIT_def VK_IMAGE_USAGE_COLOR_ATTACHMENT_BIT_def
      VK_IMAGE_USAGE_DEPTH_STENCIL_ATTACHMENT_BIT_def VK_IMAGE_ASPECT_DEPTH_BIT_def
      VK_IMAGE_ASPECT_STENCIL_BIT_def
      VK_IMAGE_LAYOUT_UNDEFINED_def VK_IMAGE_LAYOUT_PREINITIALIZED_def)

section \<open>Properties of the render handler\<close>

lemma of_nat_lt_8: "n < 8 \<Longrightarrow> (of_nat n :: 32 word) < 8"
  by (simp add: word_less_nat_alt unsigned_of_nat take_bit_nat_eq_self)

lemma unat_of_nat_lt_8: "n < 8 \<Longrightarrow> unat (of_nat n :: 32 word) = n"
  by (simp add: unsigned_of_nat take_bit_nat_eq_self)

lemma of_nat_eq_0_lt_8: "n < 8 \<Longrightarrow> ((of_nat n :: 32 word) = 0) = (n = 0)"
  using unat_of_nat_lt_8 [of n] by (auto simp del: of_nat_eq_0_iff)

lemma stencilLoop_done: "stencilLoop ro 8 closures = (8, closures)"
  by (subst stencilLoop.simps) simp

lemma stencilLoop_step:
  "n < 8 \<Longrightarrow> stencilLoop ro (of_nat n) closures
     = stencilLoop ro (of_nat (Suc n)) (stencilIteration ro (of_nat n) closures)"
  by (subst stencilLoop.simps) (simp add: of_nat_lt_8 add.commute)

lemma stencilLoop_from:
  "n \<le> 8 \<Longrightarrow> stencilLoop ro (of_nat n) closures
     = (8, foldl (\<lambda>c i. stencilIteration ro (of_nat i) c) closures [n..<8])"
proof (induction "8 - n" arbitrary: n closures)
  case 0
  then have "n = 8" by simp
  then show ?case using stencilLoop_done [of ro closures] by simp
next
  case (Suc d)
  then have n: "n < 8" by simp
  from Suc have "d = 8 - Suc n" by simp
  from Suc.hyps(1) [OF this] n
  have "stencilLoop ro (of_nat (Suc n)) (stencilIteration ro (of_nat n) closures)
          = (8, foldl (\<lambda>c i. stencilIteration ro (of_nat i) c)
                  (stencilIteration ro (of_nat n) closures) [Suc n..<8])"
    by simp
  with n show ?case
    by (subst stencilLoop_step) (simp_all add: upt_conv_Cons)
qed

lemma runClosures_stencilIteration:
  "i < 8 \<Longrightarrow> runClosures k (stencilIteration ro (of_nat i) closures)
     = runClosures k closures @ bitPlanePass ro k i"
  by (simp add: stencilIteration_def beginRenderPassAndDraw_def recordCmdBufCommand_def
      runClosures_def bitPlanePass_def unat_of_nat_lt_8 of_nat_eq_0_lt_8)

lemma runClosures_iterations:
  "\<forall>i \<in> set js. i < 8 \<Longrightarrow>
   runClosures k (foldl (\<lambda>c i. stencilIteration ro (of_nat i) c) closures js)
     = runClosures k closures @ concat (map (\<lambda>i. bitPlanePass ro k i) js)"
proof (induction js arbitrary: closures)
  case Nil
  show ?case by simp
next
  case (Cons j js)
  then show ?case
    by (simp add: runClosures_stencilIteration)
qed

lemma runClosures_simps:
  "runClosures k [] = []"
  "runClosures k (f # closures) = f k @ runClosures k closures"
  "runClosures k (closures @ others) = runClosures k closures @ runClosures k others"
  by (simp_all add: runClosures_def)

lemma stencilLoop_closures:
  "fst (stencilLoop ro 0 closures) = 8"
  "runClosures k (snd (stencilLoop ro 0 closures))
     = runClosures k closures @ concat (map (\<lambda>i. bitPlanePass ro k i) [0..<8])"
  using stencilLoop_from [of 0 ro closures] runClosures_iterations [of "[0..<8]" k ro closures]
  by simp_all

lemma getOrCreateShaderModule_render_pipelines:
  "getOrCreateShaderModule_render env h info = (h', r) \<Longrightarrow> rhPipelines h' = rhPipelines h"
  by (auto simp add: getOrCreateShaderModule_render_def split: option.splits sum.splits if_splits)

lemma getOrCreateDescriptorSetLayout_pipelines:
  "getOrCreateDescriptorSetLayout env h info = (h', r) \<Longrightarrow> rhPipelines h' = rhPipelines h"
  by (auto simp add: getOrCreateDescriptorSetLayout_def split: option.splits)

lemma getOrCreatePipelineLayout_pipelines:
  "getOrCreatePipelineLayout env h info = (h', r) \<Longrightarrow> rhPipelines h' = rhPipelines h"
  by (auto simp add: getOrCreatePipelineLayout_def
      split: option.splits prod.splits dest: getOrCreateDescriptorSetLayout_pipelines)

lemma pipelinesBuiltByHandler_cong:
  "rhPipelines h' = rhPipelines h \<Longrightarrow> pipelinesBuiltByHandler h' = pipelinesBuiltByHandler h"
  by (simp add: pipelinesBuiltByHandler_def)

lemma getOrCreateGraphicsPipeline_built:
  assumes "pipelinesBuiltByHandler h"
    and "getOrCreateGraphicsPipeline env h info renderPass = (h', r)"
  shows "pipelinesBuiltByHandler h'
     \<and> (\<forall>p. r = Inr p \<longrightarrow> rhPipelines h' info = Some p
            \<and> (\<exists>rp vertShader fragShader pipelineHandle.
                  p = graphicsPipelineFor info rp vertShader fragShader pipelineHandle))"
proof (cases "rhPipelines h info")
  case (Some p)
  with assms show ?thesis
    by (auto simp add: getOrCreateGraphicsPipeline_def pipelinesBuiltByHandler_def)
next
  case None
  obtain h1 r1 where s1: "getOrCreateShaderModule_render env h
      \<lparr>rsDev = rpDev (renderPassInfo info), isVertex = True, rsFormat = 0, rsAspect = 0\<rparr> = (h1, r1)"
    by (cases "getOrCreateShaderModule_render env h
      \<lparr>rsDev = rpDev (renderPassInfo info), isVertex = True, rsFormat = 0, rsAspect = 0\<rparr>")
  obtain h2 r2 where s2: "getOrCreateShaderModule_render env h1 (fragShaderInfo info) = (h2, r2)"
    by (cases "getOrCreateShaderModule_render env h1 (fragShaderInfo info)")
  have p1: "rhPipelines h1 = rhPipelines h"
    using s1 by (rule getOrCreateShaderModule_render_pipelines)
  have p2: "rhPipelines h2 = rhPipelines h"
    using getOrCreateShaderModule_render_pipelines [OF s2] p1 by simp
  have b1: "pipelinesBuiltByHandler h1"
    using assms(1) p1 by (simp add: pipelinesBuiltByHandler_def)
  have b2: "pipelinesBuiltByHandler h2"
    using assms(1) p2 by (simp add: pipelinesBuiltByHandler_def)
  show ?thesis
  proof (cases r1)
    case (Inl e)
    with assms(2) None s1 b1 show ?thesis
      by (auto simp add: getOrCreateGraphicsPipeline_def)
  next
    case v: (Inr vertShader)
    show ?thesis
    proof (cases r2)
      case (Inl e)
      with assms(2) None s1 s2 v b2 show ?thesis
        by (auto simp add: getOrCreateGraphicsPipeline_def)
    next
      case f: (Inr fragShader)
      from assms(2) None s1 s2 v f
      have h': "h' = h2\<lparr>rhPipelines := (rhPipelines h2)(info \<mapsto>
                   graphicsPipelineFor info renderPass vertShader fragShader (newPipeline env info))\<rparr>"
        and r: "r = Inr (graphicsPipelineFor info renderPass vertShader fragShader (newPipeline env info))"
        by (auto simp add: getOrCreateGraphicsPipeline_def Let_def)
      from b2 have "pipelinesBuiltByHandler h'"
        unfolding h' pipelinesBuiltByHandler_def by auto
      with h' r show ?thesis
        by auto
    qed
  qed
qed

lemma graphicsPipelineFor_stencil:
  "targetAspect (renderPassInfo info) = VK_IMAGE_ASPECT_STENCIL_BIT \<Longrightarrow>
   gpStencilTestEnable (graphicsPipelineFor info rp v f ph)
   \<and> gpFront (graphicsPipelineFor info rp v f ph) = frontStencilOpState"
  by (simp add: graphicsPipelineFor_def Let_def)


lemma renderSetup_objects:
  assumes b: "pipelinesBuiltByHandler h"
    and r: "renderSetup env h job tsk = (h3, tsk1, res)"
  shows "pipelinesBuiltByHandler h3 \<and> recorded tsk1 = recorded tsk
     \<and> (\<forall>ro. res = Inr ro \<longrightarrow>
            roPipeline ro \<in> ran (rhPipelines h3)
            \<and> (riAspect (renderTarget job) = VK_IMAGE_ASPECT_STENCIL_BIT
                 \<longrightarrow> gpStencilTestEnable (roPipeline ro)
                     \<and> gpFront (roPipeline ro) = frontStencilOpState))"
proof -
  let ?dsi = "\<lparr>dsDev = riDevice (renderTarget job),
               numInputAttachments = length (inputAttachmentImages job),
               pushConstant = (riAspect (renderTarget job) = VK_IMAGE_ASPECT_STENCIL_BIT)\<rparr>"
  obtain h1 dsl where l1: "getOrCreateDescriptorSetLayout env h ?dsi = (h1, dsl)"
    by (cases "getOrCreateDescriptorSetLayout env h ?dsi")
  obtain h2 pl where l2: "getOrCreatePipelineLayout env h1 ?dsi = (h2, pl)"
    by (cases "getOrCreatePipelineLayout env h1 ?dsi")
  have b1: "pipelinesBuiltByHandler h1"
    using b getOrCreateDescriptorSetLayout_pipelines [OF l1]
    by (simp add: pipelinesBuiltByHandler_def)
  have b2: "pipelinesBuiltByHandler h2"
    using b1 getOrCreatePipelineLayout_pipelines [OF l2]
    by (simp add: pipelinesBuiltByHandler_def)
  note gp = getOrCreateGraphicsPipeline_built [OF b2]
  from r l1 l2 b b1 b2 show ?thesis
    unfolding renderSetup_def Let_def
    by (auto split: option.splits sum.splits list.splits if_splits prod.splits
        dest!: gp simp add: graphicsPipelineFor_stencil ranI)
qed


lemma ucast_bit_mask: "(ucast (push_bit i (1 :: 32 word)) :: 8 word) = push_bit i 1"
  by (rule bit_eqI) (auto simp add: bit_simps)

lemma replace_sets_bit:
  "(v :: 8 word) AND NOT (ucast (2 ^ i :: 32 word)) OR ucast (2 ^ i :: 32 word) = v OR 2 ^ i"
  by (rule bit_eqI) (auto simp add: bit_simps)

lemma take_bit_Suc_bit:
  "take_bit (Suc i) (V :: 8 word) = take_bit i V OR (if bit V i then push_bit i 1 else 0)"
  by (rule bit_eqI) (auto simp add: bit_simps less_Suc_eq)

lemma bit_ucast_texel: "i < 8 \<Longrightarrow> bit (ucast (V :: 8 word) :: 32 word) i = bit V i"
  by (simp add: bit_simps)

lemma bit_ucast_texel_8: "\<not> bit (ucast (V :: 8 word) :: 32 word) 8"
  by (auto simp add: bit_simps dest: bit_imp_le_length)

lemma take_bit_8: "take_bit 8 (V :: 8 word) = V"
  by (rule bit_eqI) (auto simp add: bit_simps dest: bit_imp_le_length)

lemma mask_Suc_or: "(mask (Suc n) :: 8 word) = mask n OR 2 ^ n"
  by (rule bit_eqI) (auto simp add: bit_simps less_Suc_eq)

lemma mask_8: "(mask (Suc 7) :: 8 word) = 255"
  by (simp add: mask_eq_exp_minus_1)

lemma execute_append:
  "execute shader p texel s (xs @ ys) = execute shader p texel (execute shader p texel s xs) ys"
  by (simp add: execute_def)

lemma execute_bitPlanePass:
  assumes "gpStencilTestEnable (roPipeline ro)"
    and "gpFront (roPipeline ro) = frontStencilOpState"
  shows "stencilValue (execute shader (roPipeline ro) texel s (bitPlanePass ro k i))
           = (let v = (if i = 0 then 0 else stencilValue s)
              in if shader k texel then v OR push_bit i 1 else v)"
  using assms
  by (simp add: execute_def bitPlanePass_def drawStencil_def
      frontStencilOpState_def VK_IMAGE_ASPECT_STENCIL_BIT_def Let_def ucast_bit_mask
      replace_sets_bit)

text \<open>
  The bit planes as they are meant: if pass \<open>i\<close> pushes the index \<open>i\<close>, the bit-plane
  shader makes the passes store the bits of the target value one after the other, and the
  8 passes store the value.
\<close>

lemma execute_passes:
  assumes "gpStencilTestEnable (roPipeline ro)"
    and "gpFront (roPipeline ro) = frontStencilOpState"
  shows "n < 8 \<Longrightarrow>
    stencilValue (execute stencilFragmentKept (roPipeline ro) (ucast V) s
       (concat (map (\<lambda>i. bitPlanePass ro (of_nat i) i) [0..<Suc n])))
      = take_bit (Suc n) (V :: 8 word)"
proof (induction n)
  case 0
  have "take_bit (Suc 0) V = (if bit V 0 then 1 else 0)"
    using take_bit_Suc_bit [of 0 V] by simp
  moreover have "stencilFragmentKept 0 (ucast V) = bit V 0"
    using bit_ucast_texel [of 0 V] by (simp add: stencilFragmentKept_def)
  ultimately show ?case
    using execute_bitPlanePass [OF assms, of stencilFragmentKept "ucast V" s 0 0]
    by (simp add: Let_def)
next
  case (Suc n)
  then have n: "n < 8" and sn: "Suc n < 8" by simp_all
  let ?f = "\<lambda>i. bitPlanePass ro (of_nat i) i"
  let ?s = "execute stencilFragmentKept (roPipeline ro) (ucast V) s (concat (map ?f [0..<Suc n]))"
  have v: "stencilValue ?s = take_bit (Suc n) V"
    using Suc.IH [OF n] .
  have split: "concat (map ?f [0..<Suc (Suc n)]) = concat (map ?f [0..<Suc n]) @ ?f (Suc n)"
    by (simp only: upt_Suc_append [OF le0] map_append concat_append list.map concat.simps
        append_Nil2)
  have k: "stencilFragmentKept (of_nat (Suc n)) (ucast V) = bit V (Suc n)"
    using unat_of_nat_lt_8 [OF sn] bit_ucast_texel [OF sn, of V]
    by (simp add: stencilFragmentKept_def)
  have "stencilValue (execute stencilFragmentKept (roPipeline ro) (ucast V) ?s (?f (Suc n)))
          = (if bit V (Suc n) then take_bit (Suc n) V OR push_bit (Suc n) 1 else take_bit (Suc n) V)"
    using execute_bitPlanePass [OF assms, of stencilFragmentKept "ucast V" ?s "of_nat (Suc n)" "Suc n"]
      k v
    by (simp add: Let_def)
  also have "\<dots> = take_bit (Suc (Suc n)) V"
    using take_bit_Suc_bit [of "Suc n" V] by simp
  finally show ?case
    unfolding split execute_append .
qed

lemma bit_plane_passes_store_value:
  assumes "gpStencilTestEnable (roPipeline ro)"
    and "gpFront (roPipeline ro) = frontStencilOpState"
  shows "stencilValue (execute stencilFragmentKept (roPipeline ro) (ucast V) s
       (concat (map (\<lambda>i. bitPlanePass ro (of_nat i) i) [0..<Suc 7]))) = V"
  using execute_passes [OF assms, of 7 V s] take_bit_8 [of V]
  by simp

text \<open>
  The passes with one and the same pushed index \<open>k\<close>: every pass keeps the fragment or
  every pass discards it, so the bits are set all together or not at all.
\<close>

lemma execute_passes_same_index:
  assumes "gpStencilTestEnable (roPipeline ro)"
    and "gpFront (roPipeline ro) = frontStencilOpState"
  shows "stencilValue (execute shader (roPipeline ro) texel s
       (concat (map (\<lambda>i. bitPlanePass ro k i) [0..<Suc n])))
      = (if shader k texel then mask (Suc n) else 0)"
proof (induction n)
  case 0
  show ?case
    using execute_bitPlanePass [OF assms, of shader texel s k 0]
    by (simp add: Let_def)
next
  case (Suc n)
  let ?f = "\<lambda>i. bitPlanePass ro k i"
  let ?s = "execute shader (roPipeline ro) texel s (concat (map ?f [0..<Suc n]))"
  have split: "concat (map ?f [0..<Suc (Suc n)]) = concat (map ?f [0..<Suc n]) @ ?f (Suc n)"
    by (simp only: upt_Suc_append [OF le0] map_append concat_append list.map concat.simps
        append_Nil2)
  have "stencilValue (execute shader (roPipeline ro) texel ?s (?f (Suc n)))
          = (if shader k texel then mask (Suc (Suc n)) else 0)"
    using execute_bitPlanePass [OF assms, of shader texel ?s k "Suc n"] Suc.IH
      mask_Suc_or [of "Suc n"]
    by (simp add: Let_def)
  then show ?case
    unfolding split execute_append .
qed

lemma draws_append: "draws (xs @ ys) = draws xs @ draws ys"
  by (induction xs rule: draws.induct) simp_all

lemma draws_bitPlanePass: "draws (bitPlanePass ro k i) = [VkCmdDraw 6 1 0 0]"
  by (simp add: bitPlanePass_def)

lemma draws_passes:
  "draws (concat (map (\<lambda>i. bitPlanePass ro (f i) i) js)) = replicate (length js) (VkCmdDraw 6 1 0 0)"
  by (induction js) (simp_all add: draws_append draws_bitPlanePass)


lemma renderSetup_no_nil:
  "renderSetup env h job tsk = (h3, tsk1, Inl outcome) \<Longrightarrow> outcome \<noteq> RenderReturned None"
  unfolding renderSetup_def Let_def
  by (auto split: option.splits sum.splits list.splits if_splits prod.splits)

lemma aspect_bits_distinct:
  "VK_IMAGE_ASPECT_STENCIL_BIT \<noteq> VK_IMAGE_ASPECT_COLOR_BIT"
  "VK_IMAGE_ASPECT_STENCIL_BIT \<noteq> VK_IMAGE_ASPECT_DEPTH_BIT"
  by (simp_all add: VK_IMAGE_ASPECT_STENCIL_BIT_def VK_IMAGE_ASPECT_COLOR_BIT_def
      VK_IMAGE_ASPECT_DEPTH_BIT_def)

lemma render_stencil_recorded:
  assumes a: "riAspect (renderTarget job) = VK_IMAGE_ASPECT_STENCIL_BIT"
    and r: "render env h job tsk = (RenderReturned None, h', tsk')"
  shows "\<exists>ro tsk1. renderSetup env h job tsk = (h', tsk1, Inr ro)
     \<and> recorded tsk' = recorded tsk1
          @ [VkCmdPipelineBarrier (Suc (length (inputAttachmentImages job)))]
          @ concat (map (\<lambda>i. bitPlanePass ro 8 i) [0..<8])
          @ [VkCmdPipelineBarrier
               (Suc (length (filter (\<lambda>input. riFinalLayout input
                                         \<noteq> VK_IMAGE_LAYOUT_SHADER_READ_ONLY_OPTIMAL)
                       (inputAttachmentImages job))))]"
proof -
  obtain h3 tsk1 res where rs: "renderSetup env h job tsk = (h3, tsk1, res)"
    by (metis prod_cases3)
  show ?thesis
  proof (cases res)
    case (Inl outcome)
    with rs r a renderSetup_no_nil [of env h job tsk h3 tsk1 outcome] show ?thesis
      by (simp add: render_def Let_def aspect_bits_distinct)
  next
    case (Inr ro)
    with rs r a have "h' = h3"
      and "recorded tsk' = recorded tsk1
          @ [VkCmdPipelineBarrier (Suc (length (inputAttachmentImages job)))]
          @ concat (map (\<lambda>i. bitPlanePass ro 8 i) [0..<8])
          @ [VkCmdPipelineBarrier
               (Suc (length (filter (\<lambda>input. riFinalLayout input
                                         \<noteq> VK_IMAGE_LAYOUT_SHADER_READ_ONLY_OPTIMAL)
                       (inputAttachmentImages job))))]"
      by (auto simp add: render_def Let_def aspect_bits_distinct recordCmdBufCommand_def
          stencilLoop_closures runClosures_simps simp del: upt_Suc)
    with rs Inr show ?thesis
      by simp
  qed
qed

text \<open>
  C2. On a handler whose cached pipelines it built itself, when \<open>render\<close> returns without
  error for a job whose target aspect is stencil, the commands of its task are the barrier
  before the draws, 8 draw passes for i = 0..7 in order, and the trailing barrier. Pass i
  sets the dynamic stencil write mask and the stencil reference both to \<open>1 << i\<close>, the
  stencil attachment is cleared in pass 0 only, and the pipeline bound has the stencil test
  enabled, compares with \<open>ALWAYS\<close> and replaces on pass. But the stencil bit index that a
  pass pushes to the fragment shader is read from the loop variable when the task is
  committed, after the loop: every pass pushes 8. So the 8 passes keep the fragment of a
  pixel all together or not at all, and whatever the shader, the value stored is 0 or 255;
  with the shader that renders bit planes it is 0, for every target stencil value V and every
  value stored before. So the value stored is V for no V other than 0 and 255, and with that
  shader for V = 0 only.
\<close>

theorem render_stencil_pushes_index_after_loop:
  assumes "pipelinesBuiltByHandler h"
    and "riAspect (renderTarget job) = VK_IMAGE_ASPECT_STENCIL_BIT"
    and "render env h job tsk = (RenderReturned None, h', tsk')"
  shows "\<exists>ro.
      recorded tsk' = recorded tsk
          @ [VkCmdPipelineBarrier (Suc (length (inputAttachmentImages job)))]
          @ concat (map (\<lambda>i. bitPlanePass ro 8 i) [0..<8])
          @ [VkCmdPipelineBarrier
               (Suc (length (filter (\<lambda>input. riFinalLayout input
                                         \<noteq> VK_IMAGE_LAYOUT_SHADER_READ_ONLY_OPTIMAL)
                       (inputAttachmentImages job))))]
      \<and> draws (drop (length (recorded tsk)) (recorded tsk')) = replicate 8 (VkCmdDraw 6 1 0 0)
      \<and> roPipeline ro \<in> ran (rhPipelines h')
      \<and> gpStencilTestEnable (roPipeline ro)
      \<and> sCompareOp (gpFront (roPipeline ro)) = VK_COMPARE_OP_ALWAYS
      \<and> sPassOp (gpFront (roPipeline ro)) = VK_STENCIL_OP_REPLACE
      \<and> (\<forall>shader texel s.
            stencilValue (execute shader (roPipeline ro) texel s
                            (drop (length (recorded tsk)) (recorded tsk')))
              = (if shader 8 texel then 255 else 0))
      \<and> (\<forall>V s. stencilValue
                   (execute stencilFragmentKept (roPipeline ro) (ucast (V :: 8 word)) s
                      (drop (length (recorded tsk)) (recorded tsk'))) = 0)"
proof -
  from render_stencil_recorded [OF assms(2) assms(3)]
  obtain ro tsk1 where rs: "renderSetup env h job tsk = (h', tsk1, Inr ro)"
    and rec: "recorded tsk' = recorded tsk1
          @ [VkCmdPipelineBarrier (Suc (length (inputAttachmentImages job)))]
          @ concat (map (\<lambda>i. bitPlanePass ro 8 i) [0..<8])
          @ [VkCmdPipelineBarrier
               (Suc (length (filter (\<lambda>input. riFinalLayout input
                                         \<noteq> VK_IMAGE_LAYOUT_SHADER_READ_ONLY_OPTIMAL)
                       (inputAttachmentImages job))))]"
    by blast
  from renderSetup_objects [OF assms(1) rs] assms(2)
  have t1: "recorded tsk1 = recorded tsk"
    and ran: "roPipeline ro \<in> ran (rhPipelines h')"
    and en: "gpStencilTestEnable (roPipeline ro)"
    and fr: "gpFront (roPipeline ro) = frontStencilOpState"
    by simp_all
  let ?passes = "concat (map (\<lambda>i. bitPlanePass ro 8 i) [0..<8])"
  let ?n = "Suc (length (inputAttachmentImages job))"
  let ?m = "Suc (length (filter (\<lambda>input. riFinalLayout input
                                         \<noteq> VK_IMAGE_LAYOUT_SHADER_READ_ONLY_OPTIMAL)
                       (inputAttachmentImages job)))"
  have new: "drop (length (recorded tsk)) (recorded tsk')
               = [VkCmdPipelineBarrier ?n] @ ?passes @ [VkCmdPipelineBarrier ?m]"
    unfolding rec t1 by simp
  have d: "draws (drop (length (recorded tsk)) (recorded tsk')) = replicate 8 (VkCmdDraw 6 1 0 0)"
    unfolding new draws_append draws_passes by simp
  have e: "Suc 7 = 8"
    by simp
  have p: "?passes = concat (map (\<lambda>i. bitPlanePass ro 8 i) [0..<Suc 7])"
    by (simp only: e)
  have v: "stencilValue (execute shader (roPipeline ro) texel s
              (drop (length (recorded tsk)) (recorded tsk'))) = (if shader 8 texel then 255 else 0)"
    for shader texel s
  proof -
    have "stencilValue (execute shader (roPipeline ro) texel
             (execute shader (roPipeline ro) texel s [VkCmdPipelineBarrier ?n]) ?passes)
            = (if shader 8 texel then 255 else 0)"
      unfolding p using execute_passes_same_index [OF en fr, of shader texel _ 8 7] mask_8
      by simp
    then show ?thesis
      unfolding new execute_append by (simp add: execute_def)
  qed
  have k: "\<not> stencilFragmentKept 8 (ucast (V :: 8 word))" for V
    using bit_ucast_texel_8 [of V] by (simp add: stencilFragmentKept_def)
  have z: "stencilValue (execute stencilFragmentKept (roPipeline ro) (ucast (V :: 8 word)) s
              (drop (length (recorded tsk)) (recorded tsk'))) = 0" for V s
    using v [of stencilFragmentKept "ucast V" s] k [of V]
    by simp
  from rec t1 d ran en fr v z show ?thesis
    by (intro exI [of _ ro]) (simp add: frontStencilOpState_def)
qed

theorem render_stencil_pushes_index_after_loop_witness:
  "\<exists>h' tsk' p.
      render envStencil newImagePrimerRenderHandler jobStencil tskStencil
        = (RenderReturned None, h', tsk')
      \<and> draws (recorded tsk') = replicate 8 (VkCmdDraw 6 1 0 0)
      \<and> p \<in> ran (rhPipelines h')
      \<and> stencilValue (execute stencilFragmentKept p (ucast (165 :: 8 word)) gpuStart
                        (recorded tsk')) = 0
      \<and> (\<forall>shader. stencilValue (execute shader p (ucast (165 :: 8 word)) gpuStart
                                  (recorded tsk')) \<noteq> 165)"
proof -
  obtain out h' tsk' where
    r: "render envStencil newImagePrimerRenderHandler jobStencil tskStencil = (out, h', tsk')"
    by (metis prod_cases3)
  have "fst (render envStencil newImagePrimerRenderHandler jobStencil tskStencil)
          = RenderReturned None"
    by (simp add: render_def renderSetup_def Let_def envStencil_def jobStencil_def
        newImagePrimerRenderHandler_def createRenderPass_def getOrCreateDescriptorSetLayout_def
        getOrCreatePipelineLayout_def getOrCreateGraphicsPipeline_def
        getOrCreateShaderModule_render_def VK_IMAGE_ASPECT_STENCIL_BIT_def
        VK_IMAGE_ASPECT_COLOR_BIT_def VK_IMAGE_ASPECT_DEPTH_BIT_def split_def)
  with r have out: "out = RenderReturned None"
    by simp
  have b: "pipelinesBuiltByHandler newImagePrimerRenderHandler"
    by (simp add: pipelinesBuiltByHandler_def newImagePrimerRenderHandler_def)
  have a: "riAspect (renderTarget jobStencil) = VK_IMAGE_ASPECT_STENCIL_BIT"
    by (simp add: jobStencil_def)
  from render_stencil_pushes_index_after_loop [OF b a r [unfolded out]]
  obtain ro :: renderObjects
    where d: "draws (drop (length (recorded tskStencil)) (recorded tsk'))
                     = replicate 8 (VkCmdDraw 6 1 0 0)"
    and ran: "roPipeline ro \<in> ran (rhPipelines h')"
    and v: "\<forall>shader texel s.
            stencilValue (execute shader (roPipeline ro) texel s
                            (drop (length (recorded tskStencil)) (recorded tsk')))
              = (if shader 8 texel then 255 else 0)"
    and z: "\<forall>V s. stencilValue
                   (execute stencilFragmentKept (roPipeline ro) (ucast (V :: 8 word)) s
                      (drop (length (recorded tskStencil)) (recorded tsk'))) = 0"
    by (elim exE conjE) (rule that, assumption+)
  have l: "drop (length (recorded tskStencil)) (recorded tsk') = recorded tsk'"
    by (simp add: tskStencil_def)
  have n: "\<forall>shader. stencilValue (execute shader (roPipeline ro) (ucast (165 :: 8 word)) gpuStart
             (recorded tsk')) \<noteq> 165"
    using v unfolding l by simp
  have z165: "stencilValue (execute stencilFragmentKept (roPipeline ro) (ucast (165 :: 8 word))
             gpuStart (recorded tsk')) = 0"
    using z unfolding l by blast
  from r [unfolded out] d [unfolded l] ran z165 n show ?thesis
    by blast
qed

end
